theory Spec2Isabelle
  imports Main "HOL-Library.AList"
begin

section \<open>Python values of the Zarr backend\<close>

text \<open>
  The backend \<^verbatim>\<open>ZarrIO\<close> of \<^verbatim>\<open>src/hdmf_zarr/backend.py\<close> moves Python objects between
  a tree of builders and a Zarr store. The model keeps the part of Python's value universe the
  code branches on: the classes it tests with \<^verbatim>\<open>isinstance\<close> and \<^verbatim>\<open>hasattr\<close>.
\<close>

text \<open>Every exception the code raises or lets through is a value; the string is its message.\<close>

datatype error =
    ValueError string
  | TypeError string
  | KeyError string
  | IndexError string
  | AttributeError string
  | NotImplementedError string
  | Exception string
  | RecursionError

text \<open>
  Type objects: the values of the table \<^verbatim>\<open>__dtypes\<close>, and what \<^verbatim>\<open>type(data)\<close> returns
  for a scalar.
\<close>

datatype pytype =
    np_float32 | np_float64
  | np_int8 | np_int16 | np_int32 | np_int64
  | np_uint8 | np_uint16 | np_uint32 | np_uint64
  | np_bool | np_bytes
  | py_str | py_bytes | py_int | py_bool | py_NoneType | py_object
  | ZarrReferenceT

text \<open>
  The fields of the base class \<^verbatim>\<open>Builder\<close> that the backend reads: the object's identity
  (\<^verbatim>\<open>id(builder)\<close>, the key of the write-status tracker), \<^verbatim>\<open>name\<close>, \<^verbatim>\<open>location\<close>,
  \<^verbatim>\<open>source\<close>, the result of \<^verbatim>\<open>builder.get('object_id', None)\<close>, and the chain
  \<^verbatim>\<open>builder.parent\<close>, \<^verbatim>\<open>builder.parent.parent\<close>, ... given by the name and the object id of each
  ancestor, nearest first.
\<close>

datatype bhead = BHead
  (bid: nat)
  (b_name: string)
  (b_location: "string option")
  (b_source: "string option")
  (b_object_id: "string option")
  (b_parents: "(string \<times> string option) list")

text \<open>
  What \<^verbatim>\<open>__get_ref\<close> can be handed: a group or dataset builder, a \<^verbatim>\<open>LinkBuilder\<close> (with its
  target), a \<^verbatim>\<open>ReferenceBuilder\<close> (with its \<^verbatim>\<open>.builder\<close>), a \<^verbatim>\<open>RegionBuilder\<close> (a subclass
  of \<^verbatim>\<open>ReferenceBuilder\<close>), or a \<^verbatim>\<open>Container\<close>. A container carries the builder that
  \<^verbatim>\<open>self.manager.build\<close> returns for it and the value of its attribute \<^verbatim>\<open>.builder\<close>, when
  it has one.
\<close>

datatype ref_object =
    BuilderObj bhead
  | LinkBuilderObj bhead bhead
  | ReferenceBuilder bhead
  | RegionBuilder bhead
  | Container bhead "ref_object option"

text \<open>The class \<^verbatim>\<open>ZarrReference\<close>: a dict with four keys.\<close>

datatype zarr_reference = ZarrReference
  (ref_source: string)
  (ref_path: string)
  (ref_object_id: "string option")
  (ref_source_object_id: "string option")

text \<open>
  Values of attributes and of dataset elements. \<^verbatim>\<open>PNpGeneric t v\<close> is a numpy scalar of type
  \<^verbatim>\<open>t\<close> whose \<^verbatim>\<open>.item()\<close> is \<^verbatim>\<open>v\<close>; \<^verbatim>\<open>PNdarray\<close> is an array of one or more dimensions,
  \<^verbatim>\<open>PNdarray0\<close> one of dimension zero. Strings and bytes are both byte strings (a \<^verbatim>\<open>str\<close> is
  held in UTF-8).
\<close>

datatype pyval =
    PNone
  | PBool bool
  | PInt int
  | PStr string
  | PBytes string
  | PNpGeneric pytype pyval
  | PList "pyval list"
  | PTuple "pyval list"
  | PSet "pyval list"
  | PNdarray "pyval list"
  | PNdarray0 pyval
  | PDict "(string \<times> pyval) list"
  | PRef zarr_reference

text \<open>
  The value of a builder's attribute is a plain value or an object that stands for a
  reference (Case 2 of \<^verbatim>\<open>write_attributes\<close>).
\<close>

datatype attr_value = AVal pyval | ARefObj ref_object

section \<open>TypeResolver\<close>

text \<open>The table \<^verbatim>\<open>__dtypes\<close>; \<^verbatim>\<open>dtypes_get\<close> is its \<^verbatim>\<open>.get\<close>.\<close>

definition dtypes :: "(string \<times> pytype) list" where
  "dtypes = [
    (''float'', np_float32), (''float32'', np_float32),
    (''double'', np_float64), (''float64'', np_float64),
    (''long'', np_int64), (''int64'', np_int64), (''uint64'', np_uint64),
    (''int'', np_int32), (''int32'', np_int32), (''int16'', np_int16), (''int8'', np_int8),
    (''bool'', np_bool), (''bool_'', np_bool),
    (''text'', py_str), (''utf'', py_str), (''utf8'', py_str), (''utf-8'', py_str),
    (''ascii'', py_bytes), (''bytes'', py_bytes),
    (''str'', py_str), (''isodatetime'', py_str), (''string_'', py_bytes),
    (''uint32'', np_uint32), (''uint16'', np_uint16), (''uint8'', np_uint8),
    (''ref'', ZarrReferenceT), (''reference'', ZarrReferenceT),
    (''object'', ZarrReferenceT), (''region'', ZarrReferenceT)]"

definition dtypes_get :: "string \<Rightarrow> pytype option" where
  "dtypes_get k = map_of dtypes k"

text \<open>\<^verbatim>\<open>type(data)\<close> for a value without \<^verbatim>\<open>__len__\<close>.\<close>

fun type_of :: "pyval \<Rightarrow> pytype" where
  "type_of PNone = py_NoneType"
| "type_of (PBool _) = py_bool"
| "type_of (PInt _) = py_int"
| "type_of (PNpGeneric t _) = t"
| "type_of (PRef _) = ZarrReferenceT"
| "type_of _ = py_object"

text \<open>
  \<^verbatim>\<open>hasattr(data, '__len__')\<close>: strings, bytes (\<^verbatim>\<open>np.bytes_\<close> is a subclass of
  \<^verbatim>\<open>bytes\<close>), the containers and the arrays have a length; the scalars have none.
\<close>

fun has_len :: "pyval \<Rightarrow> bool" where
  "has_len PNone = False"
| "has_len (PBool _) = False"
| "has_len (PInt _) = False"
| "has_len (PNpGeneric t _) = (t = np_bytes)"
| "has_len _ = True"

text \<open>
  \<^verbatim>\<open>get_type\<close>, in the order of its tests. The result is what the Python returns: a type, or
  \<^verbatim>\<open>None\<close> where \<^verbatim>\<open>__dtypes.get\<close> finds nothing. Past the tests, \<^verbatim>\<open>len(data)\<close> raises on
  an array of dimension zero, and \<^verbatim>\<open>data[0]\<close> raises on a set and on a dict (the dicts of
  this model have string keys only).
\<close>

fun get_type :: "pyval \<Rightarrow> error + pytype option" where
  "get_type (PStr s) = Inr (dtypes_get ''str'')"
| "get_type (PBytes b) = Inr (dtypes_get ''bytes'')"
| "get_type (PNpGeneric t v) = (if t = np_bytes then Inr (dtypes_get ''bytes'') else Inr (Some t))"
| "get_type PNone = Inr (Some (type_of PNone))"
| "get_type (PBool b) = Inr (Some (type_of (PBool b)))"
| "get_type (PInt i) = Inr (Some (type_of (PInt i)))"
| "get_type (PList []) = Inl (ValueError ''cannot determine type for empty data'')"
| "get_type (PList (x # xs)) = get_type x"
| "get_type (PTuple []) = Inl (ValueError ''cannot determine type for empty data'')"
| "get_type (PTuple (x # xs)) = get_type x"
| "get_type (PNdarray []) = Inl (ValueError ''cannot determine type for empty data'')"
| "get_type (PNdarray (x # xs)) = get_type x"
| "get_type (PSet []) = Inl (ValueError ''cannot determine type for empty data'')"
| "get_type (PSet (x # xs)) = Inl (TypeError ''set object is not subscriptable'')"
| "get_type (PDict []) = Inl (ValueError ''cannot determine type for empty data'')"
| "get_type (PDict (x # xs)) = Inl (KeyError ''0'')"
| "get_type (PRef r) = Inl (KeyError ''0'')"
| "get_type (PNdarray0 v) = Inl (TypeError ''len() of unsized object'')"

text \<open>
  A declared dtype, as a builder or a compound field carries it: \<^verbatim>\<open>None\<close>, a type, a numpy
  dtype, a name, a dict (with the value of its key \<^verbatim>\<open>reftype\<close>, if it has one), a list of named
  fields, a \<^verbatim>\<open>RefSpec\<close> (a dict with its \<^verbatim>\<open>reftype\<close>), a \<^verbatim>\<open>DtypeSpec\<close> (a dict with the keys
  \<^verbatim>\<open>name\<close>, \<^verbatim>\<open>doc\<close> and \<^verbatim>\<open>dtype\<close>), or anything else. A resolved dtype is \<^verbatim>\<open>None\<close>, a type or a
  numpy dtype, scalar or structured.
\<close>

datatype rdtype =
    RNone
  | RType pytype
  | RNpScalar pytype
  | RNpStruct "(string \<times> rdtype) list"

datatype dtype_spec =
    DNone
  | DType pytype
  | DNpDtype rdtype
  | DStr string
  | DDict "string option"
  | DList "(string \<times> dtype_spec) list"
  | DRefSpec string
  | DDtypeSpec dtype_spec
  | DOther

definition of_type_option :: "pytype option \<Rightarrow> rdtype" where
  "of_type_option t = (case t of None \<Rightarrow> RNone | Some ty \<Rightarrow> RType ty)"

text \<open>
  \<^verbatim>\<open>__resolve_dtype_helper__\<close>. The numpy dtype built from a list of fields is kept as the
  list of the fields' resolved dtypes.
\<close>

fun resolve_dtype_helper :: "dtype_spec \<Rightarrow> error + rdtype"
  and resolve_fields :: "(string \<times> dtype_spec) list \<Rightarrow> error + (string \<times> rdtype) list" where
  "resolve_dtype_helper DNone = Inr RNone"
| "resolve_dtype_helper (DType t) = Inr (RType t)"
| "resolve_dtype_helper (DNpDtype d) = Inr d"
| "resolve_dtype_helper (DStr s) = Inr (of_type_option (dtypes_get s))"
| "resolve_dtype_helper (DDict None) = Inl (KeyError ''reftype'')"
| "resolve_dtype_helper (DDict (Some r)) = Inr (of_type_option (dtypes_get r))"
| "resolve_dtype_helper (DRefSpec r) = Inr (of_type_option (dtypes_get r))"
| "resolve_dtype_helper (DDtypeSpec d) = Inl (KeyError ''reftype'')"
| "resolve_dtype_helper (DList fs) =
     (case resolve_fields fs of Inl e \<Rightarrow> Inl e | Inr rs \<Rightarrow> Inr (RNpStruct rs))"
| "resolve_dtype_helper DOther = Inl (ValueError ''Cant resolve dtype'')"
| "resolve_fields [] = Inr []"
| "resolve_fields ((n, d) # fs) =
     (case resolve_dtype_helper d of
        Inl e \<Rightarrow> Inl e
      | Inr r \<Rightarrow> (case resolve_fields fs of Inl e \<Rightarrow> Inl e | Inr rs \<Rightarrow> Inr ((n, r) # rs)))"

text \<open>\<^verbatim>\<open>__is_ref\<close>.\<close>

fun is_ref :: "dtype_spec \<Rightarrow> bool" where
  "is_ref (DDtypeSpec d) = is_ref d"
| "is_ref (DRefSpec r) = True"
| "is_ref (DNpDtype d) = False"
| "is_ref (DStr s) = (s = ''object'' \<or> s = ''region'')"
| "is_ref d = False"

text \<open>\<^verbatim>\<open>__resolve_dtype__\<close>: the declared dtype, or the type of the data when that is \<^verbatim>\<open>None\<close>.\<close>

definition resolve_dtype :: "dtype_spec \<Rightarrow> pyval \<Rightarrow> error + rdtype" where
  "resolve_dtype dtype data =
     (case resolve_dtype_helper dtype of
        Inl e \<Rightarrow> Inl e
      | Inr RNone \<Rightarrow> (case get_type data of Inl e \<Rightarrow> Inl e | Inr t \<Rightarrow> Inr (of_type_option t))
      | Inr d \<Rightarrow> Inr d)"

section \<open>Builders, the store and the session\<close>

datatype store_kind = DirectoryStore | FSStore | ConsolidatedMetadataStore

text \<open>
  A \<^verbatim>\<open>Group\<close> or \<^verbatim>\<open>Array\<close> object of the zarr library is a handle: the class and the path of
  its store, and its own path in the store as the list of its segments (\<^verbatim>\<open>[]\<close> is the root).
\<close>

datatype zobj = ZObj (z_kind: store_kind) (z_store_path: string) (z_path: "string list")

datatype cell = CVal pyval | CObj ref_object

datatype io_setting =
    SShape "nat list"
  | SChunks "nat list option"
  | SDtype rdtype
  | SObjectCodec
  | SOther pyval

text \<open>
  The value of a dataset builder, by the classes \<^verbatim>\<open>write_dataset\<close> tells apart. A basic value
  is a plain Python value, a \<^verbatim>\<open>zarr.core.Array\<close> (a handle into a store), a \<^verbatim>\<open>ReferenceBuilder\<close>,
  a sequence of referenced objects, the rows of a compound dataset, or an
  \<^verbatim>\<open>AbstractDataChunkIterator\<close> (with its recommended chunk shape, its recommended data shape,
  its dtype and the array it produces). An \<^verbatim>\<open>HDMFDataset\<close> is a dataset of containers or one
  that \<^verbatim>\<open>data[:]\<close> loads to a basic value; the lazy views of the read side are such datasets.
  The wrapper \<^verbatim>\<open>ZarrDataIO\<close> adds I/O settings and its own \<^verbatim>\<open>link_data\<close>.
\<close>

datatype dataset_data =
    Plain pyval
  | ArrayData zobj
  | ReferenceBuilderData ref_object
  | RefSequence "ref_object list"
  | Rows "cell list list"
  | DataChunkIterator "nat list option" "nat list" dtype_spec pyval

datatype hdmf_data =
    Data dataset_data
  | HDMFDataset_containers "ref_object list"
  | HDMFDataset_loaded dataset_data
  | BuilderZarrTableDataset zobj "pyval list"
  | BuilderZarrReferenceDataset zobj

datatype builder_data =
    Unwrapped hdmf_data
  | ZarrDataIO "(string \<times> io_setting) list" bool hdmf_data

text \<open>
  The three builder classes. The dicts \<^verbatim>\<open>groups\<close>, \<^verbatim>\<open>datasets\<close> and \<^verbatim>\<open>links\<close> of a group are
  lists in insertion order (each builder carries its name); an attribute that holds another
  builder holds its header. A \<^verbatim>\<open>LinkBuilder\<close> holds its target (\<^verbatim>\<open>.builder\<close>).
\<close>

datatype builder =
    GroupBuilder bhead "(string \<times> attr_value) list" "builder list" "builder list" "builder list"
  | DatasetBuilder bhead "(string \<times> attr_value) list" builder_data dtype_spec
  | LinkBuilder bhead bhead

fun head_of :: "builder \<Rightarrow> bhead" where
  "head_of (GroupBuilder h _ _ _ _) = h"
| "head_of (DatasetBuilder h _ _ _) = h"
| "head_of (LinkBuilder h _) = h"

fun attributes_of :: "builder \<Rightarrow> (string \<times> attr_value) list" where
  "attributes_of (GroupBuilder _ a _ _ _) = a"
| "attributes_of (DatasetBuilder _ a _ _) = a"
| "attributes_of (LinkBuilder _ _) = []"

text \<open>
  A node of a store: a group with its attributes, or an array with its attributes, shape,
  chunks, storage dtype and content. A store (\<^verbatim>\<open>zfile\<close>) says whether it is remote (an
  \<^verbatim>\<open>FSStore\<close>), whether it has consolidated metadata, and maps the paths to the nodes. The
  file system maps the location of each store to the store.
\<close>

datatype znode =
    ZGroup (zn_attrs: "(string \<times> pyval) list")
  | ZArray (zn_attrs: "(string \<times> pyval) list") (zn_shape: "nat list") (zn_chunks: "nat list")
      (zn_dtype: rdtype) (zn_data: pyval)

datatype zfile = ZFile (zf_remote: bool) (zf_consolidated: bool)
  (zf_nodes: "(string list \<times> znode) list")

text \<open>
  The calls into the zarr library that change a store, in the order they are made; and the two
  calls on the chunk-iterator queue.
\<close>

datatype zcall =
    RequireGroup zobj string
  | RequireDataset zobj string
  | CreateDataset zobj string
  | Copy zobj zobj string
  | SetAttr zobj string pyval
  | SetItem zobj pyval
  | QueueAppend zobj
  | ExhaustQueue
  | ConsolidateMetadata string

text \<open>
  The fields of a \<^verbatim>\<open>ZarrIO\<close> object: \<^verbatim>\<open>source\<close>, \<^verbatim>\<open>path\<close>, \<^verbatim>\<open>__file\<close>, \<^verbatim>\<open>__built\<close>,
  \<^verbatim>\<open>_written_builders\<close> (the identities flagged written), \<^verbatim>\<open>__dci_queue\<close>; and the world
  it acts on: the stores, the warnings issued, the next free object identity and the log of
  calls.
\<close>

record zarrio =
  io_source :: string
  io_path :: string
  io_file :: "zobj option"
  io_built :: "(string \<times> builder) list"
  io_written :: "nat list"
  io_dci_queue :: "(zobj \<times> pyval) list option"
  io_stores :: "(string \<times> zfile) list"
  io_warnings :: "string list"
  io_next_id :: nat
  io_calls :: "zcall list"

text \<open>
  What the model takes from Python's libraries as parameters: the functions of \<^verbatim>\<open>os.path\<close>
  (they read the file system and the working directory), whether a byte string decodes as
  UTF-8, \<^verbatim>\<open>str(x)\<close> of a value that is not a string, \<^verbatim>\<open>np.dtype(d).str\<close>, \<^verbatim>\<open>get_data_shape\<close> of HDMF,
  whether numpy and zarr reject the assignment of a value to an array of a given dtype with a
  \<^verbatim>\<open>ValueError\<close>, and the value an array of a given dtype holds after a value has been
  assigned to it (numpy casts to the dtype of the array).
\<close>

record pylib =
  os_normpath :: "string \<Rightarrow> string"
  os_join :: "string \<Rightarrow> string \<Rightarrow> string"
  os_abspath :: "string \<Rightarrow> string"
  os_relpath :: "string \<Rightarrow> string \<Rightarrow> string"
  os_isdir :: "string \<Rightarrow> bool"
  os_exists :: "string \<Rightarrow> bool"
  os_dirname :: "string \<Rightarrow> string"
  utf8_valid :: "string \<Rightarrow> bool"
  py_repr :: "pyval \<Rightarrow> string"
  np_dtype_str :: "rdtype \<Rightarrow> string"
  get_data_shape :: "pyval \<Rightarrow> nat list"
  setitem_rejects :: "rdtype \<Rightarrow> pyval \<Rightarrow> bool"
  np_cast :: "rdtype \<Rightarrow> pyval \<Rightarrow> pyval"

definition ROOT_NAME :: string where
  "ROOT_NAME = ''root''"

definition warn :: "string \<Rightarrow> zarrio \<Rightarrow> zarrio" where
  "warn msg self = self\<lparr>io_warnings := io_warnings self @ [msg]\<rparr>"

section \<open>PathRegistry\<close>

text \<open>\<^verbatim>\<open>str.replace("\\", "/")\<close>, \<^verbatim>\<open>"/".join\<close>, and \<^verbatim>\<open>os.path.basename\<close> (POSIX).\<close>

definition replace_backslash :: "string \<Rightarrow> string" where
  "replace_backslash p = map (\<lambda>c. if c = CHR 0x5C then CHR ''/'' else c) p"

fun join_slash :: "string list \<Rightarrow> string" where
  "join_slash [] = []"
| "join_slash [x] = x"
| "join_slash (x # y # ys) = x @ ''/'' @ join_slash (y # ys)"

definition basename :: "string \<Rightarrow> string" where
  "basename p = rev (takeWhile (\<lambda>c. c \<noteq> CHR ''/'') (rev p))"

text \<open>
  The loop of \<^verbatim>\<open>__get_path\<close> over \<^verbatim>\<open>curr = curr.parent\<close>: the names up to the first builder
  named \<^verbatim>\<open>ROOT_NAME\<close>, nearest first. The chain starts with the builder itself.
\<close>

fun collect_names :: "(string \<times> string option) list \<Rightarrow> string list" where
  "collect_names [] = []"
| "collect_names ((n, oid) # ps) = (if n = ROOT_NAME then [] else n # collect_names ps)"

definition chain_of :: "bhead \<Rightarrow> (string \<times> string option) list" where
  "chain_of b = (b_name b, b_object_id b) # b_parents b"

definition get_path :: "pylib \<Rightarrow> bhead \<Rightarrow> string" where
  "get_path lib builder =
     (case b_location builder of
        Some loc \<Rightarrow> replace_backslash (os_normpath lib (os_join lib loc (b_name builder)))
      | None \<Rightarrow> ''/'' @ join_slash (rev (collect_names (chain_of builder))))"

text \<open>\<^verbatim>\<open>get_written\<close> and \<^verbatim>\<open>set_written\<close> of the write-status tracker, keyed by identity.\<close>

definition get_written :: "zarrio \<Rightarrow> builder \<Rightarrow> bool" where
  "get_written self builder = (bid (head_of builder) \<in> set (io_written self))"

definition set_written :: "builder \<Rightarrow> zarrio \<Rightarrow> zarrio" where
  "set_written builder self =
     (if bid (head_of builder) \<in> set (io_written self) then self
      else self\<lparr>io_written := io_written self @ [bid (head_of builder)]\<rparr>)"

section \<open>ReferenceResolver\<close>

text \<open>
  The first part of \<^verbatim>\<open>__get_ref\<close>: the builder a referenced object stands for. A region
  reference is refused; for a link the code reads the attribute \<^verbatim>\<open>target_builder\<close>, which a
  \<^verbatim>\<open>LinkBuilder\<close> of HDMF does not have (its target is \<^verbatim>\<open>.builder\<close>, as \<^verbatim>\<open>write_link\<close> reads it), so
  Python raises \<^verbatim>\<open>AttributeError\<close>; a container gives what the build manager builds.
\<close>

fun ref_builder :: "ref_object \<Rightarrow> error + bhead" where
  "ref_builder (RegionBuilder b) =
     Inl (NotImplementedError ''Region references are currently not supported by ZarrIO'')"
| "ref_builder (BuilderObj b) = Inr b"
| "ref_builder (LinkBuilderObj l target) =
     Inl (AttributeError ''LinkBuilder object has no attribute target_builder'')"
| "ref_builder (ReferenceBuilder b) = Inr b"
| "ref_builder (Container built attr) = Inr built"

text \<open>The loop of \<^verbatim>\<open>__get_ref\<close> that follows the parents to the builder named \<^verbatim>\<open>ROOT_NAME\<close>.\<close>

fun find_root :: "(string \<times> string option) list \<Rightarrow> (string \<times> string option) option" where
  "find_root [] = None"
| "find_root ((n, oid) # ps) = (if n = ROOT_NAME then Some (n, oid) else find_root ps)"

definition get_ref :: "pylib \<Rightarrow> zarrio \<Rightarrow> ref_object \<Rightarrow> string option
    \<Rightarrow> (error + zarr_reference) \<times> zarrio" where
  "get_ref lib self ref_object export_source =
     (case ref_builder ref_object of
        Inl e \<Rightarrow> (Inl e, self)
      | Inr builder \<Rightarrow>
          let path = get_path lib builder;
              object_id = b_object_id builder;
              (source_object_id, self1) =
                (case find_root (chain_of builder) of
                   Some root \<Rightarrow> (snd root, self)
                 | None \<Rightarrow> (None, warn (''Could not determine source_object_id for builder with path: '' @ path) self));
              source0 =
                (case b_source builder of
                   Some s \<Rightarrow> if os_isdir lib s then s else io_source self
                 | None \<Rightarrow> io_source self);
              source =
                (case export_source of
                   Some es \<Rightarrow> ''.''
                 | None \<Rightarrow> os_relpath lib (os_abspath lib source0) (os_abspath lib (io_source self)))
          in (Inr (ZarrReference source path object_id source_object_id), self1))"

section \<open>The store boundary\<close>

text \<open>
  The operations of the zarr library the backend calls, on the model of the stores. Each
  call that changes a store is appended to the log \<^verbatim>\<open>io_calls\<close>.
\<close>

definition lookup_node :: "zarrio \<Rightarrow> zobj \<Rightarrow> znode option" where
  "lookup_node self obj =
     (case map_of (io_stores self) (z_store_path obj) of
        None \<Rightarrow> None
      | Some f \<Rightarrow> map_of (zf_nodes f) (z_path obj))"

definition update_node :: "zobj \<Rightarrow> znode \<Rightarrow> zarrio \<Rightarrow> zarrio" where
  "update_node obj n self =
     (case map_of (io_stores self) (z_store_path obj) of
        None \<Rightarrow> self
      | Some f \<Rightarrow> self\<lparr>io_stores := AList.update (z_store_path obj)
          (ZFile (zf_remote f) (zf_consolidated f) (AList.update (z_path obj) n (zf_nodes f)))
          (io_stores self)\<rparr>)"

definition log_call :: "zcall \<Rightarrow> zarrio \<Rightarrow> zarrio" where
  "log_call c self = self\<lparr>io_calls := io_calls self @ [c]\<rparr>"

fun with_attrs :: "znode \<Rightarrow> (string \<times> pyval) list \<Rightarrow> znode" where
  "with_attrs (ZGroup a) a' = ZGroup a'"
| "with_attrs (ZArray a sh ch dt d) a' = ZArray a' sh ch dt d"

text \<open>
  Modelled from the spec: the class \<^verbatim>\<open>ZarrReference\<close> of \<^verbatim>\<open>hdmf_zarr/utils.py\<close> is not among
  the sources; the spec gives the wire shape of a reference record as
  \<^verbatim>\<open>{source, path, object_id, source_object_id}\<close>, with \<^verbatim>\<open>null\<close> for an absent id.
\<close>

definition json_opt :: "string option \<Rightarrow> pyval" where
  "json_opt x = (case x of None \<Rightarrow> PNone | Some s \<Rightarrow> PStr s)"

definition json_ref :: "zarr_reference \<Rightarrow> pyval" where
  "json_ref r = PDict [(''source'', PStr (ref_source r)), (''path'', PStr (ref_path r)),
     (''object_id'', json_opt (ref_object_id r)),
     (''source_object_id'', json_opt (ref_source_object_id r))]"

text \<open>
  What an attribute holds after \<^verbatim>\<open>obj.attrs[key] = v\<close>: the value as JSON reads it back
  (a tuple comes back as a list), or nothing when the value is not JSON serializable and the
  assignment raises \<^verbatim>\<open>TypeError\<close>. zarr's encoder takes a numpy integer or float as a number,
  at any depth; bytes, the other numpy scalars (\<^verbatim>\<open>np.bool_\<close>, \<^verbatim>\<open>np.bytes_\<close>), sets and arrays are
  not serializable.
\<close>

definition np_number :: "pytype \<Rightarrow> bool" where
  "np_number t = (t \<in> {np_float32, np_float64, np_int8, np_int16, np_int32, np_int64,
     np_uint8, np_uint16, np_uint32, np_uint64})"

fun json_of :: "pyval \<Rightarrow> pyval option"
  and json_list :: "pyval list \<Rightarrow> pyval list option"
  and json_items :: "(string \<times> pyval) list \<Rightarrow> (string \<times> pyval) list option" where
  "json_of PNone = Some PNone"
| "json_of (PBool b) = Some (PBool b)"
| "json_of (PInt i) = Some (PInt i)"
| "json_of (PStr s) = Some (PStr s)"
| "json_of (PBytes b) = None"
| "json_of (PNpGeneric t v) = (if np_number t then json_of v else None)"
| "json_of (PList xs) = map_option PList (json_list xs)"
| "json_of (PTuple xs) = map_option PList (json_list xs)"
| "json_of (PSet xs) = None"
| "json_of (PNdarray xs) = None"
| "json_of (PNdarray0 v) = None"
| "json_of (PDict kvs) = map_option PDict (json_items kvs)"
| "json_of (PRef r) = Some (json_ref r)"
| "json_list [] = Some []"
| "json_list (x # xs) =
     (case json_of x of None \<Rightarrow> None
      | Some j \<Rightarrow> (case json_list xs of None \<Rightarrow> None | Some js \<Rightarrow> Some (j # js)))"
| "json_items [] = Some []"
| "json_items ((k, x) # kvs) =
     (case json_of x of None \<Rightarrow> None
      | Some j \<Rightarrow> (case json_items kvs of None \<Rightarrow> None | Some js \<Rightarrow> Some ((k, j) # js)))"

text \<open>\<^verbatim>\<open>obj.attrs[key] = v\<close>, \<^verbatim>\<open>key in obj.attrs\<close> and \<^verbatim>\<open>obj.attrs[key]\<close>.\<close>

definition attrs_set :: "zobj \<Rightarrow> string \<Rightarrow> pyval \<Rightarrow> zarrio \<Rightarrow> (error + unit) \<times> zarrio" where
  "attrs_set obj key v self =
     (case json_of v of
        None \<Rightarrow> (Inl (TypeError ''Object is not JSON serializable''), self)
      | Some j \<Rightarrow>
          (case lookup_node self obj of
             None \<Rightarrow> (Inl (KeyError (join_slash (z_path obj))), self)
           | Some n \<Rightarrow>
               (Inr (), log_call (SetAttr obj key v)
                  (update_node obj (with_attrs n (AList.update key j (zn_attrs n))) self))))"

definition attrs_contains :: "zarrio \<Rightarrow> zobj \<Rightarrow> string \<Rightarrow> bool" where
  "attrs_contains self obj key =
     (case lookup_node self obj of
        None \<Rightarrow> False
      | Some n \<Rightarrow> key \<in> set (map fst (zn_attrs n)))"

definition attrs_get :: "zarrio \<Rightarrow> zobj \<Rightarrow> string \<Rightarrow> error + pyval" where
  "attrs_get self obj key =
     (case lookup_node self obj of
        None \<Rightarrow> Inl (KeyError key)
      | Some n \<Rightarrow> (case map_of (zn_attrs n) key of None \<Rightarrow> Inl (KeyError key) | Some v \<Rightarrow> Inr v))"

section \<open>WriteEngine: attributes and links\<close>

text \<open>
  The conversion \<^verbatim>\<open>write_attributes\<close> retries with, for one element or scalar: \<^verbatim>\<open>.item()\<close> of
  a numpy scalar that is not \<^verbatim>\<open>np.bytes_\<close>, \<^verbatim>\<open>.decode("utf-8")\<close> of bytes (which raises on
  bytes that are not UTF-8), the value itself otherwise.
\<close>

fun convert_item :: "pylib \<Rightarrow> pyval \<Rightarrow> pyval option" where
  "convert_item lib (PNpGeneric t v) =
     (if t \<noteq> np_bytes then Some v
      else (case v of PBytes b \<Rightarrow> (if utf8_valid lib b then Some (PStr b) else None)
            | _ \<Rightarrow> None))"
| "convert_item lib (PBytes b) = (if utf8_valid lib b then Some (PStr b) else None)"
| "convert_item lib v = Some v"

fun convert_items :: "pylib \<Rightarrow> pyval list \<Rightarrow> pyval list option" where
  "convert_items lib [] = Some []"
| "convert_items lib (x # xs) =
     (case convert_item lib x of None \<Rightarrow> None
      | Some y \<Rightarrow> (case convert_items lib xs of None \<Rightarrow> None | Some ys \<Rightarrow> Some (y # ys)))"

text \<open>\<^verbatim>\<open>ndarray.tolist()\<close>: nested lists of Python scalars.\<close>

fun tolist :: "pyval \<Rightarrow> pyval" where
  "tolist (PNdarray xs) = PList (map tolist xs)"
| "tolist (PNdarray0 v) = tolist v"
| "tolist (PNpGeneric t v) = v"
| "tolist v = v"

fun str_of_error :: "error \<Rightarrow> string" where
  "str_of_error (ValueError m) = m"
| "str_of_error (TypeError m) = m"
| "str_of_error (KeyError m) = m"
| "str_of_error (IndexError m) = m"
| "str_of_error (AttributeError m) = m"
| "str_of_error (NotImplementedError m) = m"
| "str_of_error (Exception m) = m"
| "str_of_error RecursionError = ''maximum recursion depth exceeded''"

text \<open>
  Case 1 of \<^verbatim>\<open>write_attributes\<close>: \<^verbatim>\<open>items\<close> are the elements of the value and \<^verbatim>\<open>tmp\<close> the
  tuple first assigned. The messages leave out the renderings of the type and of the value.
\<close>

definition write_sequence_attribute :: "pylib \<Rightarrow> zobj \<Rightarrow> string \<Rightarrow> pyval list \<Rightarrow> pyval
    \<Rightarrow> zarrio \<Rightarrow> (error + unit) \<times> zarrio" where
  "write_sequence_attribute lib obj key items tmp self =
     (case attrs_set obj key tmp self of
        (Inr u, self1) \<Rightarrow> (Inr u, self1)
      | (Inl (TypeError m), self1) \<Rightarrow>
          (case convert_items lib items of
             None \<Rightarrow> (Inl (TypeError (m @ '' type= data='')), self1)
           | Some conv \<Rightarrow>
               (case attrs_set obj key (PTuple conv) self1 of
                  (Inr u, self2) \<Rightarrow> (Inr u, self2)
                | (Inl e, self2) \<Rightarrow> (Inl (TypeError (m @ '' type= data='')), self2)))
      | (Inl e, self1) \<Rightarrow> (Inl e, self1))"

text \<open>Case 3: a scalar. For an array of dimension zero the retry assigns a bound method.\<close>

definition write_scalar_attribute :: "pylib \<Rightarrow> zobj \<Rightarrow> string \<Rightarrow> pyval
    \<Rightarrow> zarrio \<Rightarrow> (error + unit) \<times> zarrio" where
  "write_scalar_attribute lib obj key v self =
     (case attrs_set obj key v self of
        (Inr u, self1) \<Rightarrow> (Inr u, self1)
      | (Inl (TypeError m), self1) \<Rightarrow>
          (case (case v of PNdarray0 x \<Rightarrow> None | _ \<Rightarrow> convert_item lib v) of
             None \<Rightarrow> (Inl (TypeError (m @ ''key='' @ key @ '' type= data='')), self1)
           | Some conv \<Rightarrow>
               (case attrs_set obj key conv self1 of
                  (Inr u, self2) \<Rightarrow> (Inr u, self2)
                | (Inl e, self2) \<Rightarrow> (Inl (TypeError (m @ ''key='' @ key @ '' type= data='')), self2)))
      | (Inl e, self1) \<Rightarrow> (Inl e, self1))"

text \<open>
  Case 2: the reference for a \<^verbatim>\<open>Builder\<close> is that of the value itself, for the others that of
  \<^verbatim>\<open>value.builder\<close> (a container without the attribute \<^verbatim>\<open>builder\<close> raises).
\<close>

fun attribute_ref :: "pylib \<Rightarrow> zarrio \<Rightarrow> ref_object \<Rightarrow> string option
    \<Rightarrow> (error + zarr_reference) \<times> zarrio" where
  "attribute_ref lib self (BuilderObj b) export_source = get_ref lib self (BuilderObj b) export_source"
| "attribute_ref lib self (LinkBuilderObj l t) export_source =
     get_ref lib self (LinkBuilderObj l t) export_source"
| "attribute_ref lib self (ReferenceBuilder b) export_source = get_ref lib self (BuilderObj b) export_source"
| "attribute_ref lib self (RegionBuilder b) export_source = get_ref lib self (BuilderObj b) export_source"
| "attribute_ref lib self (Container built None) export_source =
     (Inl (AttributeError ''builder''), self)"
| "attribute_ref lib self (Container built (Some b)) export_source = get_ref lib self b export_source"

text \<open>The body of the loop of \<^verbatim>\<open>write_attributes\<close>, and the loop.\<close>

fun write_attribute :: "pylib \<Rightarrow> zobj \<Rightarrow> string option \<Rightarrow> string \<times> attr_value
    \<Rightarrow> zarrio \<Rightarrow> (error + unit) \<times> zarrio" where
  "write_attribute lib obj export_source (key, AVal (PSet xs)) self =
     write_sequence_attribute lib obj key xs (PTuple xs) self"
| "write_attribute lib obj export_source (key, AVal (PList xs)) self =
     write_sequence_attribute lib obj key xs (PTuple xs) self"
| "write_attribute lib obj export_source (key, AVal (PTuple xs)) self =
     write_sequence_attribute lib obj key xs (PTuple xs) self"
| "write_attribute lib obj export_source (key, AVal (PNdarray xs)) self =
     write_sequence_attribute lib obj key xs (PTuple (map tolist xs)) self"
| "write_attribute lib obj export_source (key, ARefObj v) self =
     (case attribute_ref lib self v export_source of
        (Inl e, self1) \<Rightarrow> (Inl e, self1)
      | (Inr refs, self1) \<Rightarrow>
          attrs_set obj key (PDict [(''zarr_dtype'', PStr ''object''), (''value'', PRef refs)]) self1)"
| "write_attribute lib obj export_source (key, AVal v) self =
     write_scalar_attribute lib obj key v self"

fun write_attributes :: "pylib \<Rightarrow> zarrio \<Rightarrow> zobj \<Rightarrow> (string \<times> attr_value) list \<Rightarrow> string option
    \<Rightarrow> (error + unit) \<times> zarrio" where
  "write_attributes lib self obj [] export_source = (Inr (), self)"
| "write_attributes lib self obj (kv # attributes) export_source =
     (case write_attribute lib obj export_source kv self of
        (Inl e, self1) \<Rightarrow> (Inl e, self1)
      | (Inr u, self1) \<Rightarrow> write_attributes lib self1 obj attributes export_source)"

text \<open>\<^verbatim>\<open>list(x)\<close> for a value read from an attribute.\<close>

fun py_list :: "pyval \<Rightarrow> error + pyval list" where
  "py_list (PList xs) = Inr xs"
| "py_list (PStr s) = Inr (map (\<lambda>c. PStr [c]) s)"
| "py_list (PDict kvs) = Inr (map (\<lambda>kv. PStr (fst kv)) kvs)"
| "py_list v = Inl (TypeError ''object is not iterable'')"

text \<open>\<^verbatim>\<open>__add_link__\<close>.\<close>

definition add_link :: "zarrio \<Rightarrow> zobj \<Rightarrow> string \<Rightarrow> string \<Rightarrow> string \<Rightarrow> (error + unit) \<times> zarrio" where
  "add_link self parent target_source target_path link_name =
     (case (if \<not> attrs_contains self parent ''zarr_link''
            then attrs_set parent ''zarr_link'' (PList []) self else (Inr (), self)) of
        (Inl e, self1) \<Rightarrow> (Inl e, self1)
      | (Inr u, self1) \<Rightarrow>
          (case attrs_get self1 parent ''zarr_link'' of
             Inl e \<Rightarrow> (Inl e, self1)
           | Inr v \<Rightarrow>
               (case py_list v of
                  Inl e \<Rightarrow> (Inl e, self1)
                | Inr zarr_link \<Rightarrow>
                    attrs_set parent ''zarr_link''
                      (PList (zarr_link @ [PDict [(''source'', PStr target_source),
                         (''path'', PStr target_path), (''name'', PStr link_name)]])) self1)))"

text \<open>\<^verbatim>\<open>obj.attrs.get(k)\<close> as a reader sees it, and \<^verbatim>\<open>d.get(k)\<close> of a value that is a dict.\<close>

definition attr_at :: "zarrio \<Rightarrow> zobj \<Rightarrow> string \<Rightarrow> pyval option" where
  "attr_at self obj k =
     (case lookup_node self obj of None \<Rightarrow> None | Some n \<Rightarrow> map_of (zn_attrs n) k)"

definition dict_get :: "pyval \<Rightarrow> string \<Rightarrow> pyval option" where
  "dict_get d k = (case d of PDict kvs \<Rightarrow> map_of kvs k | _ \<Rightarrow> None)"

section \<open>Opening stores and resolving references\<close>

text \<open>
  \<^verbatim>\<open>zarr.open_consolidated\<close> raises \<^verbatim>\<open>KeyError\<close> when the location has no consolidated metadata
  (\<^verbatim>\<open>.zmetadata\<close>); \<^verbatim>\<open>zarr.open\<close> in mode \<^verbatim>\<open>r\<close> raises when there is no store at the
  location. Both return the root of the store.
\<close>

definition zarr_open_consolidated :: "zarrio \<Rightarrow> string \<Rightarrow> error + zobj" where
  "zarr_open_consolidated self store =
     (case map_of (io_stores self) store of
        None \<Rightarrow> Inl (KeyError ''.zmetadata'')
      | Some f \<Rightarrow>
          if zf_consolidated f then Inr (ZObj ConsolidatedMetadataStore store [])
          else Inl (KeyError ''.zmetadata''))"

definition zarr_open :: "zarrio \<Rightarrow> string \<Rightarrow> error + zobj" where
  "zarr_open self store =
     (case map_of (io_stores self) store of
        None \<Rightarrow> Inl (ValueError ''nothing found at path'')
      | Some f \<Rightarrow> Inr (ZObj (if zf_remote f then FSStore else DirectoryStore) store []))"

text \<open>\<^verbatim>\<open>__open_file_consolidated\<close>: the consolidated form first, the plain open on \<^verbatim>\<open>KeyError\<close>.\<close>

definition open_file_consolidated :: "zarrio \<Rightarrow> string \<Rightarrow> string \<Rightarrow> error + zobj" where
  "open_file_consolidated self store mode =
     (if mode = ''r-''
      then Inl (ValueError ''Mode r- not allowed for reading with consolidated metadata'')
      else (case zarr_open_consolidated self store of
              Inr f \<Rightarrow> Inr f
            | Inl (KeyError m) \<Rightarrow> zarr_open self store
            | Inl e \<Rightarrow> Inl e))"

text \<open>\<^verbatim>\<open>is_remote\<close>; \<^verbatim>\<open>self.file\<close> is \<^verbatim>\<open>None\<close> before \<^verbatim>\<open>open\<close>.\<close>

definition is_remote :: "zarrio \<Rightarrow> error + bool" where
  "is_remote self =
     (case io_file self of
        None \<Rightarrow> Inl (AttributeError ''store'')
      | Some f \<Rightarrow> Inr (z_kind f = FSStore \<or> z_kind f = ConsolidatedMetadataStore))"

text \<open>
  \<^verbatim>\<open>group[item]\<close> of the zarr library: the item is a path, from the root of the store when it
  starts with a slash and from the group otherwise; zarr splits it at the slashes, drops the
  empty segments and refuses the segments \<^verbatim>\<open>.\<close> and \<^verbatim>\<open>..\<close>. The result is the node at the path;
  there is \<^verbatim>\<open>KeyError\<close> when there is none. Only a group is indexed by a path.
\<close>

fun split_slash :: "string \<Rightarrow> string list" where
  "split_slash [] = [[]]"
| "split_slash (c # cs) =
     (if c = CHR ''/'' then [] # split_slash cs
      else (case split_slash cs of [] \<Rightarrow> [[c]] | s # ss \<Rightarrow> (c # s) # ss))"

definition segments :: "string \<Rightarrow> string list" where
  "segments p = filter (\<lambda>s. s \<noteq> []) (split_slash (replace_backslash p))"

definition z_getitem :: "zarrio \<Rightarrow> zobj \<Rightarrow> pyval \<Rightarrow> error + zobj" where
  "z_getitem self grp item =
     (case lookup_node self grp of
        Some (ZGroup a) \<Rightarrow>
          (case item of
             PStr p \<Rightarrow>
               (if ''.'' \<in> set (segments p) \<or> ''..'' \<in> set (segments p)
                then Inl (ValueError ''path containing . or .. segment not allowed'')
                else
                  let path = (if p \<noteq> [] \<and> hd p = CHR ''/'' then segments p
                              else z_path grp @ segments p)
                  in (case lookup_node self (ZObj (z_kind grp) (z_store_path grp) path) of
                        None \<Rightarrow> Inl (KeyError p)
                      | Some n \<Rightarrow> Inr (ZObj (z_kind grp) (z_store_path grp) path)))
           | _ \<Rightarrow> Inl (KeyError ''item''))
      | _ \<Rightarrow> Inl (IndexError ''not a group''))"

text \<open>
  Python's truth value of a JSON value, and \<^verbatim>\<open>str(x)\<close>: a string is itself, the rendering of
  the other values is a parameter.
\<close>

fun truthy :: "pyval \<Rightarrow> bool" where
  "truthy PNone = False"
| "truthy (PBool b) = b"
| "truthy (PInt i) = (i \<noteq> 0)"
| "truthy (PStr s) = (s \<noteq> [])"
| "truthy (PBytes s) = (s \<noteq> [])"
| "truthy (PList xs) = (xs \<noteq> [])"
| "truthy (PTuple xs) = (xs \<noteq> [])"
| "truthy (PSet xs) = (xs \<noteq> [])"
| "truthy (PDict xs) = (xs \<noteq> [])"
| "truthy v = True"

definition str_of :: "pylib \<Rightarrow> pyval \<Rightarrow> string" where
  "str_of lib v = (case v of PStr s \<Rightarrow> s | _ \<Rightarrow> py_repr lib v)"

definition lstrip_dot :: "string \<Rightarrow> string" where
  "lstrip_dot s = dropWhile (\<lambda>c. c = CHR ''.'') s"

definition rstrip_slash :: "string \<Rightarrow> string" where
  "rstrip_slash s = rev (dropWhile (\<lambda>c. c = CHR ''/'') (rev s))"

text \<open>
  The location \<^verbatim>\<open>resolve_ref\<close> opens: the key \<^verbatim>\<open>source\<close> of the reference, or \<^verbatim>\<open>path\<close> when the
  source is missing or \<^verbatim>\<open>None\<close>, joined to this file's location.
\<close>

definition ref_location :: "pylib \<Rightarrow> zarrio \<Rightarrow> (string \<times> pyval) list \<Rightarrow> error + string" where
  "ref_location lib self zarr_ref =
     (case (case map_of zarr_ref ''source'' of
              None \<Rightarrow> map_option (str_of lib) (map_of zarr_ref ''path'')
            | Some PNone \<Rightarrow> map_option (str_of lib) (map_of zarr_ref ''path'')
            | Some s \<Rightarrow> Some (str_of lib s)) of
        None \<Rightarrow> Inl (KeyError ''path'')
      | Some source_file \<Rightarrow>
          (case is_remote self of
             Inl e \<Rightarrow> Inl e
           | Inr remote \<Rightarrow>
               if \<not> remote then Inr (os_abspath lib (os_join lib (io_source self) source_file))
               else Inr (rstrip_slash (io_path self) @ lstrip_dot source_file)))"

text \<open>The name of the target: the basename of a path that is a non-empty string.\<close>

definition target_name_of :: "pyval \<Rightarrow> error + string" where
  "target_name_of object_path =
     (if truthy object_path
      then (case object_path of PStr p \<Rightarrow> Inr (basename p)
            | _ \<Rightarrow> Inl (TypeError ''expected str, bytes or os.PathLike object''))
      else Inr ROOT_NAME)"

text \<open>\<^verbatim>\<open>resolve_ref\<close>.\<close>

definition resolve_ref :: "pylib \<Rightarrow> zarrio \<Rightarrow> (string \<times> pyval) list \<Rightarrow> error + (string \<times> zobj)" where
  "resolve_ref lib self zarr_ref =
     (case ref_location lib self zarr_ref of
        Inl e \<Rightarrow> Inl e
      | Inr source_file \<Rightarrow>
          let object_path = (case map_of zarr_ref ''path'' of None \<Rightarrow> PNone | Some p \<Rightarrow> p)
          in (case target_name_of object_path of
                Inl e \<Rightarrow> Inl e
              | Inr target_name \<Rightarrow>
                  (case open_file_consolidated self source_file ''r'' of
                     Inl e \<Rightarrow> Inl e
                   | Inr target_zarr_obj \<Rightarrow>
                       if object_path \<noteq> PNone
                       then (case z_getitem self target_zarr_obj object_path of
                               Inl e \<Rightarrow> Inl (ValueError (''Found bad link to object ''
                                  @ str_of lib object_path @ '' in file '' @ source_file))
                             | Inr obj \<Rightarrow> Inr (target_name, obj))
                       else Inr (target_name, target_zarr_obj))))"

section \<open>ReadEngine\<close>

text \<open>
  The loop of \<^verbatim>\<open>get_zarr_paths\<close> climbs with \<^verbatim>\<open>os.path.dirname\<close> while the directory above
  holds a \<^verbatim>\<open>.zgroup\<close>; it has no bound of its own, and not returning is the value \<^verbatim>\<open>None\<close>.
\<close>

partial_function (option) find_filepath :: "pylib \<Rightarrow> string \<Rightarrow> string option" where
  "find_filepath lib filepath =
     (if os_exists lib (os_join lib (os_dirname lib filepath) ''.zgroup'')
      then find_filepath lib (os_dirname lib filepath)
      else Some filepath)"

declare find_filepath.simps [code]

definition zarr_path_str :: "zobj \<Rightarrow> string" where
  "zarr_path_str zarr_obj = join_slash (z_path zarr_obj)"

definition zarr_name :: "zobj \<Rightarrow> string" where
  "zarr_name zarr_obj = ''/'' @ join_slash (z_path zarr_obj)"

definition get_zarr_paths :: "pylib \<Rightarrow> zobj \<Rightarrow> (string \<times> string) option" where
  "get_zarr_paths lib zarr_object =
     (let fpath = z_store_path zarr_object;
          fullpath = replace_backslash (os_normpath lib (os_join lib fpath (zarr_path_str zarr_object)))
      in (case find_filepath lib fullpath of
            None \<Rightarrow> None
          | Some filepath \<Rightarrow> Some (filepath, ''/'' @ os_relpath lib fullpath filepath)))"

definition get_zarr_parent_path :: "pylib \<Rightarrow> zobj \<Rightarrow> string option" where
  "get_zarr_parent_path lib zarr_object =
     (case get_zarr_paths lib zarr_object of
        None \<Rightarrow> None
      | Some (filepath, objectpath) \<Rightarrow> Some (os_dirname lib objectpath))"

text \<open>\<^verbatim>\<open>__get_built\<close> and \<^verbatim>\<open>__set_built\<close> (a \<^verbatim>\<open>setdefault\<close>: the first builder stays).\<close>

definition built_key :: "pylib \<Rightarrow> zobj \<Rightarrow> string" where
  "built_key lib zarr_obj = os_join lib (z_store_path zarr_obj) (zarr_path_str zarr_obj)"

definition get_built :: "pylib \<Rightarrow> zarrio \<Rightarrow> zobj \<Rightarrow> builder option" where
  "get_built lib self zarr_obj = map_of (io_built self) (built_key lib zarr_obj)"

definition set_built :: "pylib \<Rightarrow> zobj \<Rightarrow> builder \<Rightarrow> zarrio \<Rightarrow> zarrio" where
  "set_built lib zarr_obj builder self =
     (case map_of (io_built self) (built_key lib zarr_obj) of
        Some b \<Rightarrow> self
      | None \<Rightarrow> self\<lparr>io_built := io_built self @ [(built_key lib zarr_obj, builder)]\<rparr>)"

definition reserve_attribute :: "string list" where
  "reserve_attribute = [''zarr_dtype'', ''zarr_link'']"

text \<open>
  The reads call each other: an attribute that is a reference and a link are read through
  \<^verbatim>\<open>__read_group\<close> or \<^verbatim>\<open>__read_dataset\<close> of their target. The functions below take the two
  methods, one level of nesting further down, as the parameter \<^verbatim>\<open>rd\<close>; \<^verbatim>\<open>read_node\<close> ties
  the knot with the depth Python's stack allows. A result is \<^verbatim>\<open>None\<close> when the call does not
  return, and otherwise the builder or the exception, with the state the call leaves.
\<close>

datatype which = ReadGroup | ReadDataset

type_synonym 'a result = "((error + 'a) \<times> zarrio) option"

type_synonym reader = "which \<Rightarrow> zarrio \<Rightarrow> zobj \<Rightarrow> string option \<Rightarrow> builder result"

text \<open>\<^verbatim>\<open>isinstance(target_zarr_obj, Group)\<close>, by the node the handle is at.\<close>

definition is_group :: "zarrio \<Rightarrow> zobj \<Rightarrow> bool" where
  "is_group self obj = (case lookup_node self obj of Some (ZGroup a) \<Rightarrow> True | _ \<Rightarrow> False)"

definition read_target :: "reader \<Rightarrow> zarrio \<Rightarrow> string \<times> zobj \<Rightarrow> builder result" where
  "read_target rd self target =
     (if is_group self (snd target) then rd ReadGroup self (snd target) (Some (fst target))
      else rd ReadDataset self (snd target) (Some (fst target)))"

text \<open>
  The loop of \<^verbatim>\<open>__read_attrs\<close> over the keys of \<^verbatim>\<open>zarr_obj.attrs\<close>; \<^verbatim>\<open>ret\<close> is the dict it
  fills. An attribute that holds a builder holds the builder's header. The two tests on the
  value are \<^verbatim>\<open>isinstance(v, dict) and 'zarr_dtype' in v\<close>, and \<^verbatim>\<open>v['value']\<close> as the dict
  \<^verbatim>\<open>resolve_ref\<close> reads with \<^verbatim>\<open>.get\<close>.
\<close>

definition is_tagged_dict :: "pyval \<Rightarrow> bool" where
  "is_tagged_dict v = (case v of PDict d \<Rightarrow> ''zarr_dtype'' \<in> set (map fst d) | _ \<Rightarrow> False)"

definition value_of_tagged :: "pyval \<Rightarrow> error + (string \<times> pyval) list" where
  "value_of_tagged v =
     (case dict_get v ''value'' of
        None \<Rightarrow> Inl (KeyError ''value'')
      | Some (PDict zarr_ref) \<Rightarrow> Inr zarr_ref
      | Some other \<Rightarrow> Inl (AttributeError ''get''))"

fun read_attrs_loop :: "reader \<Rightarrow> pylib \<Rightarrow> (string \<times> pyval) list \<Rightarrow> (string \<times> attr_value) list
    \<Rightarrow> zarrio \<Rightarrow> (string \<times> attr_value) list result" where
  "read_attrs_loop rd lib [] ret self = Some (Inr ret, self)"
| "read_attrs_loop rd lib ((k, v) # kvs) ret self =
     (if k \<notin> set reserve_attribute
      then (if is_tagged_dict v
            then (if dict_get v ''zarr_dtype'' = Some (PStr ''object'')
                  then (case value_of_tagged v of
                          Inl e \<Rightarrow> Some (Inl e, self)
                        | Inr zarr_ref \<Rightarrow>
                            (case resolve_ref lib self zarr_ref of
                               Inl e \<Rightarrow> Some (Inl e, self)
                             | Inr target \<Rightarrow>
                                 (case read_target rd self target of
                                    None \<Rightarrow> None
                                  | Some (Inl e, self1) \<Rightarrow> Some (Inl e, self1)
                                  | Some (Inr b, self1) \<Rightarrow>
                                      read_attrs_loop rd lib kvs
                                        (AList.update k (ARefObj (BuilderObj (head_of b))) ret) self1)))
                  else if dict_get v ''zarr_dtype'' = Some (PStr ''region'')
                  then Some (Inl (NotImplementedError
                     ''Read of region references from attributes not implemented in ZarrIO''), self)
                  else Some (Inl (NotImplementedError ''Unsupported zarr_dtype for attribute''), self))
            else read_attrs_loop rd lib kvs (AList.update k (AVal v) ret) self)
      else read_attrs_loop rd lib kvs ret self)"

definition read_attrs :: "reader \<Rightarrow> pylib \<Rightarrow> zarrio \<Rightarrow> zobj \<Rightarrow> (string \<times> attr_value) list result" where
  "read_attrs rd lib self zarr_obj =
     (case lookup_node self zarr_obj of
        None \<Rightarrow> Some (Inl (KeyError (zarr_name zarr_obj)), self)
      | Some n \<Rightarrow> read_attrs_loop rd lib (zn_attrs n) [] self)"

text \<open>
  \<^verbatim>\<open>zarr_obj.groups()\<close> and \<^verbatim>\<open>zarr_obj.arrays()\<close>: the children of a group that are groups, or
  arrays, with their names, in the order of the store.
\<close>

definition child_nodes :: "zarrio \<Rightarrow> zobj \<Rightarrow> bool \<Rightarrow> (string \<times> zobj) list" where
  "child_nodes self zarr_obj groups =
     (case map_of (io_stores self) (z_store_path zarr_obj) of
        None \<Rightarrow> []
      | Some f \<Rightarrow>
          map (\<lambda>pn. (last (fst pn), ZObj (z_kind zarr_obj) (z_store_path zarr_obj) (fst pn)))
            (filter (\<lambda>pn. fst pn \<noteq> [] \<and> butlast (fst pn) = z_path zarr_obj
                \<and> (case snd pn of ZGroup a \<Rightarrow> groups | _ \<Rightarrow> \<not> groups))
              (zf_nodes f)))"

text \<open>
  \<^verbatim>\<open>set_group\<close>, \<^verbatim>\<open>set_dataset\<close> and \<^verbatim>\<open>set_link\<close> of a \<^verbatim>\<open>GroupBuilder\<close> store the child under
  its name and, when the child has no parent yet, make the group its parent. The builders of
  this model hold their ancestors by value, so a builder that gets a parent passes it on to
  every builder below it. (The builder the cache holds for the child is the one registered when
  its read returned.)
\<close>

definition add_ancestors :: "(string \<times> string option) list \<Rightarrow> bhead \<Rightarrow> bhead" where
  "add_ancestors ps h =
     BHead (bid h) (b_name h) (b_location h) (b_source h) (b_object_id h) (b_parents h @ ps)"

fun with_ancestors :: "(string \<times> string option) list \<Rightarrow> builder \<Rightarrow> builder" where
  "with_ancestors ps (GroupBuilder h a gs ds ls) =
     GroupBuilder (add_ancestors ps h) a (map (with_ancestors ps) gs) (map (with_ancestors ps) ds)
       (map (with_ancestors ps) ls)"
| "with_ancestors ps (DatasetBuilder h a d t) = DatasetBuilder (add_ancestors ps h) a d t"
| "with_ancestors ps (LinkBuilder h t) = LinkBuilder (add_ancestors ps h) t"

definition set_parent :: "string \<times> string option \<Rightarrow> builder \<Rightarrow> builder" where
  "set_parent p b = (if b_parents (head_of b) = [] then with_ancestors [p] b else b)"

fun set_child :: "builder \<Rightarrow> builder list \<Rightarrow> builder list" where
  "set_child b [] = [b]"
| "set_child b (c # cs) =
     (if b_name (head_of c) = b_name (head_of b) then b # cs else c # set_child b cs)"

fun read_children :: "reader \<Rightarrow> which \<Rightarrow> string \<times> string option \<Rightarrow> (string \<times> zobj) list
    \<Rightarrow> builder list \<Rightarrow> zarrio \<Rightarrow> builder list result" where
  "read_children rd w parent [] acc self = Some (Inr acc, self)"
| "read_children rd w parent ((sub_name, sub) # rest) acc self =
     (case rd w self sub (Some sub_name) of
        None \<Rightarrow> None
      | Some (Inl e, self1) \<Rightarrow> Some (Inl e, self1)
      | Some (Inr sub_builder, self1) \<Rightarrow>
          read_children rd w parent rest (set_child (set_parent parent sub_builder) acc) self1)"

text \<open>
  The loop of \<^verbatim>\<open>__read_links\<close> over the entries of the attribute \<^verbatim>\<open>zarr_link\<close>; \<^verbatim>\<open>location\<close>,
  \<^verbatim>\<open>name\<close> and \<^verbatim>\<open>object_id\<close> are those of the parent builder, \<^verbatim>\<open>acc\<close> its links so far. A new
  builder takes the next free identity.
\<close>

fun read_links_loop :: "reader \<Rightarrow> pylib \<Rightarrow> string \<Rightarrow> string \<Rightarrow> string option \<Rightarrow> pyval list
    \<Rightarrow> builder list \<Rightarrow> zarrio \<Rightarrow> builder list result" where
  "read_links_loop rd lib location name object_id [] acc self = Some (Inr acc, self)"
| "read_links_loop rd lib location name object_id (PDict link # links) acc self =
     (case map_of link ''name'' of
        None \<Rightarrow> Some (Inl (KeyError ''name''), self)
      | Some link_name \<Rightarrow>
          (case resolve_ref lib self link of
             Inl e \<Rightarrow> Some (Inl e, self)
           | Inr target \<Rightarrow>
               (case read_target rd self target of
                  None \<Rightarrow> None
                | Some (Inl e, self1) \<Rightarrow> Some (Inl e, self1)
                | Some (Inr builder, self1) \<Rightarrow>
                    (case link_name of
                       PStr nm \<Rightarrow>
                         let link_builder = LinkBuilder
                               (BHead (io_next_id self1) nm (Some (os_join lib location name))
                                  (Some (io_source self1)) None [])
                               (head_of builder);
                             self2 = set_written link_builder (self1\<lparr>io_next_id := Suc (io_next_id self1)\<rparr>)
                         in read_links_loop rd lib location name object_id links
                              (set_child (set_parent (name, object_id) link_builder) acc) self2
                     | _ \<Rightarrow> Some (Inl (TypeError ''LinkBuilder.__init__: incorrect type for name''), self1)))))"
| "read_links_loop rd lib location name object_id (other # links) acc self =
     Some (Inl (TypeError ''indices must be integers''), self)"

definition read_links :: "reader \<Rightarrow> pylib \<Rightarrow> zarrio \<Rightarrow> zobj \<Rightarrow> string \<Rightarrow> string \<Rightarrow> string option
    \<Rightarrow> builder list result" where
  "read_links rd lib self zarr_obj location name object_id =
     (if attrs_contains self zarr_obj ''zarr_link''
      then (case attrs_get self zarr_obj ''zarr_link'' of
              Inl e \<Rightarrow> Some (Inl e, self)
            | Inr v \<Rightarrow>
                (case py_list v of
                   Inl e \<Rightarrow> Some (Inl e, self)
                 | Inr links \<Rightarrow> read_links_loop rd lib location name object_id links [] self))
      else Some (Inr [], self))"

text \<open>
  What \<^verbatim>\<open>builder.get('object_id', None)\<close> gives for a builder just read: a group looks the
  name up among its attributes, a dataset has no such key.
\<close>

definition object_id_of :: "(string \<times> attr_value) list \<Rightarrow> string option" where
  "object_id_of attributes =
     (case map_of attributes ''object_id'' of Some (AVal (PStr s)) \<Rightarrow> Some s | _ \<Rightarrow> None)"

text \<open>\<^verbatim>\<open>__read_group\<close>.\<close>

definition read_group :: "reader \<Rightarrow> pylib \<Rightarrow> zarrio \<Rightarrow> zobj \<Rightarrow> string option \<Rightarrow> builder result" where
  "read_group rd lib self zarr_obj name =
     (case get_built lib self zarr_obj of
        Some ret \<Rightarrow> Some (Inr ret, self)
      | None \<Rightarrow>
          let name1 = (case name of None \<Rightarrow> basename (zarr_name zarr_obj) | Some n \<Rightarrow> n)
          in (case read_attrs rd lib self zarr_obj of
                None \<Rightarrow> None
              | Some (Inl e, self1) \<Rightarrow> Some (Inl e, self1)
              | Some (Inr attributes, self1) \<Rightarrow>
                  (case get_zarr_parent_path lib zarr_obj of
                     None \<Rightarrow> None
                   | Some location \<Rightarrow>
                       let h = BHead (io_next_id self1) name1 (Some location) (Some (io_source self1))
                                 (object_id_of attributes) [];
                           self2 = self1\<lparr>io_next_id := Suc (io_next_id self1)\<rparr>
                       in if \<not> is_group self2 zarr_obj
                          then Some (Inl (AttributeError ''groups''), self2)
                          else
                          (case read_children rd ReadGroup (name1, object_id_of attributes)
                                  (child_nodes self2 zarr_obj True) [] self2 of
                             None \<Rightarrow> None
                           | Some (Inl e, self3) \<Rightarrow> Some (Inl e, self3)
                           | Some (Inr groups, self3) \<Rightarrow>
                               (case read_children rd ReadDataset (name1, object_id_of attributes)
                                       (child_nodes self3 zarr_obj False) [] self3 of
                                  None \<Rightarrow> None
                                | Some (Inl e, self4) \<Rightarrow> Some (Inl e, self4)
                                | Some (Inr datasets, self4) \<Rightarrow>
                                    (case read_links rd lib self4 zarr_obj location name1 (object_id_of attributes) of
                                       None \<Rightarrow> None
                                     | Some (Inl e, self5) \<Rightarrow> Some (Inl e, self5)
                                     | Some (Inr links, self5) \<Rightarrow>
                                         let ret = GroupBuilder h attributes groups datasets links
                                         in Some (Inr ret,
                                              set_built lib zarr_obj ret (set_written ret self5))))))))"

text \<open>
  The type tag of a dataset: the attribute \<^verbatim>\<open>zarr_dtype\<close> (a JSON value) or, without it, the
  storage dtype of the array.
\<close>

datatype zarr_dtype = TagJson pyval | TagNp rdtype

text \<open>
  The compound case of \<^verbatim>\<open>__read_dataset\<close>: whether a field is a reference (the loop stops at
  the first), and the list of the fields' dtypes.
\<close>

fun has_reference :: "pyval list \<Rightarrow> error + bool" where
  "has_reference [] = Inr False"
| "has_reference (PDict dts # rest) =
     (case map_of dts ''dtype'' of
        None \<Rightarrow> Inl (KeyError ''dtype'')
      | Some d \<Rightarrow> if d = PStr ''object'' \<or> d = PStr ''region'' then Inr True else has_reference rest)"
| "has_reference (other # rest) = Inl (TypeError ''indices must be integers'')"

fun retrieved_dtypes :: "pyval list \<Rightarrow> error + pyval list" where
  "retrieved_dtypes [] = Inr []"
| "retrieved_dtypes (PDict dts # rest) =
     (case map_of dts ''dtype'' of
        None \<Rightarrow> Inl (KeyError ''dtype'')
      | Some d \<Rightarrow> (case retrieved_dtypes rest of Inl e \<Rightarrow> Inl e | Inr ds \<Rightarrow> Inr (d # ds)))"
| "retrieved_dtypes (other # rest) = Inl (TypeError ''indices must be integers'')"

text \<open>The data of a dataset builder, by its type tag.\<close>

definition read_data :: "zarr_dtype \<Rightarrow> zobj \<Rightarrow> pyval \<Rightarrow> error + builder_data" where
  "read_data dtype zarr_obj content =
     (let data = (if dtype = TagJson (PStr ''scalar'') then Unwrapped (Data (Plain content))
                  else Unwrapped (Data (ArrayData zarr_obj)))
      in (case dtype of
            TagJson (PList flds) \<Rightarrow>
              (case has_reference flds of
                 Inl e \<Rightarrow> Inl e
               | Inr has_ref \<Rightarrow>
                   (case retrieved_dtypes flds of
                      Inl e \<Rightarrow> Inl e
                    | Inr ds \<Rightarrow>
                        if has_ref then Inr (Unwrapped (BuilderZarrTableDataset zarr_obj ds)) else Inr data))
          | TagJson (PStr s) \<Rightarrow>
              if s = ''object'' then Inr (Unwrapped (BuilderZarrReferenceDataset zarr_obj)) else Inr data
          | _ \<Rightarrow> Inr data))"

text \<open>
  The dtype a dataset builder is given: the tag as a declared dtype. A list is a compound
  dtype when its entries are the dicts \<^verbatim>\<open>{'name': ..., 'dtype': ...}\<close> the backend writes.
\<close>

fun dtype_of_json :: "pyval \<Rightarrow> dtype_spec"
  and fields_of_json :: "pyval list \<Rightarrow> (string \<times> dtype_spec) list option" where
  "dtype_of_json PNone = DNone"
| "dtype_of_json (PStr s) = DStr s"
| "dtype_of_json (PList flds) = (case fields_of_json flds of None \<Rightarrow> DOther | Some fs \<Rightarrow> DList fs)"
| "dtype_of_json (PDict d) =
     DDict (case map_of d ''reftype'' of Some (PStr r) \<Rightarrow> Some r | _ \<Rightarrow> None)"
| "dtype_of_json v = DOther"
| "fields_of_json [] = Some []"
| "fields_of_json (PDict [(k1, PStr n), (k2, d)] # rest) =
     (if k1 = ''name'' \<and> k2 = ''dtype''
      then (case fields_of_json rest of None \<Rightarrow> None | Some fs \<Rightarrow> Some ((n, dtype_of_json d) # fs))
      else None)"
| "fields_of_json (other # rest) = None"

definition dtype_of_tag :: "zarr_dtype \<Rightarrow> dtype_spec" where
  "dtype_of_tag t = (case t of TagJson v \<Rightarrow> dtype_of_json v | TagNp d \<Rightarrow> DNpDtype d)"

text \<open>
  The warning of \<^verbatim>\<open>__read_dataset\<close> for a dataset without the type tag; the rendering of the
  array is its name.
\<close>

definition missing_tag_warning :: "pylib \<Rightarrow> zobj \<Rightarrow> string option \<Rightarrow> string" where
  "missing_tag_warning lib zarr_obj name =
     ''Inferred dtype from zarr type. Dataset missing zarr_dtype: ''
       @ str_of lib (case name of None \<Rightarrow> PNone | Some n \<Rightarrow> PStr n) @ ''   '' @ zarr_name zarr_obj"

text \<open>\<^verbatim>\<open>__read_dataset\<close>. Only an array has the attributes \<^verbatim>\<open>dtype\<close>, \<^verbatim>\<open>shape\<close> and \<^verbatim>\<open>chunks\<close>.\<close>

definition read_dataset :: "reader \<Rightarrow> pylib \<Rightarrow> zarrio \<Rightarrow> zobj \<Rightarrow> string option \<Rightarrow> builder result" where
  "read_dataset rd lib self zarr_obj name =
     (case get_built lib self zarr_obj of
        Some ret \<Rightarrow> Some (Inr ret, self)
      | None \<Rightarrow>
          (case (if attrs_contains self zarr_obj ''zarr_dtype''
                 then (case attrs_get self zarr_obj ''zarr_dtype'' of
                         Inl e \<Rightarrow> (Inl e, self)
                       | Inr v \<Rightarrow> (Inr (TagJson v), self))
                 else (case lookup_node self zarr_obj of
                         Some (ZArray a sh ch dt d) \<Rightarrow>
                           (Inr (TagNp dt), warn (missing_tag_warning lib zarr_obj name) self)
                       | _ \<Rightarrow>
                           (Inl (ValueError (''Dataset missing zarr_dtype: ''
                              @ str_of lib (case name of None \<Rightarrow> PNone | Some n \<Rightarrow> PStr n)
                              @ ''   '' @ zarr_name zarr_obj)), self))) of
             (Inl e, self1) \<Rightarrow> Some (Inl e, self1)
           | (Inr dtype, self1) \<Rightarrow>
               (case read_attrs rd lib self1 zarr_obj of
                  None \<Rightarrow> None
                | Some (Inl e, self2) \<Rightarrow> Some (Inl e, self2)
                | Some (Inr attributes, self2) \<Rightarrow>
                    (case lookup_node self2 zarr_obj of
                       Some (ZArray a sh ch dt content) \<Rightarrow>
                         (case read_data dtype zarr_obj content of
                            Inl e \<Rightarrow> Some (Inl e, self2)
                          | Inr data \<Rightarrow>
                              let name1 = (case name of None \<Rightarrow> basename (zarr_name zarr_obj) | Some n \<Rightarrow> n)
                              in (case get_zarr_parent_path lib zarr_obj of
                                    None \<Rightarrow> None
                                  | Some location \<Rightarrow>
                                      let h = BHead (io_next_id self2) name1 (Some location)
                                                (Some (io_source self2)) None [];
                                          ret = DatasetBuilder h attributes data (dtype_of_tag dtype);
                                          self3 = self2\<lparr>io_next_id := Suc (io_next_id self2)\<rparr>
                                      in Some (Inr ret, set_built lib zarr_obj ret (set_written ret self3))))
                     | _ \<Rightarrow> Some (Inl (AttributeError ''shape''), self2)))))"

text \<open>
  \<^verbatim>\<open>__read_group\<close> and \<^verbatim>\<open>__read_dataset\<close> with \<^verbatim>\<open>depth\<close> nested calls left on Python's stack:
  beyond it Python raises \<^verbatim>\<open>RecursionError\<close>.
\<close>

primrec read_node :: "pylib \<Rightarrow> nat \<Rightarrow> reader" where
  "read_node lib 0 = (\<lambda>w self zarr_obj name. Some (Inl RecursionError, self))"
| "read_node lib (Suc depth) =
     (\<lambda>w self zarr_obj name.
        case w of
          ReadGroup \<Rightarrow> read_group (read_node lib depth) lib self zarr_obj name
        | ReadDataset \<Rightarrow> read_dataset (read_node lib depth) lib self zarr_obj name)"

text \<open>\<^verbatim>\<open>read_builder\<close>.\<close>

definition read_builder :: "pylib \<Rightarrow> nat \<Rightarrow> zarrio \<Rightarrow> builder result" where
  "read_builder lib depth self =
     (case io_file self of
        None \<Rightarrow> Some (Inl (AttributeError ''store''), self)
      | Some f \<Rightarrow> read_node lib depth ReadGroup self f (Some ROOT_NAME))"

text \<open>
  Observations on a session: the builder's attributes hold none of the reserved keys; every
  builder of the cache is such; the cache of a later state keeps every entry of an earlier one;
  and the part of the session no read changes.
\<close>

definition reserved_free :: "builder \<Rightarrow> bool" where
  "reserved_free b = (\<forall>k \<in> set reserve_attribute. k \<notin> set (map fst (attributes_of b)))"

definition cache_ok :: "zarrio \<Rightarrow> bool" where
  "cache_ok self = (\<forall>kb \<in> set (io_built self). reserved_free (snd kb))"

definition cache_extends :: "zarrio \<Rightarrow> zarrio \<Rightarrow> bool" where
  "cache_extends self self1 =
     (\<forall>k c. map_of (io_built self) k = Some c \<longrightarrow> map_of (io_built self1) k = Some c)"

definition same_world :: "zarrio \<Rightarrow> zarrio \<Rightarrow> bool" where
  "same_world self self1 =
     (io_stores self1 = io_stores self \<and> io_source self1 = io_source self
      \<and> io_path self1 = io_path self \<and> io_file self1 = io_file self
      \<and> io_calls self1 = io_calls self \<and> io_dci_queue self1 = io_dci_queue self)"

text \<open>
  What one read, or a part of it, may do to the session (\<^verbatim>\<open>step_ok\<close>); what the outcome of a
  read of the node \<^verbatim>\<open>z\<close> is like (\<^verbatim>\<open>outcome_ok\<close>); and a reader all of whose outcomes are so.
\<close>

definition step_ok :: "zarrio \<Rightarrow> zarrio \<Rightarrow> bool" where
  "step_ok self self1 = (same_world self self1 \<and> cache_extends self self1
      \<and> (cache_ok self \<longrightarrow> cache_ok self1)
      \<and> set (io_warnings self) \<subseteq> set (io_warnings self1))"

definition outcome_ok :: "pylib \<Rightarrow> zarrio \<Rightarrow> zobj \<Rightarrow> (error + builder) \<Rightarrow> zarrio \<Rightarrow> bool" where
  "outcome_ok lib self z r self1 =
     (step_ok self self1
      \<and> (cache_ok self \<longrightarrow> (\<forall>b. r = Inr b \<longrightarrow> reserved_free b))
      \<and> (\<forall>b. r = Inr b \<longrightarrow> get_built lib self1 z \<noteq> None))"

definition sound :: "pylib \<Rightarrow> reader \<Rightarrow> bool" where
  "sound lib rd =
     (\<forall>w self z name r self1. rd w self z name = Some (r, self1) \<longrightarrow> outcome_ok lib self z r self1)"

definition no_new_reserved :: "(string \<times> attr_value) list \<Rightarrow> (error + (string \<times> attr_value) list) \<Rightarrow> bool" where
  "no_new_reserved ret r = (\<forall>attrs. r = Inr attrs \<longrightarrow> (\<forall>k \<in> set reserve_attribute.
            k \<in> set (map fst attrs) \<longrightarrow> k \<in> set (map fst ret)))"

section \<open>WriteEngine: datasets\<close>

text \<open>
  The calls of the zarr library that create nodes and write array content. \<^verbatim>\<open>require_group\<close>
  returns the group when it is there and creates it when the path is free;
  \<^verbatim>\<open>require_dataset\<close> returns the array when it is there with the same shape and dtype;
  \<^verbatim>\<open>create_dataset\<close> refuses a path that is taken. A keyword given twice (\<^verbatim>\<open>shape\<close> or
  \<^verbatim>\<open>dtype\<close> also among the I/O settings) is a \<^verbatim>\<open>TypeError\<close> of Python. zarr turns the dtype it
  is given into a numpy dtype and raises \<^verbatim>\<open>TypeError\<close> for a class numpy cannot interpret
  (\<^verbatim>\<open>NoneType\<close>, \<^verbatim>\<open>ZarrReference\<close>); it creates an array with objects only with an object codec
  or filters, and raises \<^verbatim>\<open>ValueError\<close> without. In both cases no node is created.
\<close>

fun dtype_understood :: "rdtype \<Rightarrow> bool" where
  "dtype_understood (RType t) = (t \<noteq> py_NoneType \<and> t \<noteq> ZarrReferenceT)"
| "dtype_understood d = True"

fun has_object :: "rdtype \<Rightarrow> bool"
  and has_object_fields :: "(string \<times> rdtype) list \<Rightarrow> bool" where
  "has_object (RType t) = (t = py_object)"
| "has_object (RNpScalar t) = (t = py_object)"
| "has_object (RNpStruct fs) = has_object_fields fs"
| "has_object RNone = False"
| "has_object_fields [] = False"
| "has_object_fields (f # fs) = (has_object (snd f) \<or> has_object_fields fs)"

definition lacks_codec :: "rdtype \<Rightarrow> (string \<times> io_setting) list \<Rightarrow> bool" where
  "lacks_codec dtype io_settings =
     (has_object dtype \<and> ''object_codec'' \<notin> set (map fst io_settings)
        \<and> ''filters'' \<notin> set (map fst io_settings))"

definition child_obj :: "zobj \<Rightarrow> string \<Rightarrow> zobj" where
  "child_obj parent name = ZObj (z_kind parent) (z_store_path parent) (z_path parent @ segments name)"

definition require_group :: "zobj \<Rightarrow> string \<Rightarrow> zarrio \<Rightarrow> (error + zobj) \<times> zarrio" where
  "require_group parent name self =
     (let self1 = log_call (RequireGroup parent name) self;
          child = child_obj parent name
      in (case lookup_node self1 child of
            Some (ZGroup a) \<Rightarrow> (Inr child, self1)
          | Some (ZArray a sh ch dt d) \<Rightarrow> (Inl (ValueError ''path contains an array''), self1)
          | None \<Rightarrow> (Inr child, update_node child (ZGroup []) self1)))"

definition chunks_of :: "(string \<times> io_setting) list \<Rightarrow> nat list \<Rightarrow> nat list" where
  "chunks_of io_settings shape =
     (case map_of io_settings ''chunks'' of Some (SChunks (Some c)) \<Rightarrow> c | _ \<Rightarrow> shape)"

definition require_dataset :: "zobj \<Rightarrow> string \<Rightarrow> nat list \<Rightarrow> rdtype \<Rightarrow> (string \<times> io_setting) list
    \<Rightarrow> zarrio \<Rightarrow> (error + zobj) \<times> zarrio" where
  "require_dataset parent name shape dtype io_settings self =
     (if ''shape'' \<in> set (map fst io_settings) \<or> ''dtype'' \<in> set (map fst io_settings)
      then (Inl (TypeError ''got multiple values for keyword argument''), self)
      else
        let self1 = log_call (RequireDataset parent name) self;
            child = child_obj parent name
        in if \<not> dtype_understood dtype
           then (Inl (TypeError ''Cannot interpret the class as a data type''), self1)
           else
           (case lookup_node self1 child of
              Some (ZArray a sh ch dt d) \<Rightarrow>
                if sh = shape \<and> dt = dtype then (Inr child, self1)
                else (Inl (TypeError ''shape or dtype do not match existing array''), self1)
            | Some (ZGroup a) \<Rightarrow> (Inl (ValueError ''path contains a group''), self1)
            | None \<Rightarrow>
                if lacks_codec dtype io_settings
                then (Inl (ValueError ''missing object_codec for object array''), self1)
                else (Inr child,
                      update_node child (ZArray [] shape (chunks_of io_settings shape) dtype PNone) self1)))"

definition create_dataset :: "zobj \<Rightarrow> string \<Rightarrow> nat list \<Rightarrow> rdtype \<Rightarrow> (string \<times> io_setting) list
    \<Rightarrow> zarrio \<Rightarrow> (error + zobj) \<times> zarrio" where
  "create_dataset parent name shape dtype io_settings self =
     (let self1 = log_call (CreateDataset parent name) self;
          child = child_obj parent name
      in if \<not> dtype_understood dtype
         then (Inl (TypeError ''Cannot interpret the class as a data type''), self1)
         else
         (case lookup_node self1 child of
            None \<Rightarrow>
              if lacks_codec dtype io_settings
              then (Inl (ValueError ''missing object_codec for object array''), self1)
              else (Inr child,
                    update_node child (ZArray [] shape (chunks_of io_settings shape) dtype PNone) self1)
          | Some n \<Rightarrow> (Inl (ValueError ''path contains an array or a group''), self1)))"

text \<open>
  An assignment to the whole content of an array, \<^verbatim>\<open>dset[...] = data\<close>. zarr checks the shape
  of a value that is an array: one of dimension zero is refused by an array of another shape
  (\<^verbatim>\<open>ValueError\<close>). The array then holds the value cast to its dtype.
\<close>

definition set_item :: "pylib \<Rightarrow> zobj \<Rightarrow> pyval \<Rightarrow> zarrio \<Rightarrow> (error + unit) \<times> zarrio" where
  "set_item lib dset data self =
     (case lookup_node self dset of
        Some (ZArray a sh ch dt d) \<Rightarrow>
          if (case data of PNdarray0 x \<Rightarrow> sh \<noteq> [] | _ \<Rightarrow> False)
          then (Inl (ValueError ''parameter value: expected array with another shape''), self)
          else if setitem_rejects lib dt data
          then (Inl (ValueError ''could not assign the value to the array''), self)
          else (Inr (), log_call (SetItem dset data)
                  (update_node dset (ZArray a sh ch dt (np_cast lib dt data)) self))
      | _ \<Rightarrow> (Inl (KeyError (zarr_name dset)), self))"

text \<open>
  An assignment to one element, \<^verbatim>\<open>dset[i] = x\<close>, and the loop over the elements that
  \<^verbatim>\<open>__list_fill__\<close> falls back to. A cell never assigned holds the fill value, here \<^verbatim>\<open>None\<close>.
\<close>

definition cells :: "nat list \<Rightarrow> pyval \<Rightarrow> pyval list" where
  "cells sh d =
     (case d of
        PNdarray ys \<Rightarrow> if [length ys] = take 1 sh then ys else replicate (hd sh) PNone
      | _ \<Rightarrow> replicate (hd sh) PNone)"

definition set_index :: "pylib \<Rightarrow> zobj \<Rightarrow> nat \<Rightarrow> pyval \<Rightarrow> zarrio \<Rightarrow> (error + unit) \<times> zarrio" where
  "set_index lib dset i x self =
     (case lookup_node self dset of
        Some (ZArray a sh ch dt d) \<Rightarrow>
          if sh = [] then (Inl (IndexError ''too many indices for array''), self)
          else if hd sh \<le> i then (Inl (IndexError ''index out of bounds''), self)
          else if setitem_rejects lib dt x
          then (Inl (ValueError ''could not assign the value to the array''), self)
          else (Inr (), log_call (SetItem dset x)
                  (update_node dset (ZArray a sh ch dt (PNdarray ((cells sh d)[i := np_cast lib dt x]))) self))
      | _ \<Rightarrow> (Inl (KeyError (zarr_name dset)), self))"

fun set_each :: "pylib \<Rightarrow> zobj \<Rightarrow> nat \<Rightarrow> pyval list \<Rightarrow> zarrio \<Rightarrow> (error + unit) \<times> zarrio" where
  "set_each lib dset i [] self = (Inr (), self)"
| "set_each lib dset i (x # xs) self =
     (case set_index lib dset i x self of
        (Inl e, self1) \<Rightarrow> (Inl e, self1)
      | (Inr u, self1) \<Rightarrow> set_each lib dset (Suc i) xs self1)"

text \<open>\<^verbatim>\<open>zarr.copy(data, parent, name=name)\<close> followed by \<^verbatim>\<open>parent[name]\<close>.\<close>

definition zarr_copy :: "zobj \<Rightarrow> zobj \<Rightarrow> string \<Rightarrow> zarrio \<Rightarrow> (error + zobj) \<times> zarrio" where
  "zarr_copy src parent name self =
     (let self1 = log_call (Copy src parent name) self;
          child = child_obj parent name
      in (case (lookup_node self1 src, lookup_node self1 child) of
            (Some n, None) \<Rightarrow> (Inr child, update_node child n self1)
          | (None, c) \<Rightarrow> (Inl (KeyError (zarr_name src)), self1)
          | (Some n, Some c) \<Rightarrow> (Inl (ValueError ''an object already exists at the destination''), self1)))"

text \<open>
  Modelled from the spec: the class \<^verbatim>\<open>ZarrIODataChunkIteratorQueue\<close> of \<^verbatim>\<open>hdmf_zarr/utils.py\<close> is
  not among the sources. The spec gives its contract as \<^verbatim>\<open>enqueue\<close> and \<^verbatim>\<open>drain\<close>, where
  \<^verbatim>\<open>drain\<close> leaves all enqueued nodes fully materialized. The queue holds each node with the
  array its iterator produces.
\<close>

fun drain :: "(zobj \<times> pyval) list \<Rightarrow> zarrio \<Rightarrow> zarrio" where
  "drain [] self = self"
| "drain ((dset, content) # q) self =
     drain q (case lookup_node self dset of
                Some (ZArray a sh ch dt d) \<Rightarrow> update_node dset (ZArray a sh ch dt content) self
              | _ \<Rightarrow> self)"

definition exhaust_queue :: "zarrio \<Rightarrow> (error + unit) \<times> zarrio" where
  "exhaust_queue self =
     (case io_dci_queue self of
        None \<Rightarrow> (Inl (AttributeError ''exhaust_queue''), self)
      | Some q \<Rightarrow> (Inr (), log_call ExhaustQueue ((drain q self)\<lparr>io_dci_queue := Some []\<rparr>)))"

definition queue_append :: "zobj \<Rightarrow> pyval \<Rightarrow> zarrio \<Rightarrow> (error + unit) \<times> zarrio" where
  "queue_append dset content self =
     (case io_dci_queue self of
        None \<Rightarrow> (Inl (AttributeError ''append''), self)
      | Some q \<Rightarrow> (Inr (), log_call (QueueAppend dset) (self\<lparr>io_dci_queue := Some (q @ [(dset, content)])\<rparr>)))"

text \<open>
  \<^verbatim>\<open>__serial_dtype__\<close>: the name of a type; for a numpy dtype the name of its scalar type, or
  the list of its fields. \<^verbatim>\<open>ZarrReference\<close> is a class, so the first branch names it. A field of
  a structured dtype is a numpy dtype: a Python class has become \<^verbatim>\<open>str_\<close>, \<^verbatim>\<open>bytes_\<close> or
  \<^verbatim>\<open>object_\<close>, and \<^verbatim>\<open>None\<close> the default \<^verbatim>\<open>float64\<close>.
\<close>

fun type_name :: "pytype \<Rightarrow> string" where
  "type_name np_float32 = ''float32''"
| "type_name np_float64 = ''float64''"
| "type_name np_int8 = ''int8''"
| "type_name np_int16 = ''int16''"
| "type_name np_int32 = ''int32''"
| "type_name np_int64 = ''int64''"
| "type_name np_uint8 = ''uint8''"
| "type_name np_uint16 = ''uint16''"
| "type_name np_uint32 = ''uint32''"
| "type_name np_uint64 = ''uint64''"
| "type_name np_bool = ''bool_''"
| "type_name np_bytes = ''bytes_''"
| "type_name py_str = ''str''"
| "type_name py_bytes = ''bytes''"
| "type_name py_int = ''int''"
| "type_name py_bool = ''bool''"
| "type_name py_NoneType = ''NoneType''"
| "type_name py_object = ''object''"
| "type_name ZarrReferenceT = ''ZarrReference''"

definition is_np_type :: "pytype \<Rightarrow> bool" where
  "is_np_type t = (t \<in> {np_float32, np_float64, np_int8, np_int16, np_int32, np_int64,
     np_uint8, np_uint16, np_uint32, np_uint64, np_bool, np_bytes})"

definition np_scalar_name :: "pytype \<Rightarrow> string" where
  "np_scalar_name t =
     (if is_np_type t then type_name t
      else if t = py_str then ''str_''
      else if t = py_bytes then ''bytes_''
      else if t = py_int then ''int64''
      else if t = py_bool then ''bool_''
      else ''object_'')"

fun serial_field :: "rdtype \<Rightarrow> pyval"
  and serial_fields :: "(string \<times> rdtype) list \<Rightarrow> pyval list" where
  "serial_field RNone = PStr ''float64''"
| "serial_field (RType t) = PStr (np_scalar_name t)"
| "serial_field (RNpScalar t) = PStr (np_scalar_name t)"
| "serial_field (RNpStruct fs) = PList (serial_fields fs)"
| "serial_fields [] = []"
| "serial_fields ((n, d) # fs) =
     PDict [(''name'', PStr n), (''dtype'', serial_field d)] # serial_fields fs"

definition serial_dtype :: "rdtype \<Rightarrow> pyval" where
  "serial_dtype dtype =
     (case dtype of
        RNone \<Rightarrow> PNone
      | RType t \<Rightarrow> PStr (type_name t)
      | RNpScalar t \<Rightarrow> PStr (np_scalar_name t)
      | RNpStruct fs \<Rightarrow> PList (serial_fields fs))"

text \<open>Tests on a resolved dtype that \<^verbatim>\<open>__list_fill__\<close> makes.\<close>

definition is_number :: "pytype \<Rightarrow> bool" where
  "is_number t = (t \<in> {np_float32, np_float64, np_int8, np_int16, np_int32, np_int64,
     np_uint8, np_uint16, np_uint32, np_uint64, py_int})"

definition numeric_or_bool :: "rdtype \<Rightarrow> bool" where
  "numeric_or_bool dtype =
     (case dtype of
        RNpScalar t \<Rightarrow> is_number t \<or> t = np_bool \<or> t = py_bool
      | RType t \<Rightarrow> t = np_bool
      | _ \<Rightarrow> False)"

definition flexible_or_object :: "rdtype \<Rightarrow> bool" where
  "flexible_or_object d =
     (case d of
        RNone \<Rightarrow> False
      | RType t \<Rightarrow> \<not> is_number t \<and> t \<noteq> np_bool \<and> t \<noteq> py_bool
      | RNpScalar t \<Rightarrow> \<not> is_number t \<and> t \<noteq> np_bool \<and> t \<noteq> py_bool
      | RNpStruct fs \<Rightarrow> True)"

text \<open>\<^verbatim>\<open>len(data)\<close> and the elements of a value with a length.\<close>

fun items_of :: "pyval \<Rightarrow> pyval list option" where
  "items_of (PList xs) = Some xs"
| "items_of (PTuple xs) = Some xs"
| "items_of (PSet xs) = Some xs"
| "items_of (PNdarray xs) = Some xs"
| "items_of (PStr s) = Some (map (\<lambda>c. PStr [c]) s)"
| "items_of (PBytes s) = Some (map (\<lambda>c. PInt (of_char c)) s)"
| "items_of (PDict kvs) = Some (map (\<lambda>kv. PStr (fst kv)) kvs)"
| "items_of v = None"

text \<open>
  The element-by-element write of object-coded storage decodes bytes
  (\<^verbatim>\<open>o.decode("utf-8")\<close>); the result is the content with the bytes decoded.
\<close>

fun decode_deep :: "pylib \<Rightarrow> pyval \<Rightarrow> pyval option"
  and decode_list :: "pylib \<Rightarrow> pyval list \<Rightarrow> pyval list option" where
  "decode_deep lib (PBytes b) = (if utf8_valid lib b then Some (PStr b) else None)"
| "decode_deep lib (PNpGeneric t v) =
     (if t = np_bytes then decode_deep lib v else Some (PNpGeneric t v))"
| "decode_deep lib (PList xs) = map_option PList (decode_list lib xs)"
| "decode_deep lib (PTuple xs) = map_option PTuple (decode_list lib xs)"
| "decode_deep lib (PNdarray xs) = map_option PNdarray (decode_list lib xs)"
| "decode_deep lib v = Some v"
| "decode_list lib [] = Some []"
| "decode_list lib (x # xs) =
     (case decode_deep lib x of None \<Rightarrow> None
      | Some y \<Rightarrow> (case decode_list lib xs of None \<Rightarrow> None | Some ys \<Rightarrow> Some (y # ys)))"

text \<open>
  The dtype \<^verbatim>\<open>__list_fill__\<close> and \<^verbatim>\<open>__scalar_fill__\<close> start from: a declared type is taken as it
  is, anything else is resolved, and a failure is wrapped.
\<close>

definition fill_dtype :: "dtype_spec \<Rightarrow> pyval \<Rightarrow> error + rdtype" where
  "fill_dtype dtype data =
     (case dtype of
        DType t \<Rightarrow> Inr (RType t)
      | _ \<Rightarrow> (case resolve_dtype dtype data of
                Inl e \<Rightarrow> Inl (Exception ''cannot add dataset - could not determine type'')
              | Inr d \<Rightarrow> Inr d))"

text \<open>
  The shape and the storage dtype \<^verbatim>\<open>__list_fill__\<close> settles on, and whether it adds the object
  codec to the settings.
\<close>

definition list_layout :: "pylib \<Rightarrow> rdtype \<Rightarrow> pyval \<Rightarrow> (string \<times> io_setting) list
    \<Rightarrow> error + (nat list \<times> rdtype \<times> (string \<times> io_setting) list)" where
  "list_layout lib dtype data io_settings =
     (case map_of io_settings ''shape'' of
        Some (SShape sh) \<Rightarrow> Inr (sh, dtype, filter (\<lambda>kv. fst kv \<noteq> ''shape'') io_settings)
      | Some other \<Rightarrow> Inr ([], dtype, filter (\<lambda>kv. fst kv \<noteq> ''shape'') io_settings)
      | None \<Rightarrow>
          if numeric_or_bool dtype then Inr (get_data_shape lib data, dtype, io_settings)
          else (case dtype of
                  RNpStruct fs \<Rightarrow>
                    (case items_of data of
                       None \<Rightarrow> Inl (TypeError ''object has no len()'')
                     | Some xs \<Rightarrow>
                         if fs \<noteq> []
                         then (if \<exists>f \<in> set fs. flexible_or_object (snd f)
                               then Inr (get_data_shape lib data, RType py_object,
                                      AList.update ''object_codec'' SObjectCodec io_settings)
                               else Inr (get_data_shape lib data, dtype, io_settings))
                         else Inr ([length xs], RType py_object,
                                AList.update ''object_codec'' SObjectCodec io_settings))
                | RNpScalar t \<Rightarrow>
                    (case items_of data of
                       None \<Rightarrow> Inl (TypeError ''object has no len()'')
                     | Some xs \<Rightarrow>
                         (case data of
                            PNdarray (PBytes b # rest) \<Rightarrow> Inr (get_data_shape lib data, RType py_bytes, io_settings)
                          | PNdarray (PStr s # rest) \<Rightarrow> Inr (get_data_shape lib data, RType py_str, io_settings)
                          | PNdarray (x # rest) \<Rightarrow> Inr ([length xs], dtype, io_settings)
                          | _ \<Rightarrow> Inr ([length xs], RType py_object,
                                   AList.update ''object_codec'' SObjectCodec io_settings)))
                | _ \<Rightarrow> Inr (get_data_shape lib data, dtype, io_settings)))"

text \<open>\<^verbatim>\<open>__list_fill__\<close>.\<close>

definition list_fill :: "pylib \<Rightarrow> zarrio \<Rightarrow> zobj \<Rightarrow> string \<Rightarrow> pyval \<Rightarrow> dtype_spec
    \<Rightarrow> (string \<times> io_setting) list \<Rightarrow> (error + zobj) \<times> zarrio" where
  "list_fill lib self parent name data dtype0 io_settings =
     (case fill_dtype dtype0 data of
        Inl e \<Rightarrow> (Inl e, self)
      | Inr dtype \<Rightarrow>
          let type_str = serial_dtype dtype
          in (case list_layout lib dtype data io_settings of
                Inl e \<Rightarrow> (Inl e, self)
              | Inr (data_shape, dtype1, io_settings1) \<Rightarrow>
                  (case require_dataset parent name data_shape dtype1 io_settings1 self of
                     (Inl e, self1) \<Rightarrow> (Inl e, self1)
                   | (Inr dset, self1) \<Rightarrow>
                       (case attrs_set dset ''zarr_dtype'' type_str self1 of
                          (Inl e, self2) \<Rightarrow> (Inl e, self2)
                        | (Inr u, self2) \<Rightarrow>
                            if dtype1 = RType py_object
                            then (case decode_deep lib data of
                                    None \<Rightarrow> (Inl (ValueError ''invalid utf-8''), self2)
                                  | Some content \<Rightarrow>
                                      (case set_item lib dset content self2 of
                                         (Inl e, self3) \<Rightarrow> (Inl e, self3)
                                       | (Inr u, self3) \<Rightarrow> (Inr dset, self3)))
                            else (case set_item lib dset data self2 of
                                    (Inl (ValueError m), self3) \<Rightarrow>
                                      (case items_of data of
                                         None \<Rightarrow> (Inl (TypeError ''len() of unsized object''), self3)
                                       | Some xs \<Rightarrow>
                                           (case set_each lib dset 0 xs self3 of
                                              (Inl e, self4) \<Rightarrow> (Inl e, self4)
                                            | (Inr u, self4) \<Rightarrow> (Inr dset, self4)))
                                  | (Inl e, self3) \<Rightarrow> (Inl e, self3)
                                  | (Inr u, self3) \<Rightarrow> (Inr dset, self3))))))"

text \<open>\<^verbatim>\<open>__scalar_fill__\<close>.\<close>

definition scalar_fill :: "pylib \<Rightarrow> zarrio \<Rightarrow> zobj \<Rightarrow> string \<Rightarrow> pyval \<Rightarrow> dtype_spec
    \<Rightarrow> (string \<times> io_setting) list \<Rightarrow> (error + zobj) \<times> zarrio" where
  "scalar_fill lib self parent name data dtype0 io_settings =
     (case fill_dtype dtype0 data of
        Inl e \<Rightarrow> (Inl e, self)
      | Inr dtype \<Rightarrow>
          let io_settings1 = (if dtype = RType py_object
                              then AList.update ''object_codec'' SObjectCodec io_settings
                              else io_settings)
          in (case require_dataset parent name [1] dtype io_settings1 self of
                (Inl e, self1) \<Rightarrow> (Inl e, self1)
              | (Inr dset, self1) \<Rightarrow>
                  (case set_item lib dset data self1 of
                     (Inl e, self2) \<Rightarrow> (Inl e, self2)
                   | (Inr u, self2) \<Rightarrow>
                       (case attrs_set dset ''zarr_dtype'' (PStr ''scalar'') self2 of
                          (Inl e, self3) \<Rightarrow> (Inl e, self3)
                        | (Inr u, self3) \<Rightarrow> (Inr dset, self3)))))"

text \<open>
  \<^verbatim>\<open>__setup_chunked_dataset__\<close>: the chunks and the shape come from the settings or from the
  iterator, the dtype from the settings or from the builder's dtype (a name is looked up in the
  table); any failure is wrapped. The attribute is the dtype's numpy string.
\<close>

definition setup_chunked_dataset :: "pylib \<Rightarrow> zarrio \<Rightarrow> zobj \<Rightarrow> string \<Rightarrow> nat list option
    \<Rightarrow> nat list \<Rightarrow> dtype_spec \<Rightarrow> (string \<times> io_setting) list \<Rightarrow> (error + zobj) \<times> zarrio" where
  "setup_chunked_dataset lib self parent name recommended_chunks recommended_shape dtype0 io_settings0 =
     (let io_settings1 = (if ''chunks'' \<in> set (map fst io_settings0) then io_settings0
                          else AList.update ''chunks'' (SChunks recommended_chunks) io_settings0);
          shape = (case map_of io_settings1 ''shape'' of Some (SShape sh) \<Rightarrow> sh | _ \<Rightarrow> recommended_shape);
          dtype = (case map_of io_settings1 ''dtype'' of
                     Some (SDtype d) \<Rightarrow> Inr d
                   | _ \<Rightarrow> (case dtype0 of
                            DStr s \<Rightarrow> Inr (of_type_option (dtypes_get s))
                          | d \<Rightarrow> resolve_dtype_helper d))
      in (case dtype of
            Inl e \<Rightarrow> (Inl (Exception (''Could not create dataset '' @ name @ '' in '' @ zarr_name parent)), self)
          | Inr d \<Rightarrow>
              (case create_dataset parent name shape d io_settings1 self of
                 (Inl e, self1) \<Rightarrow>
                   (Inl (Exception (''Could not create dataset '' @ name @ '' in '' @ zarr_name parent)), self1)
               | (Inr dset, self1) \<Rightarrow>
                   (case attrs_set dset ''zarr_dtype'' (PStr (np_dtype_str lib d)) self1 of
                      (Inl e, self2) \<Rightarrow>
                        (Inl (Exception (''Could not create dataset '' @ name @ '' in '' @ zarr_name parent)), self2)
                    | (Inr u, self2) \<Rightarrow> (Inr dset, self2)))))"

text \<open>
  The references of a list of objects, in order (the comprehensions over \<^verbatim>\<open>__get_ref\<close>); a
  plain value where an object is expected is refused by the build manager.
\<close>

fun get_refs :: "pylib \<Rightarrow> zarrio \<Rightarrow> ref_object list \<Rightarrow> string option
    \<Rightarrow> (error + zarr_reference list) \<times> zarrio" where
  "get_refs lib self [] export_source = (Inr [], self)"
| "get_refs lib self (x # xs) export_source =
     (case get_ref lib self x export_source of
        (Inl e, self1) \<Rightarrow> (Inl e, self1)
      | (Inr r, self1) \<Rightarrow>
          (case get_refs lib self1 xs export_source of
             (Inl e, self2) \<Rightarrow> (Inl e, self2)
           | (Inr rs, self2) \<Rightarrow> (Inr (r # rs), self2)))"

definition cell_ref :: "pylib \<Rightarrow> zarrio \<Rightarrow> cell \<Rightarrow> string option \<Rightarrow> (error + zarr_reference) \<times> zarrio" where
  "cell_ref lib self c export_source =
     (case c of
        CObj x \<Rightarrow> get_ref lib self x export_source
      | CVal v \<Rightarrow> (Inl (ValueError ''could not build the referenced object''), self))"

text \<open>
  The rows of a compound dataset as \<^verbatim>\<open>write_dataset\<close> indexes them (\<^verbatim>\<open>data[0][i]\<close>,
  \<^verbatim>\<open>item[i]\<close>), and the rows as a plain value.
\<close>

definition cells_of :: "pyval \<Rightarrow> cell list option" where
  "cells_of v = map_option (map CVal) (case v of PTuple xs \<Rightarrow> Some xs | PList xs \<Rightarrow> Some xs
     | PNdarray xs \<Rightarrow> Some xs | _ \<Rightarrow> None)"

fun all_some :: "'a option list \<Rightarrow> 'a list option" where
  "all_some [] = Some []"
| "all_some (None # xs) = None"
| "all_some (Some x # xs) = map_option ((#) x) (all_some xs)"

definition rows_of :: "dataset_data \<Rightarrow> cell list list option" where
  "rows_of data =
     (case data of
        Rows rs \<Rightarrow> Some rs
      | Plain v \<Rightarrow> (case items_of v of None \<Rightarrow> None | Some xs \<Rightarrow> all_some (map cells_of xs))
      | _ \<Rightarrow> None)"

definition cell_value :: "cell \<Rightarrow> pyval option" where
  "cell_value c = (case c of CVal v \<Rightarrow> Some v | CObj x \<Rightarrow> None)"

definition plain_of :: "dataset_data \<Rightarrow> pyval option" where
  "plain_of data =
     (case data of
        Plain v \<Rightarrow> Some v
      | Rows rs \<Rightarrow> map_option PList (all_some (map (\<lambda>r. map_option PTuple (all_some (map cell_value r))) rs))
      | RefSequence [] \<Rightarrow> Some (PList [])
      | _ \<Rightarrow> None)"

text \<open>
  The first loop of the compound case, over the fields of the dtype with their positions: the
  positions of the reference fields and the type tag. The reference of \<^verbatim>\<open>data[0][i]\<close> is made
  for each reference field (and raises with no rows, or with data that has no rows).
\<close>

fun compound_fields :: "pylib \<Rightarrow> zarrio \<Rightarrow> (nat \<times> string \<times> dtype_spec) list
    \<Rightarrow> cell list list option \<Rightarrow> string option \<Rightarrow> (error + (nat list \<times> pyval list)) \<times> zarrio" where
  "compound_fields lib self [] rows export_source = (Inr ([], []), self)"
| "compound_fields lib self ((i, n, d) # fs) rows export_source =
     (if is_ref d
      then (case rows of
              None \<Rightarrow> (Inl (TypeError ''object is not subscriptable''), self)
            | Some [] \<Rightarrow> (Inl (IndexError ''list index out of range''), self)
            | Some (row # rest) \<Rightarrow>
                if i < length row
                then (case cell_ref lib self (row ! i) export_source of
                        (Inl e, self1) \<Rightarrow> (Inl e, self1)
                      | (Inr r, self1) \<Rightarrow>
                          (case compound_fields lib self1 fs rows export_source of
                             (Inl e, self2) \<Rightarrow> (Inl e, self2)
                           | (Inr (refs, type_str), self2) \<Rightarrow>
                               (Inr (i # refs,
                                     PDict [(''name'', PStr n), (''dtype'', PStr ''object'')] # type_str), self2)))
                else (Inl (IndexError ''tuple index out of range''), self))
      else (case resolve_dtype_helper (DList [(n, d)]) of
              Inl e \<Rightarrow> (Inl e, self)
            | Inr t \<Rightarrow>
                (case serial_dtype t of
                   PList (entry # others) \<Rightarrow>
                     (case compound_fields lib self fs rows export_source of
                        (Inl e, self2) \<Rightarrow> (Inl e, self2)
                      | (Inr (refs, type_str), self2) \<Rightarrow> (Inr (refs, entry # type_str), self2))
                 | _ \<Rightarrow> (Inl (IndexError ''list index out of range''), self))))"

text \<open>The second loop: each row with the cells at the reference positions replaced.\<close>

fun ref_row :: "pylib \<Rightarrow> zarrio \<Rightarrow> nat list \<Rightarrow> cell list \<Rightarrow> pyval list \<Rightarrow> string option
    \<Rightarrow> (error + pyval list) \<times> zarrio" where
  "ref_row lib self [] row new_item export_source = (Inr new_item, self)"
| "ref_row lib self (i # refs) row new_item export_source =
     (if i < length row
      then (case cell_ref lib self (row ! i) export_source of
              (Inl e, self1) \<Rightarrow> (Inl e, self1)
            | (Inr r, self1) \<Rightarrow> ref_row lib self1 refs row (new_item[i := PRef r]) export_source)
      else (Inl (IndexError ''list index out of range''), self))"

definition cell_or_none :: "cell \<Rightarrow> pyval" where
  "cell_or_none c = (case c of CVal v \<Rightarrow> v | CObj x \<Rightarrow> PNone)"

fun ref_rows :: "pylib \<Rightarrow> zarrio \<Rightarrow> nat list \<Rightarrow> cell list list \<Rightarrow> string option
    \<Rightarrow> (error + pyval list) \<times> zarrio" where
  "ref_rows lib self refs [] export_source = (Inr [], self)"
| "ref_rows lib self refs (row # rows) export_source =
     (case ref_row lib self refs row (map cell_or_none row) export_source of
        (Inl e, self1) \<Rightarrow> (Inl e, self1)
      | (Inr new_item, self1) \<Rightarrow>
          (case ref_rows lib self1 refs rows export_source of
             (Inl e, self2) \<Rightarrow> (Inl e, self2)
           | (Inr new_items, self2) \<Rightarrow> (Inr (PTuple new_item # new_items), self2)))"

text \<open>
  The storage dtype of a compound dataset with references: a text field and a field whose
  dtype is a dict are object fields, the others are resolved.
\<close>

fun storage_fields :: "(string \<times> dtype_spec) list \<Rightarrow> error + (string \<times> rdtype) list" where
  "storage_fields [] = Inr []"
| "storage_fields ((n, d) # fs) =
     (case (if d = DType py_str \<or> d \<in> DStr ` {''str'', ''text'', ''utf'', ''utf8'', ''utf-8'', ''isodatetime''}
            then Inr (RNpScalar py_object)
            else (case d of
                    DDict r \<Rightarrow> Inr (RNpScalar py_object)
                  | DRefSpec r \<Rightarrow> Inr (RNpScalar py_object)
                  | DDtypeSpec x \<Rightarrow> Inr (RNpScalar py_object)
                  | _ \<Rightarrow> resolve_dtype_helper d)) of
        Inl e \<Rightarrow> Inl e
      | Inr r \<Rightarrow> (case storage_fields fs of Inl e \<Rightarrow> Inl e | Inr rs \<Rightarrow> Inr ((n, r) # rs)))"

text \<open>
  The cases of \<^verbatim>\<open>write_dataset\<close> for a basic value, in the order of its tests. The result is
  the array written (\<^verbatim>\<open>None\<close> for a link) and the flag \<^verbatim>\<open>linked\<close>. \<^verbatim>\<open>builder\<close> is the dataset
  builder: the cases with references flag it written before the content is written. In the
  case of a dataset of references, \<^verbatim>\<open>refs\<close> always has \<^verbatim>\<open>__len__\<close> (a list, or one \<^verbatim>\<open>ZarrReference\<close>,
  which is a dict), so the content is assigned as \<^verbatim>\<open>dset[:] = np.array(refs)\<close>: for one reference
  that is an array of dimension zero, assigned to an array of shape \<^verbatim>\<open>(1,)\<close>.
\<close>

definition write_array :: "pylib \<Rightarrow> zarrio \<Rightarrow> zobj \<Rightarrow> string \<Rightarrow> bool \<Rightarrow> zobj
    \<Rightarrow> (error + (zobj option \<times> bool)) \<times> zarrio" where
  "write_array lib self parent name link_data data =
     (if link_data
      then (case add_link self parent (z_store_path data) (zarr_name data) name of
              (Inl e, self1) \<Rightarrow> (Inl e, self1)
            | (Inr u, self1) \<Rightarrow> (Inr (None, True), self1))
      else (case zarr_copy data parent name self of
              (Inl e, self1) \<Rightarrow> (Inl e, self1)
            | (Inr dset, self1) \<Rightarrow> (Inr (Some dset, False), self1)))"

definition write_compound :: "pylib \<Rightarrow> zarrio \<Rightarrow> zobj \<Rightarrow> builder \<Rightarrow> string
    \<Rightarrow> (string \<times> dtype_spec) list \<Rightarrow> (string \<times> io_setting) list \<Rightarrow> dataset_data \<Rightarrow> string option
    \<Rightarrow> (error + (zobj option \<times> bool)) \<times> zarrio" where
  "write_compound lib self parent builder name flds io_settings data export_source =
     (case compound_fields lib self (zip [0 ..< length flds] flds) (rows_of data) export_source of
             (Inl e, self1) \<Rightarrow> (Inl e, self1)
           | (Inr (refs, type_str), self1) \<Rightarrow>
               if refs \<noteq> []
               then
                 let self2 = set_written builder self1
                 in (case ref_rows lib self2 refs (case rows_of data of None \<Rightarrow> [] | Some rows \<Rightarrow> rows)
                            export_source of
                       (Inl e, self3) \<Rightarrow> (Inl e, self3)
                     | (Inr new_items, self3) \<Rightarrow>
                         (case storage_fields flds of
                            Inl e \<Rightarrow> (Inl e, self3)
                          | Inr new_dtype \<Rightarrow>
                              if \<not> list_all (\<lambda>f. dtype_understood (snd f)) new_dtype
                              then (Inl (TypeError ''Cannot interpret the class as a data type''), self3)
                              else
                              (case require_dataset parent name [length new_items] (RNpStruct new_dtype)
                                      (AList.update ''object_codec'' SObjectCodec io_settings) self3 of
                                 (Inl e, self4) \<Rightarrow> (Inl e, self4)
                               | (Inr dset, self4) \<Rightarrow>
                                   (case attrs_set dset ''zarr_dtype'' (PList type_str) self4 of
                                      (Inl e, self5) \<Rightarrow> (Inl e, self5)
                                    | (Inr u, self5) \<Rightarrow>
                                        (case set_item lib dset (PNdarray new_items) self5 of
                                           (Inl e, self6) \<Rightarrow> (Inl e, self6)
                                         | (Inr u, self6) \<Rightarrow> (Inr (Some dset, False), self6))))))
               else (case plain_of data of
                       None \<Rightarrow> (Inl (Exception ''cannot add dataset - could not determine type''), self1)
                     | Some v \<Rightarrow>
                         (case list_fill lib self1 parent name v (DList flds) io_settings of
                            (Inl e, self2) \<Rightarrow> (Inl e, self2)
                          | (Inr dset, self2) \<Rightarrow> (Inr (Some dset, False), self2))))"

definition write_references :: "pylib \<Rightarrow> zarrio \<Rightarrow> zobj \<Rightarrow> builder \<Rightarrow> string
    \<Rightarrow> (string \<times> io_setting) list \<Rightarrow> dataset_data \<Rightarrow> string option
    \<Rightarrow> (error + (zobj option \<times> bool)) \<times> zarrio" where
  "write_references lib self parent builder name io_settings data export_source =
     (case (case data of
              ReferenceBuilderData (ReferenceBuilder b) \<Rightarrow>
                (case get_ref lib self (BuilderObj b) export_source of
                   (Inl e, self1) \<Rightarrow> (Inl e, self1)
                 | (Inr r, self1) \<Rightarrow> (Inr ([1], PNdarray0 (PRef r)), self1))
            | ReferenceBuilderData (RegionBuilder b) \<Rightarrow>
                (case get_ref lib self (BuilderObj b) export_source of
                   (Inl e, self1) \<Rightarrow> (Inl e, self1)
                 | (Inr r, self1) \<Rightarrow> (Inr ([1], PNdarray0 (PRef r)), self1))
            | ReferenceBuilderData x \<Rightarrow> (Inl (TypeError ''object has no len()''), self)
            | RefSequence xs \<Rightarrow>
                (case get_refs lib self xs export_source of
                   (Inl e, self1) \<Rightarrow> (Inl e, self1)
                 | (Inr rs, self1) \<Rightarrow> (Inr ([length rs], PNdarray (map PRef rs)), self1))
            | Plain v \<Rightarrow>
                (case items_of v of
                   Some [] \<Rightarrow> (Inr ([0], PNdarray []), self)
                 | Some xs \<Rightarrow> (Inl (ValueError ''could not build the referenced object''), self)
                 | None \<Rightarrow> (Inl (TypeError ''object has no len()''), self))
            | Rows [] \<Rightarrow> (Inr ([0], PNdarray []), self)
            | Rows (row # rows) \<Rightarrow> (Inl (ValueError ''could not build the referenced object''), self)
            | _ \<Rightarrow> (Inl (TypeError ''object has no len()''), self)) of
        (Inl e, self1) \<Rightarrow> (Inl e, self1)
      | (Inr (shape, refs), self1) \<Rightarrow>
          (case require_dataset parent name shape (RType py_object)
                  (AList.update ''object_codec'' SObjectCodec io_settings) self1 of
             (Inl e, self2) \<Rightarrow> (Inl e, self2)
           | (Inr dset, self2) \<Rightarrow>
               (case attrs_set dset ''zarr_dtype'' (PStr ''object'') (set_written builder self2) of
                  (Inl e, self3) \<Rightarrow> (Inl e, self3)
                | (Inr u, self3) \<Rightarrow>
                    (case set_item lib dset refs self3 of
                       (Inl e, self4) \<Rightarrow> (Inl e, self4)
                     | (Inr u, self4) \<Rightarrow> (Inr (Some dset, False), self4)))))"

definition write_regular :: "pylib \<Rightarrow> zarrio \<Rightarrow> zobj \<Rightarrow> string \<Rightarrow> dtype_spec
    \<Rightarrow> (string \<times> io_setting) list \<Rightarrow> dataset_data \<Rightarrow> (error + (zobj option \<times> bool)) \<times> zarrio" where
  "write_regular lib self parent name dtype io_settings data =
     (case (case data of
              DataChunkIterator recommended_chunks recommended_shape dci_dtype content \<Rightarrow>
                (case setup_chunked_dataset lib self parent name recommended_chunks recommended_shape
                        dtype io_settings of
                   (Inl e, self1) \<Rightarrow> (Inl e, self1)
                 | (Inr dset, self1) \<Rightarrow>
                     (case queue_append dset content self1 of
                        (Inl e, self2) \<Rightarrow> (Inl e, self2)
                      | (Inr u, self2) \<Rightarrow> (Inr dset, self2)))
            | _ \<Rightarrow>
                (case plain_of data of
                   None \<Rightarrow> (Inl (Exception ''cannot add dataset - could not determine type''), self)
                 | Some v \<Rightarrow>
                     if (case v of PStr s \<Rightarrow> True | PBytes b \<Rightarrow> True | PNpGeneric t x \<Rightarrow> t = np_bytes
                         | _ \<Rightarrow> False)
                     then scalar_fill lib self parent name v dtype io_settings
                     else if has_len v then list_fill lib self parent name v dtype io_settings
                     else scalar_fill lib self parent name v dtype io_settings)) of
        (Inl e, self1) \<Rightarrow> (Inl e, self1)
      | (Inr dset, self1) \<Rightarrow> (Inr (Some dset, False), self1))"

definition write_basic :: "pylib \<Rightarrow> zarrio \<Rightarrow> zobj \<Rightarrow> builder \<Rightarrow> string \<Rightarrow> dtype_spec
    \<Rightarrow> (string \<times> io_setting) list \<Rightarrow> bool \<Rightarrow> dataset_data \<Rightarrow> string option
    \<Rightarrow> (error + (zobj option \<times> bool)) \<times> zarrio" where
  "write_basic lib self parent builder name dtype io_settings link_data data export_source =
     (case data of
        ArrayData a \<Rightarrow> write_array lib self parent name link_data a
      | _ \<Rightarrow>
          (case dtype of
             DList flds \<Rightarrow> write_compound lib self parent builder name flds io_settings data export_source
           | _ \<Rightarrow>
               if is_ref dtype
               then write_references lib self parent builder name io_settings data export_source
               else write_regular lib self parent name dtype io_settings data))"

text \<open>
  The end of \<^verbatim>\<open>write_dataset\<close>: the attributes (unless the dataset is a link), the written
  flag, the queue. \<^verbatim>\<open>write_attributes\<close> needs a group or an array.
\<close>

definition finish_dataset :: "pylib \<Rightarrow> zarrio \<Rightarrow> builder \<Rightarrow> bool \<Rightarrow> zobj option \<times> bool
    \<Rightarrow> (error + zobj option) \<times> zarrio" where
  "finish_dataset lib self builder exhaust_dci r =
     (case (if \<not> snd r
            then (case fst r of
                    None \<Rightarrow> (Inl (TypeError ''write_attributes: incorrect type for obj''), self)
                  | Some dset \<Rightarrow> write_attributes lib self dset (attributes_of builder) None)
            else (Inr (), self)) of
        (Inl e, self1) \<Rightarrow> (Inl e, self1)
      | (Inr u, self1) \<Rightarrow>
          let self2 = set_written builder self1
          in if exhaust_dci
             then (case exhaust_queue self2 of
                     (Inl e, self3) \<Rightarrow> (Inl e, self3)
                   | (Inr u, self3) \<Rightarrow> (Inr (fst r), self3))
             else (Inr (fst r), self2))"

text \<open>
  The queue \<^verbatim>\<open>write_dataset\<close> creates when it is to exhaust the iterators and there is none.
\<close>

definition ensure_queue :: "bool \<Rightarrow> zarrio \<Rightarrow> zarrio" where
  "ensure_queue exhaust_dci self =
     (if exhaust_dci \<and> io_dci_queue self = None then self\<lparr>io_dci_queue := Some []\<rparr> else self)"

text \<open>
  Modelled from the spec: \<^verbatim>\<open>data[:]\<close> of the lazy views of \<^verbatim>\<open>hdmf_zarr/zarr_utils.py\<close> (not among
  the sources): a view over an array of references gives the objects the references resolve to,
  a view over a compound array its rows; the parameter \<^verbatim>\<open>load\<close> gives both.
\<close>

definition loaded_value :: "(zobj \<Rightarrow> dataset_data) \<Rightarrow> hdmf_data \<Rightarrow> dataset_data" where
  "loaded_value load data =
     (case data of
        Data d \<Rightarrow> d
      | HDMFDataset_containers xs \<Rightarrow> RefSequence xs
      | HDMFDataset_loaded d \<Rightarrow> d
      | BuilderZarrTableDataset z ds \<Rightarrow> load z
      | BuilderZarrReferenceDataset z \<Rightarrow> load z)"

text \<open>
  \<^verbatim>\<open>write_dataset\<close>. A dataset of containers is an \<^verbatim>\<open>HDMFDataset\<close> that is not empty and whose
  first element is a \<^verbatim>\<open>Container\<close>. The call it makes on itself for another \<^verbatim>\<open>HDMFDataset\<close>, with the loaded data forced and \<^verbatim>\<open>exhaust_dci\<close> at its default, is the inner
  \<^verbatim>\<open>write_basic\<close> and \<^verbatim>\<open>finish_dataset\<close>: the builder is not written yet, the loaded value is
  basic, and the settings of the call are empty. The parent must be a group and the builder a
  \<^verbatim>\<open>DatasetBuilder\<close>.
\<close>

definition write_dataset :: "pylib \<Rightarrow> (zobj \<Rightarrow> dataset_data) \<Rightarrow> zarrio \<Rightarrow> zobj \<Rightarrow> builder \<Rightarrow> bool
    \<Rightarrow> bool \<Rightarrow> string option \<Rightarrow> (error + zobj option) \<times> zarrio" where
  "write_dataset lib load self parent builder link_data exhaust_dci export_source =
     (case builder of
        DatasetBuilder h attributes bdata dtype \<Rightarrow>
          if \<not> is_group self parent
          then (Inl (TypeError ''write_dataset: incorrect type for parent''), self)
          else
            let self0 = ensure_queue exhaust_dci self
            in if get_written self0 builder then (Inr None, self0)
               else
                 let name = b_name h;
                     io_settings = (case bdata of ZarrDataIO s l d \<Rightarrow> s | Unwrapped d \<Rightarrow> []);
                     link_data1 = (case bdata of ZarrDataIO s l d \<Rightarrow> l | Unwrapped d \<Rightarrow> link_data);
                     data = (case bdata of ZarrDataIO s l d \<Rightarrow> d | Unwrapped d \<Rightarrow> d)
                 in (case (case data of
                             Data d \<Rightarrow>
                               write_basic lib self0 parent builder name dtype io_settings link_data1 d
                                 export_source
                           | HDMFDataset_containers (Container c a # rest) \<Rightarrow>
                               (case get_refs lib self0 (Container c a # rest) export_source of
                                  (Inl e, self1) \<Rightarrow> (Inl e, self1)
                                | (Inr ref_data, self1) \<Rightarrow>
                                    (case require_dataset parent name [Suc (length rest)] (RType py_object)
                                            (AList.update ''object_codec'' SObjectCodec io_settings) self1 of
                                       (Inl e, self2) \<Rightarrow> (Inl e, self2)
                                     | (Inr dset, self2) \<Rightarrow>
                                         (case attrs_set dset ''zarr_dtype'' (PStr ''object'') self2 of
                                            (Inl e, self3) \<Rightarrow> (Inl e, self3)
                                          | (Inr u, self3) \<Rightarrow>
                                              (case set_item lib dset (PList (map PRef ref_data)) self3 of
                                                 (Inl e, self4) \<Rightarrow> (Inl e, self4)
                                               | (Inr u, self4) \<Rightarrow>
                                                   (Inr (Some dset, False), set_written builder self4)))))
                           | _ \<Rightarrow>
                               (case write_basic lib (ensure_queue True self0) parent builder name dtype []
                                       link_data1 (loaded_value load data) export_source of
                                  (Inl e, self1) \<Rightarrow> (Inl e, self1)
                                | (Inr r, self1) \<Rightarrow>
                                    (case finish_dataset lib self1 builder True r of
                                       (Inl e, self2) \<Rightarrow> (Inl e, self2)
                                     | (Inr dset, self2) \<Rightarrow> (Inr (dset, False), set_written builder self2)))) of
                       (Inl e, self1) \<Rightarrow> (Inl e, self1)
                     | (Inr r, self1) \<Rightarrow> finish_dataset lib self1 builder exhaust_dci r)
      | _ \<Rightarrow> (Inl (TypeError ''write_dataset: incorrect type for builder''), self))"

section \<open>WriteEngine: links, groups and the builder\<close>

text \<open>\<^verbatim>\<open>write_link\<close>. The parent must be a group and the builder a \<^verbatim>\<open>LinkBuilder\<close>.\<close>

definition write_link :: "pylib \<Rightarrow> zarrio \<Rightarrow> zobj \<Rightarrow> builder \<Rightarrow> (error + unit) \<times> zarrio" where
  "write_link lib self parent builder =
     (case builder of
        LinkBuilder h target_builder \<Rightarrow>
          if \<not> is_group self parent
          then (Inl (TypeError ''write_link: incorrect type for parent''), self)
          else if get_written self builder then (Inr (), self)
          else
            (case get_ref lib self (BuilderObj target_builder) None of
               (Inl e, self1) \<Rightarrow> (Inl e, self1)
             | (Inr zarr_ref, self1) \<Rightarrow>
                 let source = (if b_source h = b_source target_builder then ''.'' else ref_source zarr_ref)
                 in (case add_link self1 parent source (ref_path zarr_ref) (b_name h) of
                       (Inl e, self2) \<Rightarrow> (Inl e, self2)
                     | (Inr u, self2) \<Rightarrow> (Inr (), set_written builder self2)))
      | _ \<Rightarrow> (Inl (TypeError ''write_link: incorrect type for builder''), self))"

text \<open>The loops of \<^verbatim>\<open>write_group\<close> and \<^verbatim>\<open>write_builder\<close> over datasets and over links.\<close>

fun write_datasets :: "pylib \<Rightarrow> (zobj \<Rightarrow> dataset_data) \<Rightarrow> zarrio \<Rightarrow> zobj \<Rightarrow> builder list \<Rightarrow> bool
    \<Rightarrow> bool \<Rightarrow> string option \<Rightarrow> (error + unit) \<times> zarrio" where
  "write_datasets lib load self parent [] link_data exhaust_dci export_source = (Inr (), self)"
| "write_datasets lib load self parent (b # bs) link_data exhaust_dci export_source =
     (case write_dataset lib load self parent b link_data exhaust_dci export_source of
        (Inl e, self1) \<Rightarrow> (Inl e, self1)
      | (Inr dset, self1) \<Rightarrow> write_datasets lib load self1 parent bs link_data exhaust_dci export_source)"

fun write_links :: "pylib \<Rightarrow> zarrio \<Rightarrow> zobj \<Rightarrow> builder list \<Rightarrow> (error + unit) \<times> zarrio" where
  "write_links lib self parent [] = (Inr (), self)"
| "write_links lib self parent (b # bs) =
     (case write_link lib self parent b of
        (Inl e, self1) \<Rightarrow> (Inl e, self1)
      | (Inr u, self1) \<Rightarrow> write_links lib self1 parent bs)"

text \<open>\<^verbatim>\<open>parent[builder.name]\<close>, for a group already written.\<close>

definition getitem_name :: "zarrio \<Rightarrow> zobj \<Rightarrow> string \<Rightarrow> error + zobj" where
  "getitem_name self parent name = z_getitem self parent (PStr name)"

text \<open>
  \<^verbatim>\<open>write_group\<close>, with the loop over the subgroups. The call on a subgroup passes no
  \<^verbatim>\<open>export_source\<close>: it is \<^verbatim>\<open>None\<close> there, as the default is.
\<close>

fun write_group :: "pylib \<Rightarrow> (zobj \<Rightarrow> dataset_data) \<Rightarrow> zarrio \<Rightarrow> zobj \<Rightarrow> builder \<Rightarrow> bool \<Rightarrow> bool
    \<Rightarrow> string option \<Rightarrow> (error + zobj) \<times> zarrio"
  and write_subgroups :: "pylib \<Rightarrow> (zobj \<Rightarrow> dataset_data) \<Rightarrow> zarrio \<Rightarrow> zobj \<Rightarrow> builder list \<Rightarrow> bool
    \<Rightarrow> bool \<Rightarrow> (error + unit) \<times> zarrio" where
  "write_group lib load self parent (GroupBuilder h attributes subgroups datasets links)
       link_data exhaust_dci export_source =
     (if \<not> is_group self parent
      then (Inl (TypeError ''write_group: incorrect type for parent''), self)
      else
        (case (if get_written self (GroupBuilder h attributes subgroups datasets links)
               then (getitem_name self parent (b_name h), self)
               else require_group parent (b_name h) self) of
           (Inl e, self1) \<Rightarrow> (Inl e, self1)
         | (Inr grp, self1) \<Rightarrow>
             (case write_subgroups lib load self1 grp subgroups link_data exhaust_dci of
                (Inl e, self2) \<Rightarrow> (Inl e, self2)
              | (Inr u, self2) \<Rightarrow>
                  (case write_datasets lib load self2 grp datasets link_data exhaust_dci export_source of
                     (Inl e, self3) \<Rightarrow> (Inl e, self3)
                   | (Inr u, self3) \<Rightarrow>
                       (case write_links lib self3 grp links of
                          (Inl e, self4) \<Rightarrow> (Inl e, self4)
                        | (Inr u, self4) \<Rightarrow>
                            (case write_attributes lib self4 grp attributes None of
                               (Inl e, self5) \<Rightarrow> (Inl e, self5)
                             | (Inr u, self5) \<Rightarrow>
                                 (Inr grp,
                                  set_written (GroupBuilder h attributes subgroups datasets links) self5)))))))"
| "write_group lib load self parent (DatasetBuilder h a d t) link_data exhaust_dci export_source =
     (Inl (TypeError ''write_group: incorrect type for builder''), self)"
| "write_group lib load self parent (LinkBuilder h t) link_data exhaust_dci export_source =
     (Inl (TypeError ''write_group: incorrect type for builder''), self)"
| "write_subgroups lib load self parent [] link_data exhaust_dci = (Inr (), self)"
| "write_subgroups lib load self parent (b # bs) link_data exhaust_dci =
     (case write_group lib load self parent b link_data exhaust_dci None of
        (Inl e, self1) \<Rightarrow> (Inl e, self1)
      | (Inr grp, self1) \<Rightarrow> write_subgroups lib load self1 parent bs link_data exhaust_dci)"

text \<open>
  The loop of \<^verbatim>\<open>write_builder\<close> over the groups of the root builder (here \<^verbatim>\<open>export_source\<close> is
  passed on).
\<close>

fun write_root_groups :: "pylib \<Rightarrow> (zobj \<Rightarrow> dataset_data) \<Rightarrow> zarrio \<Rightarrow> zobj \<Rightarrow> builder list \<Rightarrow> bool
    \<Rightarrow> bool \<Rightarrow> string option \<Rightarrow> (error + unit) \<times> zarrio" where
  "write_root_groups lib load self parent [] link_data exhaust_dci export_source = (Inr (), self)"
| "write_root_groups lib load self parent (b # bs) link_data exhaust_dci export_source =
     (case write_group lib load self parent b link_data exhaust_dci export_source of
        (Inl e, self1) \<Rightarrow> (Inl e, self1)
      | (Inr grp, self1) \<Rightarrow> write_root_groups lib load self1 parent bs link_data exhaust_dci export_source)"

text \<open>\<^verbatim>\<open>zarr.consolidate_metadata(store=self.path)\<close>.\<close>

definition consolidate_metadata :: "string \<Rightarrow> zarrio \<Rightarrow> (error + unit) \<times> zarrio" where
  "consolidate_metadata store self =
     (case map_of (io_stores self) store of
        None \<Rightarrow> (Inl (ValueError ''nothing found at path''), self)
      | Some f \<Rightarrow>
          (Inr (), log_call (ConsolidateMetadata store)
             (self\<lparr>io_stores := AList.update store (ZFile (zf_remote f) True (zf_nodes f)) (io_stores self)\<rparr>)))"

text \<open>\<^verbatim>\<open>write_builder\<close>. The builder must be a \<^verbatim>\<open>GroupBuilder\<close>; \<^verbatim>\<open>self.__file\<close> is the parent.\<close>

definition write_builder :: "pylib \<Rightarrow> (zobj \<Rightarrow> dataset_data) \<Rightarrow> zarrio \<Rightarrow> builder \<Rightarrow> bool \<Rightarrow> bool
    \<Rightarrow> string option \<Rightarrow> bool \<Rightarrow> (error + unit) \<times> zarrio" where
  "write_builder lib load self f_builder link_data exhaust_dci export_source consolidate =
     (case f_builder of
        GroupBuilder h attributes groups datasets links \<Rightarrow>
          (case io_file self of
             None \<Rightarrow>
               (if groups = [] \<and> datasets = []
                then (Inl (TypeError ''write_attributes: incorrect type for obj''), self)
                else (Inl (TypeError ''incorrect type for parent''), self))
           | Some file \<Rightarrow>
               (case write_root_groups lib load self file groups link_data exhaust_dci export_source of
                  (Inl e, self1) \<Rightarrow> (Inl e, self1)
                | (Inr u, self1) \<Rightarrow>
                    (case write_datasets lib load self1 file datasets link_data exhaust_dci export_source of
                       (Inl e, self2) \<Rightarrow> (Inl e, self2)
                     | (Inr u, self2) \<Rightarrow>
                         (case write_attributes lib self2 file attributes None of
                            (Inl e, self3) \<Rightarrow> (Inl e, self3)
                          | (Inr u, self3) \<Rightarrow>
                              (case exhaust_queue self3 of
                                 (Inl e, self4) \<Rightarrow> (Inl e, self4)
                               | (Inr u, self4) \<Rightarrow>
                                   let self5 = set_written f_builder self4
                                   in if consolidate then consolidate_metadata (io_path self5) self5
                                      else (Inr (), self5))))))
      | _ \<Rightarrow> (Inl (TypeError ''write_builder: incorrect type for builder''), self))"

section \<open>Observations on a second write\<close>

text \<open>
  What a write may do to a session when only attributes are assigned: the written flags stay,
  every node of every store stays, with its shape, dtype and content, and the calls added to
  the log are assignments of attributes.
\<close>

definition is_set_attr :: "zcall \<Rightarrow> bool" where
  "is_set_attr c = (case c of SetAttr obj key v \<Rightarrow> True | _ \<Rightarrow> False)"

definition without_attrs :: "znode \<Rightarrow> znode" where
  "without_attrs n = with_attrs n []"

definition attrs_only :: "zarrio \<Rightarrow> zarrio \<Rightarrow> bool" where
  "attrs_only self self1 =
     (io_written self1 = io_written self \<and>
      (\<forall>obj. map_option without_attrs (lookup_node self1 obj) = map_option without_attrs (lookup_node self obj)) \<and>
      take (length (io_calls self)) (io_calls self1) = io_calls self \<and>
      list_all is_set_attr (drop (length (io_calls self)) (io_calls self1)))"

text \<open>The identities of the builders of a tree: a group, its subgroups, its datasets, its links.\<close>

fun tree_ids :: "builder \<Rightarrow> nat list" where
  "tree_ids (GroupBuilder h a gs ds ls) =
     bid h # concat (map tree_ids gs) @ map (\<lambda>b. bid (head_of b)) ds @ map (\<lambda>b. bid (head_of b)) ls"
| "tree_ids (DatasetBuilder h a d t) = [bid h]"
| "tree_ids (LinkBuilder h t) = [bid h]"

section \<open>An example world\<close>

text \<open>
  A file system for the examples: the directories \<^verbatim>\<open>/data/a.zarr\<close> and \<^verbatim>\<open>/data/b.zarr\<close>
  exist, the working directory is \<^verbatim>\<open>/data\<close>, and \<^verbatim>\<open>join\<close> is the POSIX one.
\<close>

definition example_join :: "string \<Rightarrow> string \<Rightarrow> string" where
  "example_join a b =
     (if b \<noteq> [] \<and> hd b = CHR ''/'' then b
      else if a = [] \<or> last a = CHR ''/'' then a @ b
      else a @ ''/'' @ b)"

fun norm_segments :: "string list \<Rightarrow> string list \<Rightarrow> string list" where
  "norm_segments acc [] = rev acc"
| "norm_segments acc (s # ss) =
     (if s = [] \<or> s = ''.'' then norm_segments acc ss
      else if s = ''..'' \<and> acc \<noteq> [] \<and> hd acc \<noteq> ''..'' then norm_segments (tl acc) ss
      else norm_segments (s # acc) ss)"

definition example_normpath :: "string \<Rightarrow> string" where
  "example_normpath p =
     (if p \<noteq> [] \<and> hd p = CHR ''/'' then ''/'' @ join_slash (norm_segments [] (split_slash p))
      else (case join_slash (norm_segments [] (split_slash p)) of [] \<Rightarrow> ''.'' | r \<Rightarrow> r))"

definition example_abspath :: "string \<Rightarrow> string" where
  "example_abspath p = example_normpath (example_join ''/data'' p)"

definition example_dirname :: "string \<Rightarrow> string" where
  "example_dirname p =
     (let h = rev (dropWhile (\<lambda>c. c \<noteq> CHR ''/'') (rev p))
      in if rstrip_slash h = [] then h else rstrip_slash h)"

text \<open>
  The cast of the examples: an integer assigned to an array of an integer dtype wraps around
  and becomes a scalar of that dtype, a sequence of integers an array of them; every other
  value is kept.
\<close>

definition int_width :: "pytype \<Rightarrow> (nat \<times> bool) option" where
  "int_width t =
     (if t = np_int8 then Some (8, True) else if t = np_int16 then Some (16, True)
      else if t = np_int32 then Some (32, True) else if t = np_int64 then Some (64, True)
      else if t = np_uint8 then Some (8, False) else if t = np_uint16 then Some (16, False)
      else if t = np_uint32 then Some (32, False) else if t = np_uint64 then Some (64, False)
      else None)"

definition wrap_int :: "nat \<times> bool \<Rightarrow> int \<Rightarrow> int" where
  "wrap_int w i =
     (if snd w then (i + 2 ^ (fst w - 1)) mod 2 ^ fst w - 2 ^ (fst w - 1) else i mod 2 ^ fst w)"

fun cast_int :: "pytype \<Rightarrow> nat \<times> bool \<Rightarrow> pyval \<Rightarrow> pyval" where
  "cast_int t w (PInt i) = PNpGeneric t (PInt (wrap_int w i))"
| "cast_int t w (PBool b) = PNpGeneric t (PInt (if b then 1 else 0))"
| "cast_int t w (PNpGeneric t1 (PInt i)) = PNpGeneric t (PInt (wrap_int w i))"
| "cast_int t w (PList xs) = PNdarray (map (cast_int t w) xs)"
| "cast_int t w (PTuple xs) = PNdarray (map (cast_int t w) xs)"
| "cast_int t w (PNdarray xs) = PNdarray (map (cast_int t w) xs)"
| "cast_int t w v = v"

definition example_cast :: "rdtype \<Rightarrow> pyval \<Rightarrow> pyval" where
  "example_cast d v =
     (case d of
        RType t \<Rightarrow> (case int_width t of Some w \<Rightarrow> cast_int t w v | None \<Rightarrow> v)
      | RNpScalar t \<Rightarrow> (case int_width t of Some w \<Rightarrow> cast_int t w v | None \<Rightarrow> v)
      | _ \<Rightarrow> v)"

definition example_os :: pylib where
  "example_os = \<lparr>
     os_normpath = example_normpath,
     os_join = example_join,
     os_abspath = example_abspath,
     os_relpath = (\<lambda>p start. if p = start then ''.''
        else if take (Suc (length start)) p = start @ ''/'' then drop (Suc (length start)) p
        else example_join ''..'' (basename p)),
     os_isdir = (\<lambda>p. p \<in> {''/data/a.zarr'', ''/data/b.zarr''}),
     os_exists = (\<lambda>p. p \<in> {''/data/a.zarr'', ''/data/b.zarr'', ''/data/a.zarr/.zgroup'',
        ''/data/a.zarr/grp'', ''/data/a.zarr/grp/.zgroup'', ''/data/b.zarr/.zgroup''}),
     os_dirname = example_dirname,
     utf8_valid = (\<lambda>b. list_all (\<lambda>c. of_char c < (128 :: nat)) b),
     py_repr = (\<lambda>v. case v of PNone \<Rightarrow> ''None'' | PBool b \<Rightarrow> (if b then ''True'' else ''False'')
        | _ \<Rightarrow> ''?''),
     np_dtype_str = (\<lambda>d. case d of RType t \<Rightarrow> type_name t | RNpScalar t \<Rightarrow> type_name t | _ \<Rightarrow> ''|V0''),
     get_data_shape = (\<lambda>v. case v of PList xs \<Rightarrow> [length xs] | PTuple xs \<Rightarrow> [length xs]
        | PNdarray xs \<Rightarrow> [length xs] | _ \<Rightarrow> []),
     setitem_rejects = (\<lambda>d v. False),
     np_cast = example_cast\<rparr>"

definition example_io :: zarrio where
  "example_io = \<lparr>
     io_source = ''/data/a.zarr'',
     io_path = ''/data/a.zarr'',
     io_file = Some (ZObj DirectoryStore ''/data/a.zarr'' []),
     io_built = [],
     io_written = [],
     io_dci_queue = None,
     io_stores = [(''/data/a.zarr'', ZFile False False [([], ZGroup [])])],
     io_warnings = [],
     io_next_id = 100,
     io_calls = []\<rparr>"

text \<open>A dataset builder \<^verbatim>\<open>/grp/other\<close> that was read from the other file, \<^verbatim>\<open>/data/b.zarr\<close>.\<close>

definition foreign_head :: bhead where
  "foreign_head = BHead 7 ''other'' None (Some ''/data/b.zarr'') (Some ''id-7'')
     [(''grp'', None), (''root'', Some ''id-root-b'')]"

definition example_root :: zobj where
  "example_root = ZObj DirectoryStore ''/data/a.zarr'' []"

definition example_attributes :: "(string \<times> attr_value) list" where
  "example_attributes = [(''n'', AVal (PInt 3)), (''target'', ARefObj (ReferenceBuilder foreign_head))]"

text \<open>
  A store to read: the file \<^verbatim>\<open>/data/a.zarr\<close> holds the group \<^verbatim>\<open>/grp\<close> with the arrays
  \<^verbatim>\<open>/grp/data\<close> and \<^verbatim>\<open>/grp/raw\<close> (the second written by another program: it has no
  \<^verbatim>\<open>zarr_dtype\<close>), and its root has a link named \<^verbatim>\<open>lnk\<close> to \<^verbatim>\<open>/grp/data\<close>.
\<close>

definition example_link :: "(string \<times> pyval) list" where
  "example_link = [(''source'', PStr ''.''), (''path'', PStr ''/grp/data''), (''name'', PStr ''lnk'')]"

definition example_nodes :: "(string list \<times> znode) list" where
  "example_nodes = [
     ([], ZGroup [(''.specloc'', PStr ''specifications''), (''zarr_link'', PList [PDict example_link])]),
     ([''grp''], ZGroup [(''note'', PStr ''hello'')]),
     ([''grp'', ''data''], ZArray [(''zarr_dtype'', PStr ''int32''), (''unit'', PStr ''mV'')] [2] [2]
        (RNpScalar np_int32) (PNdarray [PNpGeneric np_int32 (PInt 1), PNpGeneric np_int32 (PInt 2)])),
     ([''grp'', ''raw''], ZArray [(''unit'', PStr ''mV'')] [1] [1]
        (RNpScalar np_int64) (PNdarray [PNpGeneric np_int64 (PInt 5)]))]"

definition example_bad_link :: "(string \<times> pyval) list" where
  "example_bad_link = [(''source'', PStr ''.''), (''path'', PStr ''/grp/missing''), (''name'', PStr ''bad'')]"

definition example_reader :: zarrio where
  "example_reader = \<lparr>
     io_source = ''/data/a.zarr'',
     io_path = ''/data/a.zarr'',
     io_file = Some (ZObj DirectoryStore ''/data/a.zarr'' []),
     io_built = [],
     io_written = [],
     io_dci_queue = None,
     io_stores = [(''/data/a.zarr'', ZFile False False example_nodes)],
     io_warnings = [],
     io_next_id = 0,
     io_calls = []\<rparr>"

definition example_data :: zobj where
  "example_data = ZObj DirectoryStore ''/data/a.zarr'' [''grp'', ''data'']"

definition example_raw :: zobj where
  "example_raw = ZObj DirectoryStore ''/data/a.zarr'' [''grp'', ''raw'']"

text \<open>
  A store whose root group has a link to itself, and a store with an array that has no
  \<^verbatim>\<open>zarr_dtype\<close> and an attribute tagged as a region reference.
\<close>

definition cyclic_reader :: zarrio where
  "cyclic_reader = example_reader\<lparr>
     io_source := ''/data/c.zarr'',
     io_path := ''/data/c.zarr'',
     io_file := Some (ZObj DirectoryStore ''/data/c.zarr'' []),
     io_stores := [(''/data/c.zarr'', ZFile False False
        [([], ZGroup [(''zarr_link'', PList [PDict
            [(''source'', PStr ''.''), (''path'', PStr ''/''), (''name'', PStr ''me'')]])])])]\<rparr>"

definition region_reader :: zarrio where
  "region_reader = example_reader\<lparr>
     io_source := ''/data/r.zarr'',
     io_path := ''/data/r.zarr'',
     io_file := Some (ZObj DirectoryStore ''/data/r.zarr'' []),
     io_stores := [(''/data/r.zarr'', ZFile False False
        [([], ZGroup []),
         ([''raw''], ZArray [(''sel'', PDict [(''zarr_dtype'', PStr ''region'')])] [1] [1]
            (RNpScalar np_int64) (PNdarray [PNpGeneric np_int64 (PInt 5)]))])]\<rparr>"

text \<open>
  Builders to write into \<^verbatim>\<open>/data/a.zarr\<close>: the group \<^verbatim>\<open>/grp\<close>, a link \<^verbatim>\<open>lnk\<close> to it, the dataset
  \<^verbatim>\<open>/data\<close>, a root builder that holds the group and, directly, the link, and a group \<^verbatim>\<open>/top\<close>
  that holds the same link. The session \<^verbatim>\<open>example_writer\<close> is \<^verbatim>\<open>example_io\<close> with the queue of
  iterators that \<^verbatim>\<open>write\<close> creates.
\<close>

definition group_head :: bhead where
  "group_head = BHead 2 ''grp'' None (Some ''/data/a.zarr'') (Some ''id-2'') [(''root'', Some ''id-1'')]"

definition example_group :: builder where
  "example_group = GroupBuilder group_head [(''note'', AVal (PStr ''hello''))] [] [] []"

definition example_link_builder :: builder where
  "example_link_builder =
     LinkBuilder (BHead 3 ''lnk'' None (Some ''/data/a.zarr'') None [(''root'', Some ''id-1'')]) group_head"

definition example_dataset :: builder where
  "example_dataset =
     DatasetBuilder (BHead 4 ''data'' None (Some ''/data/a.zarr'') (Some ''id-4'') [(''root'', Some ''id-1'')])
       [(''unit'', AVal (PStr ''mV''))] (Unwrapped (Data (Plain (PList [PInt 1, PInt 2])))) (DStr ''int32'')"

definition linked_root :: builder where
  "linked_root = GroupBuilder (BHead 1 ''root'' None (Some ''/data/a.zarr'') (Some ''id-1'') [])
     [] [example_group] [] [example_link_builder]"

definition holder_group :: builder where
  "holder_group = GroupBuilder (BHead 5 ''top'' None (Some ''/data/a.zarr'') (Some ''id-5'') [(''root'', Some ''id-1'')])
     [] [] [] [example_link_builder]"

definition example_writer :: zarrio where
  "example_writer = example_io\<lparr>io_dci_queue := Some []\<rparr>"

definition example_load :: "zobj \<Rightarrow> dataset_data" where
  "example_load z = Plain (PList [])"

definition example_grp :: zobj where
  "example_grp = ZObj DirectoryStore ''/data/a.zarr'' [''grp'']"

text \<open>
  The session after the group, the dataset and the link have been written under the root, by
  \<^verbatim>\<open>write_group\<close>, \<^verbatim>\<open>write_dataset\<close> and \<^verbatim>\<open>write_link\<close>.
\<close>

definition written_once :: zarrio where
  "written_once =
     snd (write_link example_os
       (snd (write_dataset example_os example_load
          (snd (write_group example_os example_load example_writer example_root example_group True True None))
          example_root example_dataset True True None))
       example_root example_link_builder)"

definition example_top :: zobj where
  "example_top = ZObj DirectoryStore ''/data/a.zarr'' [''top'']"

text \<open>
  Builders of an export from \<^verbatim>\<open>/data/b.zarr\<close>: a dataset of references to the builder
  \<^verbatim>\<open>/grp/other\<close> of that file, and a root builder with the dataset and an attribute that refers
  to the same builder.
\<close>

definition refs_dataset :: builder where
  "refs_dataset =
     DatasetBuilder (BHead 11 ''refs'' None (Some ''/data/b.zarr'') None [(''root'', Some ''id-root-b'')])
       [] (Unwrapped (Data (RefSequence [BuilderObj foreign_head]))) (DRefSpec ''object'')"

definition export_root :: builder where
  "export_root = GroupBuilder (BHead 10 ''root'' None (Some ''/data/b.zarr'') (Some ''id-root-b'') [])
     [(''target'', ARefObj (BuilderObj foreign_head))] [] [refs_dataset] []"

definition example_refs :: zobj where
  "example_refs = ZObj DirectoryStore ''/data/a.zarr'' [''refs'']"

section \<open>Theorems\<close>

text \<open>
  C7. With the dtype unset (\<^verbatim>\<open>None\<close>), \<^verbatim>\<open>__resolve_dtype__\<close> infers the type from the data
  with \<^verbatim>\<open>get_type\<close>: a string gives \<^verbatim>\<open>str\<close>, bytes give \<^verbatim>\<open>bytes\<close>, a value without a length
  gives its own type, a non-empty list, tuple or array gives what its first element gives, and
  every empty list, tuple, array, set or dict raises the \<^verbatim>\<open>ValueError\<close>
  "cannot determine type for empty data".
\<close>

theorem get_type_infers_from_data:
  "resolve_dtype DNone data = (case get_type data of Inl e \<Rightarrow> Inl e | Inr t \<Rightarrow> Inr (of_type_option t))
   \<and> get_type (PStr s) = Inr (Some py_str)
   \<and> get_type (PBytes b) = Inr (Some py_bytes)
   \<and> (\<not> has_len data \<longrightarrow> get_type data = Inr (Some (type_of data)))
   \<and> get_type (PList (x # xs)) = get_type x
   \<and> get_type (PTuple (x # xs)) = get_type x
   \<and> get_type (PNdarray (x # xs)) = get_type x
   \<and> (data \<in> {PList [], PTuple [], PNdarray [], PSet [], PDict []} \<longrightarrow>
        get_type data = Inl (ValueError ''cannot determine type for empty data'')
        \<and> resolve_dtype DNone data = Inl (ValueError ''cannot determine type for empty data''))"
proof -
  have scalar: "\<not> has_len data \<Longrightarrow> get_type data = Inr (Some (type_of data))"
    by (cases data) auto
  have res: "resolve_dtype DNone data =
      (case get_type data of Inl e \<Rightarrow> Inl e | Inr t \<Rightarrow> Inr (of_type_option t))"
    by (simp add: resolve_dtype_def)
  have tab: "dtypes_get ''str'' = Some py_str" "dtypes_get ''bytes'' = Some py_bytes"
    by (simp_all add: dtypes_get_def dtypes_def)
  show ?thesis
    using scalar res tab by auto
qed

theorem get_type_infers_from_data_witness:
  "resolve_dtype DNone (PList [PList [PInt 3], PInt 4]) = Inr (RType py_int)
   \<and> resolve_dtype DNone (PInt 3) = Inr (RType py_int)
   \<and> resolve_dtype DNone (PTuple []) = Inl (ValueError ''cannot determine type for empty data'')
   \<and> resolve_dtype DNone (PList [PNdarray []]) = Inl (ValueError ''cannot determine type for empty data'')"
  using get_type_infers_from_data [of "PTuple []" "[]" "[]" "PInt 3" "[]"]
    get_type_infers_from_data [of "PInt 3" "[]" "[]" "PList [PInt 3]" "[PInt 4]"]
    get_type_infers_from_data [of "PList [PList [PInt 3], PInt 4]" "[]" "[]" "PInt 3" "[]"]
    get_type_infers_from_data [of "PList [PNdarray []]" "[]" "[]" "PNdarray []" "[]"]
  by (simp add: of_type_option_def)

text \<open>
  \<^verbatim>\<open>__get_ref\<close> itself: whenever it is given an \<^verbatim>\<open>export_source\<close> (not \<^verbatim>\<open>None\<close>), the reference
  it returns has the source \<^verbatim>\<open>"."\<close>, whatever the source of the target builder. It raises for a
  region reference and for a link builder.
\<close>

lemma get_ref_export_source:
  "(case fst (get_ref lib self ref_object (Some export_source)) of
      Inl e \<Rightarrow> (\<exists>b. ref_object = RegionBuilder b) \<or> (\<exists>l t. ref_object = LinkBuilderObj l t)
    | Inr r \<Rightarrow> ref_source r = ''.'')"
  by (cases ref_object)
     (simp_all add: get_ref_def Let_def split: option.split prod.split)

text \<open>
  C5. An export from \<^verbatim>\<open>/data/b.zarr\<close> into \<^verbatim>\<open>/data/a.zarr\<close>: \<^verbatim>\<open>write_builder\<close> is called with
  \<^verbatim>\<open>export_source\<close> on a root builder with an attribute that refers to a builder of the source
  file and a dataset of references to the same builder. The call succeeds. The reference in
  the dataset has the source \<^verbatim>\<open>"."\<close>: \<^verbatim>\<open>write_dataset\<close> hands \<^verbatim>\<open>export_source\<close> on to \<^verbatim>\<open>__get_ref\<close>.
  The reference in the attribute keeps the source \<^verbatim>\<open>"../b.zarr"\<close>: \<^verbatim>\<open>write_builder\<close> calls
  \<^verbatim>\<open>write_attributes\<close> without \<^verbatim>\<open>export_source\<close> (as \<^verbatim>\<open>write_group\<close> and \<^verbatim>\<open>write_dataset\<close> do).
\<close>

theorem write_builder_export_attribute_keeps_source:
  "fst (write_builder example_os example_load example_writer export_root True True
          (Some ''/data/b.zarr'') False) = Inr ()
   \<and> attr_at (snd (write_builder example_os example_load example_writer export_root True True
          (Some ''/data/b.zarr'') False)) example_root ''target''
      = Some (PDict [(''zarr_dtype'', PStr ''object''),
          (''value'', json_ref (ZarrReference ''../b.zarr'' ''/grp/other'' (Some ''id-7'') (Some ''id-root-b'')))])
   \<and> map_option zn_data (lookup_node (snd (write_builder example_os example_load example_writer
          export_root True True (Some ''/data/b.zarr'') False)) example_refs)
      = Some (PNdarray [PRef (ZarrReference ''.'' ''/grp/other'' (Some ''id-7'') (Some ''id-root-b''))])"
  by code_simp

section \<open>Shared lemmas\<close>

lemmas example_defs = example_os_def example_io_def example_root_def foreign_head_def
  example_abspath_def example_join_def basename_def ROOT_NAME_def example_attributes_def
  example_normpath_def example_reader_def example_nodes_def example_link_def
  example_dirname_def rstrip_slash_def example_data_def example_raw_def
  cyclic_reader_def region_reader_def

lemmas store_defs = attrs_set_def lookup_node_def update_node_def log_call_def attr_at_def
  attrs_contains_def attrs_get_def json_ref_def json_opt_def
  write_scalar_attribute_def write_sequence_attribute_def

lemma get_ref_source_only:
  "io_source self = io_source self2 \<Longrightarrow> fst (get_ref lib self x es) = fst (get_ref lib self2 x es)"
  by (simp add: get_ref_def Let_def split: sum.split option.split prod.split)

lemma get_ref_keeps:
  "get_ref lib self x es = (r, self1) \<Longrightarrow>
     io_source self1 = io_source self \<and> io_stores self1 = io_stores self \<and> io_calls self1 = io_calls self
     \<and> io_written self1 = io_written self \<and> io_dci_queue self1 = io_dci_queue self"
  by (auto simp add: get_ref_def Let_def warn_def split: sum.splits option.splits prod.splits)

lemma attribute_ref_source_only:
  "io_source self = io_source self2 \<Longrightarrow>
     fst (attribute_ref lib self v es) = fst (attribute_ref lib self2 v es)"
  by (induction lib self v es rule: attribute_ref.induct) (auto intro: get_ref_source_only)

lemma attribute_ref_keeps:
  "attribute_ref lib self v es = (r, self1) \<Longrightarrow>
     io_source self1 = io_source self \<and> io_stores self1 = io_stores self \<and> io_calls self1 = io_calls self
     \<and> io_written self1 = io_written self \<and> io_dci_queue self1 = io_dci_queue self"
  by (induction lib self v es rule: attribute_ref.induct) (auto dest: get_ref_keeps)

lemma lookup_update_node:
  "lookup_node self obj = Some n0 \<Longrightarrow> lookup_node (update_node obj n self) obj = Some n"
  by (auto simp add: lookup_node_def update_node_def AList.update_conv' split: option.splits)

lemma attrs_set_ok:
  "attrs_set obj key v self = (Inr u, self1) \<Longrightarrow>
     \<exists>n n1 j. json_of v = Some j \<and> lookup_node self obj = Some n \<and> lookup_node self1 obj = Some n1
       \<and> zn_attrs n1 = AList.update key j (zn_attrs n)
       \<and> io_calls self1 = io_calls self @ [SetAttr obj key v]
       \<and> io_source self1 = io_source self"
  apply (auto simp add: attrs_set_def log_call_def split: option.splits)
  subgoal for j n
    apply (cases n)
     apply (auto simp add: lookup_node_def update_node_def AList.update_conv' split: option.splits)
    done
  done

lemma attrs_set_fail:
  "attrs_set obj key v self = (Inl e, self1) \<Longrightarrow> self1 = self"
  by (auto simp add: attrs_set_def split: option.splits)

lemma map_of_update_other:
  "k \<noteq> key \<Longrightarrow> map_of (AList.update key j al) k = map_of al k"
  by (simp add: AList.update_conv')

lemma attrs_set_other:
  "attrs_set obj key v self = (r, self1) \<Longrightarrow> k \<noteq> key \<Longrightarrow>
     attr_at self1 obj k = attr_at self obj k \<and> io_source self1 = io_source self"
  apply (cases r)
  apply (auto dest!: attrs_set_fail)[1]
  apply (auto dest!: attrs_set_ok simp add: attr_at_def map_of_update_other)
  done

lemma write_sequence_attribute_other:
  "write_sequence_attribute lib obj key items tmp self = (r, self1) \<Longrightarrow> k \<noteq> key \<Longrightarrow>
     attr_at self1 obj k = attr_at self obj k \<and> io_source self1 = io_source self"
  by (auto simp add: write_sequence_attribute_def split: prod.splits sum.splits error.splits option.splits
      dest!: attrs_set_fail dest: attrs_set_other)

lemma write_scalar_attribute_other:
  "write_scalar_attribute lib obj key v self = (r, self1) \<Longrightarrow> k \<noteq> key \<Longrightarrow>
     attr_at self1 obj k = attr_at self obj k \<and> io_source self1 = io_source self"
  by (auto simp add: write_scalar_attribute_def split: prod.splits sum.splits error.splits option.splits
      dest!: attrs_set_fail dest: attrs_set_other)

lemma attr_at_stores:
  "io_stores self1 = io_stores self \<Longrightarrow> attr_at self1 obj k = attr_at self obj k"
  by (simp add: attr_at_def lookup_node_def)

lemma write_attribute_other:
  assumes "write_attribute lib obj es (key, v) self = (r, self1)" and "k \<noteq> key"
  shows "attr_at self1 obj k = attr_at self obj k \<and> io_source self1 = io_source self"
proof (cases v)
  case (AVal pv)
  then show ?thesis
    using assms
    by (cases pv) (auto dest: write_sequence_attribute_other write_scalar_attribute_other)
next
  case (ARefObj ro)
  show ?thesis
  proof (cases "attribute_ref lib self ro es")
    case (Pair a self0)
    have keep: "attr_at self0 obj k = attr_at self obj k" "io_source self0 = io_source self"
      using attribute_ref_keeps [OF Pair] by (auto intro: attr_at_stores)
    show ?thesis
    proof (cases a)
      case (Inl e)
      then show ?thesis using assms ARefObj Pair keep by simp
    next
      case (Inr refs)
      then have "attrs_set obj key (PDict [(''zarr_dtype'', PStr ''object''), (''value'', PRef refs)]) self0
          = (r, self1)"
        using assms ARefObj Pair by simp
      from attrs_set_other [OF this assms(2)] keep show ?thesis by simp
    qed
  qed
qed

lemma write_attributes_other:
  "write_attributes lib self obj attributes es = (r, self1) \<Longrightarrow> k \<notin> set (map fst attributes) \<Longrightarrow>
     attr_at self1 obj k = attr_at self obj k \<and> io_source self1 = io_source self"
proof (induction attributes arbitrary: self)
  case Nil
  then show ?case by simp
next
  case (Cons kv attributes)
  obtain key v where kv: "kv = (key, v)" by (cases kv)
  obtain a self0 where step: "write_attribute lib obj es (key, v) self = (a, self0)"
    by (cases "write_attribute lib obj es (key, v) self")
  have ne: "k \<noteq> key" using Cons.prems(2) kv by auto
  note keep = write_attribute_other [OF step ne]
  show ?case
  proof (cases a)
    case (Inl e)
    then show ?thesis using Cons.prems kv step keep by simp
  next
    case (Inr u)
    then have "write_attributes lib self0 obj attributes es = (r, self1)"
      using Cons.prems kv step by simp
    from Cons.IH [OF this] Cons.prems(2) keep show ?thesis by simp
  qed
qed

text \<open>
  C4 (amended). For every attribute whose value is a reference (a \<^verbatim>\<open>Builder\<close>, a
  \<^verbatim>\<open>ReferenceBuilder\<close>, or a \<^verbatim>\<open>Container\<close> with a \<^verbatim>\<open>.builder\<close>), a \<^verbatim>\<open>write_attributes\<close> that
  returns has stored under the attribute's key the dict that pairs the key \<^verbatim>\<open>zarr_dtype\<close> with
  the tag string \<^verbatim>\<open>"object"\<close> and the key \<^verbatim>\<open>value\<close> with the reference record of the target.
  The tag is \<^verbatim>\<open>"object"\<close>, not \<^verbatim>\<open>"reference"\<close>.
\<close>

theorem write_attributes_reference_tagged_object:
  assumes "write_attributes lib self obj attributes export_source = (Inr u, self1)"
    and "distinct (map fst attributes)"
    and "(key, ARefObj v) \<in> set attributes"
  shows "\<exists>r. fst (attribute_ref lib self v export_source) = Inr r
       \<and> attr_at self1 obj key = Some (PDict [(''zarr_dtype'', PStr ''object''), (''value'', json_ref r)])"
  using assms
proof (induction attributes arbitrary: self)
  case Nil
  then show ?case by simp
next
  case (Cons kv attributes)
  obtain k0 v0 where kv: "kv = (k0, v0)" by (cases kv)
  obtain a self0 where step: "write_attribute lib obj export_source (k0, v0) self = (a, self0)"
    by (cases "write_attribute lib obj export_source (k0, v0) self")
  from Cons.prems(1) kv step have a: "a = Inr ()"
    by (cases a) auto
  with Cons.prems(1) kv step
  have rest: "write_attributes lib self0 obj attributes export_source = (Inr u, self1)"
    by simp
  show ?case
  proof (cases "(key, ARefObj v) = kv")
    case True
    then have k0: "k0 = key" "v0 = ARefObj v" using kv by auto
    obtain b self00 where ar: "attribute_ref lib self v export_source = (b, self00)"
      by (cases "attribute_ref lib self v export_source")
    from step k0 a ar obtain refs where b: "b = Inr refs"
      and set: "attrs_set obj key (PDict [(''zarr_dtype'', PStr ''object''), (''value'', PRef refs)]) self00
          = (Inr (), self0)"
      by (cases b) auto
    from attrs_set_ok [OF set]
    have here: "attr_at self0 obj key = Some (PDict [(''zarr_dtype'', PStr ''object''), (''value'', json_ref refs)])"
      by (auto simp add: attr_at_def AList.update_conv')
    have "key \<notin> set (map fst attributes)"
      using Cons.prems(2) kv k0 by simp
    from write_attributes_other [OF rest this] here ar b
    show ?thesis by simp
  next
    case False
    then have mem: "(key, ARefObj v) \<in> set attributes"
      using Cons.prems(3) by auto
    have d: "distinct (map fst attributes)" using Cons.prems(2) by simp
    from Cons.IH [OF rest d mem]
    obtain r where r: "fst (attribute_ref lib self0 v export_source) = Inr r"
      and at: "attr_at self1 obj key = Some (PDict [(''zarr_dtype'', PStr ''object''), (''value'', json_ref r)])"
      by blast
    have src: "io_source self0 = io_source self"
    proof -
      have "key \<noteq> k0" using Cons.prems(2) kv mem by (auto simp: image_iff)
      from write_attribute_other [OF step] this show ?thesis by auto
    qed
    from attribute_ref_source_only [OF src, of lib v export_source] r
    have "fst (attribute_ref lib self v export_source) = Inr r" by simp
    with at show ?thesis by blast
  qed
qed


lemma example_attributes_written:
  "fst (write_attributes example_os example_io example_root example_attributes None) = Inr ()"
  by (simp add: example_defs store_defs get_ref_def get_path_def chain_of_def Let_def)

theorem write_attributes_reference_tagged_object_witness:
  "attr_at (snd (write_attributes example_os example_io example_root example_attributes None))
     example_root ''target''
   = Some (PDict [(''zarr_dtype'', PStr ''object''),
        (''value'', json_ref (ZarrReference ''../b.zarr'' ''/grp/other'' (Some ''id-7'') (Some ''id-root-b'')))])"
proof -
  let ?W = "write_attributes example_os example_io example_root example_attributes None"
  have h1: "?W = (Inr (), snd ?W)"
    using example_attributes_written by (simp add: prod_eq_iff)
  have h2: "distinct (map fst example_attributes)"
    by (simp add: example_attributes_def)
  have h3: "(''target'', ARefObj (ReferenceBuilder foreign_head)) \<in> set example_attributes"
    by (simp add: example_attributes_def)
  have r: "fst (attribute_ref example_os example_io (ReferenceBuilder foreign_head) None)
     = Inr (ZarrReference ''../b.zarr'' ''/grp/other'' (Some ''id-7'') (Some ''id-root-b''))"
    by (simp add: example_defs get_ref_def get_path_def chain_of_def Let_def)
  from write_attributes_reference_tagged_object [OF h1 h2 h3] r show ?thesis by auto
qed

text \<open>
  The claim as the spec states it (the tag string \<^verbatim>\<open>"reference"\<close>) fails on the example: the
  stored dict has the tag \<^verbatim>\<open>"object"\<close>.
\<close>

theorem write_attributes_reference_tag_counterexample:
  "(case attr_at (snd (write_attributes example_os example_io example_root example_attributes None))
       example_root ''target'' of
      None \<Rightarrow> False
    | Some d \<Rightarrow> dict_get d ''zarr_dtype'' = Some (PStr ''object'')
        \<and> dict_get d ''zarr_dtype'' \<noteq> Some (PStr ''reference''))"
  by (simp add: example_defs store_defs get_ref_def get_path_def chain_of_def Let_def dict_get_def)

lemma z_getitem_root:
  assumes "z_path root = []"
  shows "z_getitem self root (PStr p) = Inr obj \<Longrightarrow>
           obj = ZObj (z_kind root) (z_store_path root) (segments p) \<and> lookup_node self obj \<noteq> None"
    and "lookup_node self (ZObj (z_kind root) (z_store_path root) (segments p)) = None \<Longrightarrow>
           \<exists>e. z_getitem self root (PStr p) = Inl e"
  using assms
  by (auto simp add: z_getitem_def Let_def split: option.splits znode.splits if_splits)

lemma open_root:
  "open_file_consolidated self store mode = Inr root \<Longrightarrow> z_path root = [] \<and> z_store_path root = store"
  by (auto simp add: open_file_consolidated_def zarr_open_consolidated_def zarr_open_def
      split: if_splits option.splits sum.splits error.splits)

text \<open>
  C6. Once the location of the reference is resolved and the store there is opened,
  \<^verbatim>\<open>resolve_ref\<close> descends to the record's \<^verbatim>\<open>path\<close> in the opened store: when no node is at the
  path it raises the \<^verbatim>\<open>ValueError\<close> "Found bad link to object ... in file ..."; when it
  returns, the result is the pair of the basename of the path and the node at the path. With an
  empty path the name is \<^verbatim>\<open>ROOT_NAME\<close>; with no path at all it is \<^verbatim>\<open>ROOT_NAME\<close> with the root of
  the opened store.
\<close>

theorem resolve_ref_descends:
  assumes loc: "ref_location lib self zarr_ref = Inr source_file"
    and opened: "open_file_consolidated self source_file ''r'' = Inr root"
  shows "(map_of zarr_ref ''path'' = Some (PStr p) \<longrightarrow>
            resolve_ref lib self zarr_ref =
              (case z_getitem self root (PStr p) of
                 Inl e \<Rightarrow> Inl (ValueError (''Found bad link to object '' @ p @ '' in file '' @ source_file))
               | Inr obj \<Rightarrow> Inr (if p = [] then ROOT_NAME else basename p, obj)))
       \<and> (map_of zarr_ref ''path'' = Some (PStr p)
            \<and> lookup_node self (ZObj (z_kind root) source_file (segments p)) = None \<longrightarrow>
            resolve_ref lib self zarr_ref =
              Inl (ValueError (''Found bad link to object '' @ p @ '' in file '' @ source_file)))
       \<and> (map_of zarr_ref ''path'' = Some (PStr p) \<longrightarrow>
            (\<forall>name obj. resolve_ref lib self zarr_ref = Inr (name, obj) \<longrightarrow>
               obj = ZObj (z_kind root) source_file (segments p) \<and> lookup_node self obj \<noteq> None))
       \<and> (map_of zarr_ref ''path'' \<in> {None, Some PNone} \<longrightarrow>
            resolve_ref lib self zarr_ref = Inr (ROOT_NAME, root))"
proof -
  note r = open_root [OF opened]
  have A: "map_of zarr_ref ''path'' = Some (PStr p) \<Longrightarrow>
            resolve_ref lib self zarr_ref =
              (case z_getitem self root (PStr p) of
                 Inl e \<Rightarrow> Inl (ValueError (''Found bad link to object '' @ p @ '' in file '' @ source_file))
               | Inr obj \<Rightarrow> Inr (if p = [] then ROOT_NAME else basename p, obj))"
    using loc opened
    by (simp add: resolve_ref_def target_name_of_def str_of_def split: sum.splits)
  have B: "map_of zarr_ref ''path'' = Some (PStr p) \<Longrightarrow>
      lookup_node self (ZObj (z_kind root) source_file (segments p)) = None \<Longrightarrow>
      resolve_ref lib self zarr_ref =
              Inl (ValueError (''Found bad link to object '' @ p @ '' in file '' @ source_file))"
    using A z_getitem_root(2) [of root self p] r by auto
  have C: "map_of zarr_ref ''path'' = Some (PStr p) \<Longrightarrow>
      resolve_ref lib self zarr_ref = Inr (name, obj) \<Longrightarrow>
      obj = ZObj (z_kind root) source_file (segments p) \<and> lookup_node self obj \<noteq> None" for name obj
    using A z_getitem_root(1) [of root self p obj] r
    by (auto split: sum.splits)
  have D: "map_of zarr_ref ''path'' \<in> {None, Some PNone} \<Longrightarrow>
            resolve_ref lib self zarr_ref = Inr (ROOT_NAME, root)"
    using loc opened
    by (auto simp add: resolve_ref_def target_name_of_def)
  from A B C D show ?thesis by blast
qed


theorem resolve_ref_descends_witness:
  "resolve_ref example_os example_reader example_link
     = Inr (''data'', ZObj DirectoryStore ''/data/a.zarr'' [''grp'', ''data''])
   \<and> resolve_ref example_os example_reader example_bad_link
     = Inl (ValueError ''Found bad link to object /grp/missing in file /data/a.zarr'')"
proof -
  let ?root = "ZObj DirectoryStore ''/data/a.zarr'' []"
  have loc: "ref_location example_os example_reader example_link = Inr ''/data/a.zarr''"
    by (simp add: ref_location_def is_remote_def str_of_def example_defs)
  have loc2: "ref_location example_os example_reader example_bad_link = Inr ''/data/a.zarr''"
    by (simp add: ref_location_def is_remote_def str_of_def example_defs example_bad_link_def)
  have opened: "open_file_consolidated example_reader ''/data/a.zarr'' ''r'' = Inr ?root"
    by (simp add: open_file_consolidated_def zarr_open_consolidated_def zarr_open_def example_defs)
  have g1: "z_getitem example_reader ?root (PStr ''/grp/data'')
      = Inr (ZObj DirectoryStore ''/data/a.zarr'' [''grp'', ''data''])"
    by (simp add: z_getitem_def lookup_node_def segments_def replace_backslash_def example_defs)
  have g2: "lookup_node example_reader (ZObj (z_kind ?root) ''/data/a.zarr'' (segments ''/grp/missing'')) = None"
    by (simp add: lookup_node_def segments_def replace_backslash_def example_defs)
  have p1: "map_of example_link ''path'' = Some (PStr ''/grp/data'')"
    by (simp add: example_link_def)
  have p2: "map_of example_bad_link ''path'' = Some (PStr ''/grp/missing'')"
    by (simp add: example_bad_link_def)
  from resolve_ref_descends [OF loc opened, of "''/grp/data''"] p1 g1
  have "resolve_ref example_os example_reader example_link
     = Inr (''data'', ZObj DirectoryStore ''/data/a.zarr'' [''grp'', ''data''])"
    by (simp add: basename_def)
  moreover from resolve_ref_descends [OF loc2 opened, of "''/grp/missing''"]
  have "map_of example_bad_link ''path'' = Some (PStr ''/grp/missing'')
      \<and> lookup_node example_reader (ZObj (z_kind ?root) ''/data/a.zarr'' (segments ''/grp/missing'')) = None
      \<longrightarrow> resolve_ref example_os example_reader example_bad_link =
        Inl (ValueError (''Found bad link to object '' @ ''/grp/missing'' @ '' in file '' @ ''/data/a.zarr''))"
    by blast
  with p2 g2
  have "resolve_ref example_os example_reader example_bad_link
     = Inl (ValueError ''Found bad link to object /grp/missing in file /data/a.zarr'')"
    by simp
  ultimately show ?thesis by simp
qed

subsection \<open>Every read keeps the stores and the cache\<close>

lemma step_ok_refl: "step_ok self self"
  by (simp add: step_ok_def same_world_def cache_extends_def)

lemma step_ok_trans: "step_ok a b \<Longrightarrow> step_ok b c \<Longrightarrow> step_ok a c"
  unfolding step_ok_def same_world_def cache_extends_def by (intro conjI; force)

lemma sound_step: "sound lib rd \<Longrightarrow> rd w self z name = Some (r, self1) \<Longrightarrow> step_ok self self1"
  unfolding sound_def outcome_ok_def by blast

lemma sound_free: "sound lib rd \<Longrightarrow> rd w self z name = Some (Inr b, self1) \<Longrightarrow> cache_ok self
   \<Longrightarrow> reserved_free b"
  unfolding sound_def outcome_ok_def by blast

lemma read_target_step:
  "sound lib rd \<Longrightarrow> read_target rd self t = Some (r, self1) \<Longrightarrow> step_ok self self1"
  by (auto simp add: read_target_def split: if_splits dest: sound_step)

lemma step_ok_world: "step_ok a b \<Longrightarrow> same_world a b"
  by (simp add: step_ok_def)

lemma no_new_reserved_update:
  "k \<notin> set reserve_attribute \<Longrightarrow> no_new_reserved (AList.update k x ret) r \<Longrightarrow> no_new_reserved ret r"
  unfolding no_new_reserved_def
  by (simp add: AList.update_keys split: if_splits) metis

lemma no_new_reserved_Inl: "no_new_reserved ret (Inl e)"
  by (simp add: no_new_reserved_def)

lemma read_attrs_loop_ok:
  "sound lib rd \<Longrightarrow> read_attrs_loop rd lib kvs ret self = Some (r, self1) \<Longrightarrow>
     step_ok self self1 \<and> no_new_reserved ret r"
proof (induction kvs arbitrary: ret self)
  case Nil
  then show ?case by (auto simp add: step_ok_refl no_new_reserved_def)
next
  case (Cons kv kvs)
  obtain k v where kv: "kv = (k, v)" by (cases kv)
  note run = Cons.prems(2) [unfolded kv]
  show ?case
  proof (cases "k \<in> set reserve_attribute")
    case True
    with run have "read_attrs_loop rd lib kvs ret self = Some (r, self1)" by simp
    from Cons.IH [OF Cons.prems(1) this] show ?thesis .
  next
    case False
    note nres = False
    show ?thesis
    proof (cases "is_tagged_dict v")
      case False
      with run nres
      have "read_attrs_loop rd lib kvs (AList.update k (AVal v) ret) self = Some (r, self1)" by simp
      from Cons.IH [OF Cons.prems(1) this] nres show ?thesis
        by (blast intro: no_new_reserved_update)
    next
      case True
      note tagged = True
      show ?thesis
      proof (cases "dict_get v ''zarr_dtype'' = Some (PStr ''object'')")
        case False
        with run nres tagged have "self1 = self \<and> (\<exists>e. r = Inl e)"
          by (auto split: if_splits)
        then show ?thesis by (auto simp add: step_ok_refl no_new_reserved_Inl)
      next
        case True
        note obj = True
        show ?thesis
        proof (cases "value_of_tagged v")
          case (Inl e)
          with run nres tagged obj have "self1 = self \<and> (\<exists>e. r = Inl e)" by auto
          then show ?thesis by (auto simp add: step_ok_refl no_new_reserved_Inl)
        next
          case (Inr zr)
          note zr = Inr
          show ?thesis
          proof (cases "resolve_ref lib self zr")
            case (Inl e)
            with run nres tagged obj zr have "self1 = self \<and> (\<exists>e. r = Inl e)" by auto
            then show ?thesis by (auto simp add: step_ok_refl no_new_reserved_Inl)
          next
            case (Inr target)
            note target = Inr
            show ?thesis
            proof (cases "read_target rd self target")
              case None
              with run nres tagged obj zr target show ?thesis by auto
            next
              case (Some res)
              obtain rr s1 where res: "res = (rr, s1)" by (cases res)
              have st: "step_ok self s1"
                using read_target_step [OF Cons.prems(1)] Some res by blast
              show ?thesis
              proof (cases rr)
                case (Inl e)
                with run nres tagged obj zr target Some res
                have "self1 = s1 \<and> (\<exists>e. r = Inl e)" by auto
                then show ?thesis using st by (auto simp add: no_new_reserved_Inl)
              next
                case (Inr b)
                with run nres tagged obj zr target Some res
                have rest: "read_attrs_loop rd lib kvs
                     (AList.update k (ARefObj (BuilderObj (head_of b))) ret) s1 = Some (r, self1)"
                  by auto
                from Cons.IH [OF Cons.prems(1) rest] st nres show ?thesis
                  by (blast intro: step_ok_trans no_new_reserved_update)
              qed
            qed
          qed
        qed
      qed
    qed
  qed
qed

lemma read_attrs_ok:
  assumes "sound lib rd" and "read_attrs rd lib self z = Some (r, self1)"
  shows "step_ok self self1
     \<and> (\<forall>attrs. r = Inr attrs \<longrightarrow> (\<forall>k \<in> set reserve_attribute. k \<notin> set (map fst attrs)))"
proof (cases "lookup_node self z")
  case None
  with assms(2) show ?thesis by (auto simp add: read_attrs_def step_ok_refl)
next
  case (Some n)
  with assms(2) have "read_attrs_loop rd lib (zn_attrs n) [] self = Some (r, self1)"
    by (simp add: read_attrs_def)
  from read_attrs_loop_ok [OF assms(1) this] show ?thesis
    unfolding no_new_reserved_def by simp
qed

lemma read_children_ok:
  "sound lib rd \<Longrightarrow> read_children rd w parent cs acc self = Some (r, self1) \<Longrightarrow> step_ok self self1"
proof (induction cs arbitrary: acc self)
  case Nil
  then show ?case by (auto simp add: step_ok_refl)
next
  case (Cons c cs)
  obtain sub_name sub where c: "c = (sub_name, sub)" by (cases c)
  show ?case
  proof (cases "rd w self sub (Some sub_name)")
    case None
    with Cons.prems c show ?thesis by simp
  next
    case (Some res)
    obtain rr s1 where res: "res = (rr, s1)" by (cases res)
    have st: "step_ok self s1" using sound_step [OF Cons.prems(1)] Some res by blast
    show ?thesis
    proof (cases rr)
      case (Inl e)
      with Cons.prems c Some res st show ?thesis by auto
    next
      case (Inr b)
      with Cons.prems c Some res
      have "read_children rd w parent cs (set_child (set_parent parent b) acc) s1 = Some (r, self1)" by simp
      from Cons.IH [OF Cons.prems(1) this] st show ?thesis by (blast intro: step_ok_trans)
    qed
  qed
qed

lemma set_written_step: "step_ok self (set_written b self)"
  by (simp add: step_ok_def same_world_def cache_extends_def cache_ok_def set_written_def)

lemma next_id_step: "step_ok self (self\<lparr>io_next_id := n\<rparr>)"
  by (simp add: step_ok_def same_world_def cache_extends_def cache_ok_def)

lemma warn_step: "step_ok self (warn m self)"
  by (auto simp add: step_ok_def same_world_def cache_extends_def cache_ok_def warn_def)

lemma read_links_loop_ok:
  "sound lib rd \<Longrightarrow> read_links_loop rd lib location name object_id links acc self = Some (r, self1)
     \<Longrightarrow> step_ok self self1"
proof (induction links arbitrary: acc self)
  case Nil
  then show ?case by (auto simp add: step_ok_refl)
next
  case (Cons l links)
  show ?case
  proof (cases "\<exists>link. l = PDict link")
    case False
    with Cons.prems(2) have "self1 = self" by (cases l) auto
    then show ?thesis by (simp add: step_ok_refl)
  next
    case True
    then obtain link where l: "l = PDict link" by blast
    note run = Cons.prems(2) [unfolded l]
    show ?thesis
    proof (cases "map_of link ''name''")
      case None
      with run show ?thesis by (auto simp add: step_ok_refl)
    next
      case (Some link_name)
      note nm = Some
      show ?thesis
      proof (cases "resolve_ref lib self link")
        case (Inl e)
        with run nm show ?thesis by (auto simp add: step_ok_refl)
      next
        case (Inr target)
        note target = Inr
        show ?thesis
        proof (cases "read_target rd self target")
          case None
          with run nm target show ?thesis by auto
        next
          case (Some res)
          obtain rr s1 where res: "res = (rr, s1)" by (cases res)
          have st: "step_ok self s1"
            using read_target_step [OF Cons.prems(1)] Some res by blast
          show ?thesis
          proof (cases rr)
            case (Inl e)
            with run nm target Some res st show ?thesis by auto
          next
            case (Inr b)
            note b = Inr
            show ?thesis
            proof (cases "\<exists>n. link_name = PStr n")
              case False
              with run nm target Some res b have "self1 = s1" by (cases link_name) auto
              with st show ?thesis by simp
            next
              case True
              then obtain n where n: "link_name = PStr n" by blast
              let ?lb = "LinkBuilder (BHead (io_next_id s1) n (Some (os_join lib location name))
                                  (Some (io_source s1)) None []) (head_of b)"
              let ?s2 = "set_written ?lb (s1\<lparr>io_next_id := Suc (io_next_id s1)\<rparr>)"
              from run nm target Some res b n
              have rest: "read_links_loop rd lib location name object_id links
                  (set_child (set_parent (name, object_id) ?lb) acc) ?s2 = Some (r, self1)"
                by (simp add: Let_def)
              have "step_ok s1 ?s2"
                by (blast intro: step_ok_trans next_id_step set_written_step)
              with Cons.IH [OF Cons.prems(1) rest] st show ?thesis
                by (blast intro: step_ok_trans)
            qed
          qed
        qed
      qed
    qed
  qed
qed

lemma read_links_ok:
  "sound lib rd \<Longrightarrow> read_links rd lib self z location name object_id = Some (r, self1)
     \<Longrightarrow> step_ok self self1"
  by (auto simp add: read_links_def step_ok_refl split: if_splits sum.splits dest: read_links_loop_ok)


lemma map_of_append_keep:
  "map_of xs k = Some c \<Longrightarrow> map_of (xs @ ys) k = Some c"
  by (simp add: map_add_Some_iff)

lemma set_built_step: "reserved_free b \<Longrightarrow> step_ok self (set_built lib z b self)"
  by (auto simp add: step_ok_def same_world_def cache_extends_def cache_ok_def set_built_def
      split: option.splits)

lemma set_built_registered: "get_built lib (set_built lib z b self) z \<noteq> None"
  by (auto simp add: get_built_def set_built_def map_add_def split: option.splits)

lemma cache_hit_free: "cache_ok self \<Longrightarrow> get_built lib self z = Some c \<Longrightarrow> reserved_free c"
  by (force simp add: cache_ok_def get_built_def dest: map_of_SomeD)

lemma step_ok_cache: "step_ok a b \<Longrightarrow> cache_ok a \<Longrightarrow> cache_ok b"
  by (simp add: step_ok_def)


lemma outcome_ok_error: "step_ok self self1 \<Longrightarrow> outcome_ok lib self z (Inl e) self1"
  by (simp add: outcome_ok_def)

lemma sound_iff: "sound lib rd =
   (\<forall>w self z name r self1. rd w self z name = Some (r, self1) \<longrightarrow> outcome_ok lib self z r self1)"
  by (simp add: sound_def)

lemma read_group_ok:
  assumes rd: "sound lib rd" and run: "read_group rd lib self z name = Some (r, self1)"
  shows "outcome_ok lib self z r self1"
proof (cases "get_built lib self z")
  case (Some ret)
  with run have "r = Inr ret" "self1 = self" by (simp_all add: read_group_def)
  with Some show ?thesis
    by (auto simp add: outcome_ok_def step_ok_refl dest: cache_hit_free)
next
  case None
  note miss = None
  let ?name1 = "case name of None \<Rightarrow> basename (zarr_name z) | Some n \<Rightarrow> n"
  show ?thesis
  proof (cases "read_attrs rd lib self z")
    case None
    with run miss show ?thesis by (simp add: read_group_def)
  next
    case (Some res)
    obtain ra s1 where res: "res = (ra, s1)" by (cases res)
    note at = read_attrs_ok [OF rd Some [unfolded res]]
    then have st1: "step_ok self s1" by simp
    show ?thesis
    proof (cases ra)
      case (Inl e)
      with run miss Some res have "r = Inl e" "self1 = s1" by (simp_all add: read_group_def)
      with st1 show ?thesis by (simp add: outcome_ok_error)
    next
      case (Inr attributes)
      note attrs = Inr
      have free: "\<forall>k \<in> set reserve_attribute. k \<notin> set (map fst attributes)"
        using at attrs by simp
      show ?thesis
      proof (cases "get_zarr_parent_path lib z")
        case None
        with run miss Some res attrs show ?thesis by (simp add: read_group_def)
      next
        case (Some location)
        note loc = Some
        let ?h = "BHead (io_next_id s1) ?name1 (Some location) (Some (io_source s1))
                                 (object_id_of attributes) []"
        let ?s2 = "s1\<lparr>io_next_id := Suc (io_next_id s1)\<rparr>"
        have st2: "step_ok self ?s2" using st1 next_id_step by (blast intro: step_ok_trans)
        show ?thesis
        proof (cases "is_group ?s2 z")
          case False
          with run miss \<open>read_attrs rd lib self z = Some res\<close> res attrs loc
          have "r = Inl (AttributeError ''groups'')" "self1 = ?s2"
            by (simp_all add: read_group_def Let_def)
          with st2 show ?thesis by (simp add: outcome_ok_error)
        next
          case True
          note grp = True
          show ?thesis
          proof (cases "read_children rd ReadGroup (?name1, object_id_of attributes)
              (child_nodes ?s2 z True) [] ?s2")
            case None
            with run miss \<open>read_attrs rd lib self z = Some res\<close> res attrs loc grp
            show ?thesis by (simp add: read_group_def Let_def)
          next
            case (Some res3)
            obtain r3 s3 where res3: "res3 = (r3, s3)" by (cases res3)
            have st3: "step_ok self s3"
              using read_children_ok [OF rd Some [unfolded res3]] st2 by (blast intro: step_ok_trans)
            note c3 = Some
            show ?thesis
            proof (cases r3)
              case (Inl e)
              with run miss \<open>read_attrs rd lib self z = Some res\<close> res attrs loc grp c3 res3
              have "r = Inl e" "self1 = s3" by (simp_all add: read_group_def Let_def)
              with st3 show ?thesis by (simp add: outcome_ok_error)
            next
              case (Inr groups)
              note g = Inr
              show ?thesis
              proof (cases "read_children rd ReadDataset (?name1, object_id_of attributes)
                  (child_nodes s3 z False) [] s3")
                case None
                with run miss \<open>read_attrs rd lib self z = Some res\<close> res attrs loc grp c3 res3 g
                show ?thesis by (simp add: read_group_def Let_def)
              next
                case (Some res4)
                obtain r4 s4 where res4: "res4 = (r4, s4)" by (cases res4)
                have st4: "step_ok self s4"
                  using read_children_ok [OF rd Some [unfolded res4]] st3 by (blast intro: step_ok_trans)
                note c4 = Some
                show ?thesis
                proof (cases r4)
                  case (Inl e)
                  with run miss \<open>read_attrs rd lib self z = Some res\<close> res attrs loc grp c3 res3 g c4 res4
                  have "r = Inl e" "self1 = s4" by (simp_all add: read_group_def Let_def)
                  with st4 show ?thesis by (simp add: outcome_ok_error)
                next
                  case (Inr datasets)
                  note d = Inr
                  show ?thesis
                  proof (cases "read_links rd lib s4 z location ?name1 (object_id_of attributes)")
                    case None
                    with run miss \<open>read_attrs rd lib self z = Some res\<close> res attrs loc grp c3 res3 g c4 res4 d
                    show ?thesis by (simp add: read_group_def Let_def)
                  next
                    case (Some res5)
                    obtain r5 s5 where res5: "res5 = (r5, s5)" by (cases res5)
                    have st5: "step_ok self s5"
                      using read_links_ok [OF rd Some [unfolded res5]] st4 by (blast intro: step_ok_trans)
                    show ?thesis
                    proof (cases r5)
                      case (Inl e)
                      with run miss \<open>read_attrs rd lib self z = Some res\<close> res attrs loc grp c3 res3 g c4 res4 d
                        Some res5
                      have "r = Inl e" "self1 = s5" by (simp_all add: read_group_def Let_def)
                      with st5 show ?thesis by (simp add: outcome_ok_error)
                    next
                      case (Inr links)
                      let ?ret = "GroupBuilder ?h attributes groups datasets links"
                      from run miss \<open>read_attrs rd lib self z = Some res\<close> res attrs loc grp c3 res3 g c4 res4 d
                        Some res5 Inr
                      have fin: "r = Inr ?ret" "self1 = set_built lib z ?ret (set_written ?ret s5)"
                        by (simp_all add: read_group_def Let_def)
                      have rf: "reserved_free ?ret" using free by (simp add: reserved_free_def)
                      have "step_ok s5 self1"
                        unfolding fin using set_written_step set_built_step [OF rf]
                        by (blast intro: step_ok_trans)
                      with st5 have "step_ok self self1" by (blast intro: step_ok_trans)
                      with fin rf show ?thesis
                        by (simp add: outcome_ok_def set_built_registered)
                    qed
                  qed
                qed
              qed
            qed
          qed
        qed
      qed
    qed
  qed
qed


lemma read_dataset_ok:
  assumes rd: "sound lib rd" and run: "read_dataset rd lib self z name = Some (r, self1)"
  shows "outcome_ok lib self z r self1"
proof (cases "get_built lib self z")
  case (Some ret)
  with run have "r = Inr ret" "self1 = self" by (simp_all add: read_dataset_def)
  with Some show ?thesis
    by (auto simp add: outcome_ok_def step_ok_refl dest: cache_hit_free)
next
  case None
  note miss = None
  define tag where "tag = (if attrs_contains self z ''zarr_dtype''
                 then (case attrs_get self z ''zarr_dtype'' of
                         Inl e \<Rightarrow> (Inl e, self)
                       | Inr v \<Rightarrow> (Inr (TagJson v), self))
                 else (case lookup_node self z of
                         Some (ZArray a sh ch dt d) \<Rightarrow>
                           (Inr (TagNp dt), warn (missing_tag_warning lib z name) self)
                       | _ \<Rightarrow>
                           (Inl (ValueError (''Dataset missing zarr_dtype: ''
                              @ str_of lib (case name of None \<Rightarrow> PNone | Some n \<Rightarrow> PStr n)
                              @ ''   '' @ zarr_name z)), self)))"
  obtain rt s0 where tag_eq: "tag = (rt, s0)" by (cases tag)
  have st0: "step_ok self s0"
    using tag_eq unfolding tag_def
    by (auto simp add: step_ok_refl warn_step split: if_splits sum.splits option.splits znode.splits)
  note run1 = run [unfolded read_dataset_def, simplified miss option.case, folded tag_def, unfolded tag_eq]
  show ?thesis
  proof (cases rt)
    case (Inl e)
    with run1 have "r = Inl e" "self1 = s0" by simp_all
    with st0 show ?thesis by (simp add: outcome_ok_error)
  next
    case (Inr dtype)
    note dt = Inr
    show ?thesis
    proof (cases "read_attrs rd lib s0 z")
      case None
      with run1 dt show ?thesis by simp
    next
      case (Some res)
      obtain ra s2 where res: "res = (ra, s2)" by (cases res)
      note at = read_attrs_ok [OF rd Some [unfolded res]]
      then have st2: "step_ok self s2" using st0 by (blast intro: step_ok_trans)
      show ?thesis
      proof (cases ra)
        case (Inl e)
        with run1 dt Some res have "r = Inl e" "self1 = s2" by simp_all
        with st2 show ?thesis by (simp add: outcome_ok_error)
      next
        case (Inr attributes)
        note attrs = Inr
        have free: "\<forall>k \<in> set reserve_attribute. k \<notin> set (map fst attributes)"
          using at attrs by simp
        show ?thesis
        proof (cases "\<exists>a sh ch d content. lookup_node s2 z = Some (ZArray a sh ch d content)")
          case False
          with run1 dt Some res attrs have "r = Inl (AttributeError ''shape'')" "self1 = s2"
            by (auto split: option.splits znode.splits)
          with st2 show ?thesis by (simp add: outcome_ok_error)
        next
          case True
          then obtain a sh ch d content where node: "lookup_node s2 z = Some (ZArray a sh ch d content)"
            by blast
          show ?thesis
          proof (cases "read_data dtype z content")
            case (Inl e)
            with run1 dt Some res attrs node have "r = Inl e" "self1 = s2" by simp_all
            with st2 show ?thesis by (simp add: outcome_ok_error)
          next
            case (Inr data)
            note data = Inr
            show ?thesis
            proof (cases "get_zarr_parent_path lib z")
              case None
              with run1 dt \<open>read_attrs rd lib s0 z = Some res\<close> res attrs node data
              show ?thesis by (simp add: Let_def)
            next
              case (Some location)
              let ?name1 = "case name of None \<Rightarrow> basename (zarr_name z) | Some n \<Rightarrow> n"
              let ?h = "BHead (io_next_id s2) ?name1 (Some location) (Some (io_source s2)) None []"
              let ?ret = "DatasetBuilder ?h attributes data (dtype_of_tag dtype)"
              let ?s3 = "s2\<lparr>io_next_id := Suc (io_next_id s2)\<rparr>"
              from run1 dt \<open>read_attrs rd lib s0 z = Some res\<close> res attrs node data Some
              have fin: "r = Inr ?ret" "self1 = set_built lib z ?ret (set_written ?ret ?s3)"
                by (simp_all add: Let_def)
              have rf: "reserved_free ?ret" using free by (simp add: reserved_free_def)
              have "step_ok s2 self1"
                unfolding fin using next_id_step set_written_step set_built_step [OF rf]
                by (blast intro: step_ok_trans)
              with st2 have "step_ok self self1" by (blast intro: step_ok_trans)
              with fin rf show ?thesis
                by (simp add: outcome_ok_def set_built_registered)
            qed
          qed
        qed
      qed
    qed
  qed
qed

lemma read_node_sound: "sound lib (read_node lib depth)"
proof (induction depth)
  case 0
  show ?case by (simp add: sound_iff outcome_ok_error step_ok_refl)
next
  case (Suc depth)
  show ?case
    unfolding sound_iff
  proof (intro allI impI)
    fix w self z name r self1
    assume "read_node lib (Suc depth) w self z name = Some (r, self1)"
    then show "outcome_ok lib self z r self1"
      using read_group_ok [OF Suc] read_dataset_ok [OF Suc]
      by (cases w) auto
  qed
qed

subsection \<open>Reading\<close>

lemmas read_defs = read_group_def read_dataset_def read_attrs_def read_links_def read_target_def
  get_built_def set_built_def built_key_def zarr_path_str_def zarr_name_def
  get_zarr_parent_path_def get_zarr_paths_def is_group_def child_nodes_def
  reserve_attribute_def is_tagged_dict_def value_of_tagged_def dict_get_def
  read_data_def dtype_of_tag_def object_id_of_def set_written_def warn_def
  read_builder_def missing_tag_warning_def


lemma example_data_read: "read_node example_os 1 ReadDataset example_reader example_data (Some ''data'') =
   Some (Inr (DatasetBuilder (BHead 0 ''data'' (Some ''/grp'') (Some ''/data/a.zarr'') None [])
            [(''unit'', AVal (PStr ''mV''))] (Unwrapped (Data (ArrayData example_data))) (DStr ''int32'')),
      example_reader\<lparr>io_built := [(''/data/a.zarr/grp/data'',
          DatasetBuilder (BHead 0 ''data'' (Some ''/grp'') (Some ''/data/a.zarr'') None [])
            [(''unit'', AVal (PStr ''mV''))] (Unwrapped (Data (ArrayData example_data))) (DStr ''int32''))],
        io_written := [0],
        io_next_id := 1\<rparr>)"
  by (simp add: read_defs store_defs example_defs find_filepath.simps str_of_def Let_def
      replace_backslash_def)

text \<open>
  C9. The attributes of a builder that a read returns hold neither \<^verbatim>\<open>zarr_dtype\<close> nor
  \<^verbatim>\<open>zarr_link\<close>: \<^verbatim>\<open>__read_attrs\<close> leaves the reserved keys out of the dict it returns, and
  \<^verbatim>\<open>__read_group\<close> and \<^verbatim>\<open>__read_dataset\<close> return a builder with that dict or a builder of the
  cache, which holds only builders of earlier reads (the cache of a new session is empty).
\<close>

theorem read_attributes_hide_reserved_keys:
  "(read_attrs (read_node lib depth) lib self zarr_obj = Some (Inr attrs, self2) \<longrightarrow>
      ''zarr_dtype'' \<notin> set (map fst attrs) \<and> ''zarr_link'' \<notin> set (map fst attrs))
   \<and> (cache_ok self \<and> read_node lib depth w self zarr_obj name = Some (Inr b, self1) \<longrightarrow>
      ''zarr_dtype'' \<notin> set (map fst (attributes_of b))
      \<and> ''zarr_link'' \<notin> set (map fst (attributes_of b))
      \<and> cache_ok self1)"
proof -
  note snd = read_node_sound [of lib depth]
  have A: "read_attrs (read_node lib depth) lib self zarr_obj = Some (Inr attrs, self2) \<Longrightarrow>
      ''zarr_dtype'' \<notin> set (map fst attrs) \<and> ''zarr_link'' \<notin> set (map fst attrs)"
    using read_attrs_ok [OF snd, of self zarr_obj "Inr attrs" self2]
    by (simp add: reserve_attribute_def)
  have B: "cache_ok self \<Longrightarrow> read_node lib depth w self zarr_obj name = Some (Inr b, self1) \<Longrightarrow>
      ''zarr_dtype'' \<notin> set (map fst (attributes_of b))
      \<and> ''zarr_link'' \<notin> set (map fst (attributes_of b)) \<and> cache_ok self1"
    using sound_free [OF snd, of w self zarr_obj name b self1]
      sound_step [OF snd, of w self zarr_obj name "Inr b" self1]
    by (simp add: reserved_free_def reserve_attribute_def step_ok_def)
  from A B show ?thesis by blast
qed

theorem read_attributes_hide_reserved_keys_witness:
  "cache_ok example_reader
   \<and> (case read_node example_os 1 ReadDataset example_reader example_data (Some ''data'') of
        Some (Inr b, self1) \<Rightarrow>
          map fst (attributes_of b) = [''unit''] \<and> ''zarr_dtype'' \<notin> set (map fst (attributes_of b))
          \<and> cache_ok self1
      | _ \<Rightarrow> False)"
proof -
  have c: "cache_ok example_reader" by (simp add: cache_ok_def example_reader_def)
  from read_attributes_hide_reserved_keys [of example_os 1 example_reader example_data _ _
      ReadDataset "Some ''data''"] c example_data_read
  show ?thesis by simp
qed












subsection \<open>Writing a builder that is written\<close>

text \<open>
  Every step of \<^verbatim>\<open>write_attributes\<close> assigns attributes only; a dataset or a link that is
  written is skipped; so a group whose whole tree is written is traversed with no other call
  on the store than assignments of attributes.
\<close>

lemma attrs_only_refl: "attrs_only self self"
  by (simp add: attrs_only_def)

lemma attrs_only_iff:
  "attrs_only a b = (io_written b = io_written a \<and>
     (\<forall>obj. map_option without_attrs (lookup_node b obj) = map_option without_attrs (lookup_node a obj)) \<and>
     (\<exists>cs. io_calls b = io_calls a @ cs \<and> list_all is_set_attr cs))"
proof
  assume h: "attrs_only a b"
  then have "io_calls b = io_calls a @ drop (length (io_calls a)) (io_calls b)"
    unfolding attrs_only_def by (metis append_take_drop_id)
  with h show "io_written b = io_written a \<and>
     (\<forall>obj. map_option without_attrs (lookup_node b obj) = map_option without_attrs (lookup_node a obj)) \<and>
     (\<exists>cs. io_calls b = io_calls a @ cs \<and> list_all is_set_attr cs)"
    unfolding attrs_only_def by blast
next
  assume "io_written b = io_written a \<and>
     (\<forall>obj. map_option without_attrs (lookup_node b obj) = map_option without_attrs (lookup_node a obj)) \<and>
     (\<exists>cs. io_calls b = io_calls a @ cs \<and> list_all is_set_attr cs)"
  then show "attrs_only a b" unfolding attrs_only_def by auto
qed

lemma attrs_only_trans: "attrs_only a b \<Longrightarrow> attrs_only b c \<Longrightarrow> attrs_only a c"
  unfolding attrs_only_iff by auto

lemma lookup_update_strip:
  "lookup_node self obj = Some n \<Longrightarrow> without_attrs n1 = without_attrs n \<Longrightarrow>
     map_option without_attrs (lookup_node (update_node obj n1 self) z)
       = map_option without_attrs (lookup_node self z)"
  by (auto simp add: lookup_node_def update_node_def AList.update_conv' split: option.splits)

lemma without_with: "without_attrs (with_attrs n a) = without_attrs n"
  by (cases n) (simp_all add: without_attrs_def)

lemma update_node_keeps:
  "io_written (update_node obj n self) = io_written self \<and> io_calls (update_node obj n self) = io_calls self"
  by (simp add: update_node_def split: option.splits)

lemma lookup_node_calls: "lookup_node (self\<lparr>io_calls := c\<rparr>) z = lookup_node self z"
  by (simp add: lookup_node_def)

lemma attrs_set_attrs_only: "attrs_set obj key v self = (r, self1) \<Longrightarrow> attrs_only self self1"
  unfolding attrs_set_def
  by (auto simp add: attrs_only_def log_call_def lookup_update_strip without_with is_set_attr_def
      update_node_keeps lookup_node_calls split: option.splits)

lemma get_ref_attrs_only: "get_ref lib self x es = (r, self1) \<Longrightarrow> attrs_only self self1"
  by (drule get_ref_keeps) (simp add: attrs_only_def lookup_node_def)

lemma attribute_ref_attrs_only: "attribute_ref lib self x es = (r, self1) \<Longrightarrow> attrs_only self self1"
  by (drule attribute_ref_keeps) (simp add: attrs_only_def lookup_node_def)

lemma write_sequence_attribute_attrs_only:
  "write_sequence_attribute lib obj key items tmp self = (r, self1) \<Longrightarrow> attrs_only self self1"
  unfolding write_sequence_attribute_def
  by (auto split: prod.splits sum.splits error.splits option.splits
      dest!: attrs_set_attrs_only intro: attrs_only_trans)

lemma write_scalar_attribute_attrs_only:
  "write_scalar_attribute lib obj key v self = (r, self1) \<Longrightarrow> attrs_only self self1"
  unfolding write_scalar_attribute_def
  by (auto split: prod.splits sum.splits error.splits option.splits
      dest!: attrs_set_attrs_only intro: attrs_only_trans)

lemma write_attribute_attrs_only:
  "write_attribute lib obj es kv self = (r, self1) \<Longrightarrow> attrs_only self self1"
  by (induction lib obj es kv self rule: write_attribute.induct)
     (auto split: prod.splits sum.splits
      dest!: attrs_set_attrs_only attribute_ref_attrs_only write_sequence_attribute_attrs_only
        write_scalar_attribute_attrs_only
      intro: attrs_only_trans)

lemma write_attributes_attrs_only:
  "write_attributes lib self obj attributes es = (r, self1) \<Longrightarrow> attrs_only self self1"
proof (induction attributes arbitrary: self)
  case Nil
  then show ?case by (simp add: attrs_only_refl)
next
  case (Cons kv attributes)
  obtain a self0 where step: "write_attribute lib obj es kv self = (a, self0)"
    by (cases "write_attribute lib obj es kv self")
  note s0 = write_attribute_attrs_only [OF step]
  show ?case
  proof (cases a)
    case (Inl e)
    then show ?thesis using Cons.prems step s0 by simp
  next
    case (Inr u)
    then have "write_attributes lib self0 obj attributes es = (r, self1)"
      using Cons.prems step by simp
    from Cons.IH [OF this] s0 show ?thesis by (rule attrs_only_trans [rotated])
  qed
qed

lemma ensure_queue_attrs_only: "attrs_only self (ensure_queue e self)"
  by (simp add: attrs_only_def ensure_queue_def lookup_node_def)

lemma attrs_only_written: "attrs_only a b \<Longrightarrow> io_written b = io_written a"
  by (simp add: attrs_only_def)

lemma write_dataset_written:
  "is_group self parent \<Longrightarrow> get_written self (DatasetBuilder h a d t) \<Longrightarrow>
     write_dataset lib load self parent (DatasetBuilder h a d t) link_data exhaust_dci export_source
       = (Inr None, ensure_queue exhaust_dci self)"
  by (simp add: write_dataset_def Let_def get_written_def ensure_queue_def)

lemma write_link_written:
  "is_group self parent \<Longrightarrow> get_written self (LinkBuilder h t) \<Longrightarrow>
     write_link lib self parent (LinkBuilder h t) = (Inr (), self)"
  by (simp add: write_link_def)

lemma write_dataset_written_step:
  "bid (head_of b) \<in> set (io_written self) \<Longrightarrow>
     write_dataset lib load self parent b link_data exhaust_dci export_source = (r, self1) \<Longrightarrow>
     attrs_only self self1"
  by (cases b)
     (auto simp add: write_dataset_def Let_def get_written_def ensure_queue_def attrs_only_def
        lookup_node_def split: if_splits)

lemma write_link_written_step:
  "bid (head_of b) \<in> set (io_written self) \<Longrightarrow> write_link lib self parent b = (r, self1) \<Longrightarrow>
     attrs_only self self1"
  by (cases b) (auto simp add: write_link_def get_written_def attrs_only_refl split: if_splits)

lemma write_datasets_written:
  "\<forall>b \<in> set bs. bid (head_of b) \<in> set (io_written self) \<Longrightarrow>
     write_datasets lib load self parent bs link_data exhaust_dci export_source = (r, self1) \<Longrightarrow>
     attrs_only self self1"
proof (induction bs arbitrary: self)
  case Nil
  then show ?case by (simp add: attrs_only_refl)
next
  case (Cons b bs)
  obtain a self0 where step:
    "write_dataset lib load self parent b link_data exhaust_dci export_source = (a, self0)"
    by (cases "write_dataset lib load self parent b link_data exhaust_dci export_source")
  have s0: "attrs_only self self0"
    using write_dataset_written_step [OF _ step] Cons.prems(1) by simp
  show ?case
  proof (cases a)
    case (Inl e)
    then show ?thesis using Cons.prems step s0 by simp
  next
    case (Inr u)
    then have run: "write_datasets lib load self0 parent bs link_data exhaust_dci export_source = (r, self1)"
      using Cons.prems step by simp
    have "\<forall>b \<in> set bs. bid (head_of b) \<in> set (io_written self0)"
      using Cons.prems(1) attrs_only_written [OF s0] by simp
    from Cons.IH [OF this run] s0 show ?thesis by (rule attrs_only_trans [rotated])
  qed
qed

lemma write_links_written:
  "\<forall>b \<in> set bs. bid (head_of b) \<in> set (io_written self) \<Longrightarrow>
     write_links lib self parent bs = (r, self1) \<Longrightarrow> attrs_only self self1"
proof (induction bs arbitrary: self)
  case Nil
  then show ?case by (simp add: attrs_only_refl)
next
  case (Cons b bs)
  obtain a self0 where step: "write_link lib self parent b = (a, self0)"
    by (cases "write_link lib self parent b")
  have s0: "attrs_only self self0"
    using write_link_written_step [OF _ step] Cons.prems(1) by simp
  show ?case
  proof (cases a)
    case (Inl e)
    then show ?thesis using Cons.prems step s0 by simp
  next
    case (Inr u)
    then have run: "write_links lib self0 parent bs = (r, self1)"
      using Cons.prems step by simp
    have "\<forall>b \<in> set bs. bid (head_of b) \<in> set (io_written self0)"
      using Cons.prems(1) attrs_only_written [OF s0] by simp
    from Cons.IH [OF this run] s0 show ?thesis by (rule attrs_only_trans [rotated])
  qed
qed

lemma write_subgroups_written:
  assumes each: "\<And>b self parent r self1. b \<in> set gs \<Longrightarrow> set (tree_ids b) \<subseteq> set (io_written self) \<Longrightarrow>
      write_group lib load self parent b link_data exhaust_dci None = (r, self1) \<Longrightarrow> attrs_only self self1"
    and "\<forall>b \<in> set gs. set (tree_ids b) \<subseteq> set (io_written self)"
    and "write_subgroups lib load self parent gs link_data exhaust_dci = (r, self1)"
  shows "attrs_only self self1"
  using assms
proof (induction gs arbitrary: self)
  case Nil
  then show ?case by (simp add: attrs_only_refl)
next
  case (Cons b gs)
  obtain a self0 where step: "write_group lib load self parent b link_data exhaust_dci None = (a, self0)"
    by (cases "write_group lib load self parent b link_data exhaust_dci None")
  have s0: "attrs_only self self0"
    using Cons.prems(1) [OF _ _ step] Cons.prems(2) by simp
  show ?case
  proof (cases a)
    case (Inl e)
    then show ?thesis using Cons.prems(3) step s0 by simp
  next
    case (Inr u)
    then have run: "write_subgroups lib load self0 parent gs link_data exhaust_dci = (r, self1)"
      using Cons.prems(3) step by simp
    have w: "\<forall>b \<in> set gs. set (tree_ids b) \<subseteq> set (io_written self0)"
      using Cons.prems(2) attrs_only_written [OF s0] by simp
    have "attrs_only self0 self1"
      by (rule Cons.IH [OF _ w run]) (rule Cons.prems(1), auto)
    with s0 show ?thesis by (rule attrs_only_trans)
  qed
qed

lemma write_group_written:
  "set (tree_ids g) \<subseteq> set (io_written self) \<Longrightarrow>
     write_group lib load self parent g link_data exhaust_dci export_source = (r, self1) \<Longrightarrow>
     attrs_only self self1"
proof (induction g arbitrary: self parent r self1 export_source)
  case (GroupBuilder h attributes gs ds ls)
  let ?g = "GroupBuilder h attributes gs ds ls"
  show ?case
  proof (cases "is_group self parent")
    case False
    then show ?thesis using GroupBuilder.prems by (simp add: attrs_only_refl)
  next
    case True
    have wr: "get_written self ?g" using GroupBuilder.prems(1) by (simp add: get_written_def)
    show ?thesis
    proof (cases "getitem_name self parent (b_name h)")
      case (Inl e)
      then show ?thesis using GroupBuilder.prems True wr by (simp add: attrs_only_refl)
    next
      case (Inr grp)
      obtain a2 self2 where s2: "write_subgroups lib load self grp gs link_data exhaust_dci = (a2, self2)"
        by (cases "write_subgroups lib load self grp gs link_data exhaust_dci")
      have wg: "\<forall>b \<in> set gs. set (tree_ids b) \<subseteq> set (io_written self)"
        using GroupBuilder.prems(1) by auto
      have o2: "attrs_only self self2"
        by (rule write_subgroups_written [OF _ wg s2]) (rule GroupBuilder.IH(1), auto)
      show ?thesis
      proof (cases a2)
        case (Inl e)
        then show ?thesis using GroupBuilder.prems(2) True wr Inr s2 o2 by simp
      next
        case u2: (Inr u)
        obtain a3 self3 where s3:
          "write_datasets lib load self2 grp ds link_data exhaust_dci export_source = (a3, self3)"
          by (cases "write_datasets lib load self2 grp ds link_data exhaust_dci export_source")
        have "\<forall>b \<in> set ds. bid (head_of b) \<in> set (io_written self2)"
          using GroupBuilder.prems(1) attrs_only_written [OF o2] by auto
        from write_datasets_written [OF this s3] have o3: "attrs_only self self3"
          using o2 by (rule attrs_only_trans [rotated])
        show ?thesis
        proof (cases a3)
          case (Inl e)
          then show ?thesis using GroupBuilder.prems(2) True wr Inr s2 u2 s3 o3 by simp
        next
          case u3: (Inr u)
          obtain a4 self4 where s4: "write_links lib self3 grp ls = (a4, self4)"
            by (cases "write_links lib self3 grp ls")
          have "\<forall>b \<in> set ls. bid (head_of b) \<in> set (io_written self3)"
            using GroupBuilder.prems(1) attrs_only_written [OF o3] by auto
          from write_links_written [OF this s4] have o4: "attrs_only self self4"
            using o3 by (rule attrs_only_trans [rotated])
          show ?thesis
          proof (cases a4)
            case (Inl e)
            then show ?thesis using GroupBuilder.prems(2) True wr Inr s2 u2 s3 u3 s4 o4 by simp
          next
            case u4: (Inr u)
            obtain a5 self5 where s5: "write_attributes lib self4 grp attributes None = (a5, self5)"
              by (cases "write_attributes lib self4 grp attributes None")
            from write_attributes_attrs_only [OF s5] have o5: "attrs_only self self5"
              using o4 by (rule attrs_only_trans [rotated])
            have "set_written ?g self5 = self5"
              using GroupBuilder.prems(1) attrs_only_written [OF o5] by (simp add: set_written_def)
            then show ?thesis
              using GroupBuilder.prems(2) True wr Inr s2 u2 s3 u3 s4 u4 s5 o5
              by (cases a5) simp_all
          qed
        qed
      qed
    qed
  qed
next
  case (DatasetBuilder h a d t)
  then show ?case by (simp add: attrs_only_refl)
next
  case (LinkBuilder h t)
  then show ?case by (simp add: attrs_only_refl)
qed

lemma written_once_facts:
  "io_written written_once = [2, 4, 3] \<and> is_group written_once example_root
     \<and> io_dci_queue written_once = Some []"
  by code_simp

text \<open>
  C10. For a \<^verbatim>\<open>DatasetBuilder\<close> already marked written, \<^verbatim>\<open>write_dataset\<close> (called with a group as
  parent, as its signature demands) returns \<^verbatim>\<open>None\<close> and leaves every store as it is: no node
  is created or modified, no call reaches zarr, and the written flags stay. (The call may
  only create the session's queue of iterators, when \<^verbatim>\<open>exhaust_dci\<close> is set and there is none.)
\<close>

theorem write_dataset_written_returns_none:
  assumes "is_group self parent" and "get_written self (DatasetBuilder h a d t)"
  shows "fst (write_dataset lib load self parent (DatasetBuilder h a d t) link_data exhaust_dci export_source)
           = Inr None
     \<and> io_stores (snd (write_dataset lib load self parent (DatasetBuilder h a d t) link_data exhaust_dci
           export_source)) = io_stores self
     \<and> io_calls (snd (write_dataset lib load self parent (DatasetBuilder h a d t) link_data exhaust_dci
           export_source)) = io_calls self
     \<and> io_written (snd (write_dataset lib load self parent (DatasetBuilder h a d t) link_data exhaust_dci
           export_source)) = io_written self"
  using write_dataset_written [OF assms] by (simp add: ensure_queue_def)

text \<open>
  The theorem on the dataset \<^verbatim>\<open>/data\<close> of the example, after it has been written once.
\<close>

theorem write_dataset_written_returns_none_witness:
  "fst (write_dataset example_os example_load written_once example_root example_dataset True True None)
           = Inr None
     \<and> io_stores (snd (write_dataset example_os example_load written_once example_root example_dataset
           True True None)) = io_stores written_once
     \<and> io_calls (snd (write_dataset example_os example_load written_once example_root example_dataset
           True True None)) = io_calls written_once
     \<and> io_written (snd (write_dataset example_os example_load written_once example_root example_dataset
           True True None)) = io_written written_once"
proof -
  have g: "is_group written_once example_root"
    using written_once_facts by simp
  have w: "get_written written_once (DatasetBuilder
       (BHead 4 ''data'' None (Some ''/data/a.zarr'') (Some ''id-4'') [(''root'', Some ''id-1'')])
       [(''unit'', AVal (PStr ''mV''))] (Unwrapped (Data (Plain (PList [PInt 1, PInt 2])))) (DStr ''int32''))"
    using written_once_facts by (simp add: get_written_def)
  show ?thesis
    unfolding example_dataset_def by (rule write_dataset_written_returns_none [OF g w])
qed

text \<open>
  C1 (amended). Writing a builder that is marked written: \<^verbatim>\<open>write_link\<close> changes nothing (no
  second entry in the parent's \<^verbatim>\<open>zarr_link\<close>); \<^verbatim>\<open>write_dataset\<close> returns \<^verbatim>\<open>None\<close> and creates or
  modifies no node; \<^verbatim>\<open>write_group\<close>, for a group whose subgroups, datasets and links are all
  written, creates no node and changes no shape, dtype or content: it takes the node that is
  there, traverses the members, and assigns the attributes of the groups again.
\<close>

theorem second_write_skips_links_and_datasets:
  "(is_group self parent \<and> get_written self (LinkBuilder hl t)
      \<longrightarrow> write_link lib self parent (LinkBuilder hl t) = (Inr (), self))
   \<and> (is_group self parent \<and> get_written self (DatasetBuilder hdat a d ty)
      \<longrightarrow> write_dataset lib load self parent (DatasetBuilder hdat a d ty) link_data exhaust_dci export_source
            = (Inr None, ensure_queue exhaust_dci self))
   \<and> (set (tree_ids g) \<subseteq> set (io_written self)
      \<longrightarrow> attrs_only self (snd (write_group lib load self parent g link_data exhaust_dci export_source)))"
proof (intro conjI impI)
  assume "is_group self parent \<and> get_written self (LinkBuilder hl t)"
  then show "write_link lib self parent (LinkBuilder hl t) = (Inr (), self)"
    by (simp add: write_link_written)
next
  assume "is_group self parent \<and> get_written self (DatasetBuilder hdat a d ty)"
  then show "write_dataset lib load self parent (DatasetBuilder hdat a d ty) link_data exhaust_dci export_source
      = (Inr None, ensure_queue exhaust_dci self)"
    by (simp add: write_dataset_written)
next
  assume w: "set (tree_ids g) \<subseteq> set (io_written self)"
  obtain r self1 where run:
    "write_group lib load self parent g link_data exhaust_dci export_source = (r, self1)"
    by (cases "write_group lib load self parent g link_data exhaust_dci export_source")
  from write_group_written [OF w run] run
  show "attrs_only self (snd (write_group lib load self parent g link_data exhaust_dci export_source))"
    by simp
qed

text \<open>
  The theorem on the link, the dataset and the group of the example, after each has been
  written once.
\<close>

theorem second_write_skips_links_and_datasets_witness:
  "write_link example_os written_once example_root example_link_builder = (Inr (), written_once)
   \<and> write_dataset example_os example_load written_once example_root example_dataset True True None
        = (Inr None, written_once)
   \<and> attrs_only written_once
        (snd (write_group example_os example_load written_once example_root example_group True True None))"
proof -
  have q: "ensure_queue True written_once = written_once"
    using written_once_facts by (simp add: ensure_queue_def)
  show ?thesis
    using second_write_skips_links_and_datasets [where self = written_once and parent = example_root
        and lib = example_os and load = example_load and link_data = True and exhaust_dci = True
        and export_source = None and g = example_group
        and hl = "BHead 3 ''lnk'' None (Some ''/data/a.zarr'') None [(''root'', Some ''id-1'')]"
        and t = group_head
        and hdat = "BHead 4 ''data'' None (Some ''/data/a.zarr'') (Some ''id-4'') [(''root'', Some ''id-1'')]"
        and a = "[(''unit'', AVal (PStr ''mV''))]"
        and d = "Unwrapped (Data (Plain (PList [PInt 1, PInt 2])))" and ty = "DStr ''int32''"]
      written_once_facts q
    by (simp add: example_link_builder_def example_dataset_def example_group_def group_head_def
        get_written_def)
qed

text \<open>
  The claim as the spec states it (no duplicate attribute writes for a written group) fails on
  the example: the group \<^verbatim>\<open>/grp\<close> is marked written, its attribute \<^verbatim>\<open>note\<close> has been assigned, and
  writing the group again assigns it once more.
\<close>

theorem second_write_of_group_repeats_attributes:
  "get_written written_once example_group
   \<and> is_group written_once example_root
   \<and> SetAttr example_grp ''note'' (PStr ''hello'') \<in> set (io_calls written_once)
   \<and> io_calls (snd (write_group example_os example_load written_once example_root example_group
        True True None))
      = io_calls written_once @ [SetAttr example_grp ''note'' (PStr ''hello'')]"
  by code_simp

text \<open>
  C3. \<^verbatim>\<open>write_builder\<close> on a root builder that holds the group \<^verbatim>\<open>grp\<close> and, directly, the link
  \<^verbatim>\<open>lnk\<close>: the call succeeds, the group and its attribute are written and the queue is
  drained, but the link is not written: the root has no \<^verbatim>\<open>zarr_link\<close> and the link builder is
  not marked written. \<^verbatim>\<open>write_group\<close> writes the same link when a group other than the root
  holds it.
\<close>

theorem write_builder_leaves_root_links_unwritten:
  "fst (write_builder example_os example_load example_writer linked_root True True None False) = Inr ()
   \<and> attr_at (snd (write_builder example_os example_load example_writer linked_root True True None False))
        example_root ''zarr_link'' = None
   \<and> get_written (snd (write_builder example_os example_load example_writer linked_root True True None False))
        example_link_builder = False
   \<and> io_calls (snd (write_builder example_os example_load example_writer linked_root True True None False))
      = [RequireGroup example_root ''grp'', SetAttr example_grp ''note'' (PStr ''hello''), ExhaustQueue]
   \<and> attr_at (snd (write_group example_os example_load example_writer example_root holder_group True True None))
        example_top ''zarr_link''
      = Some (PList [PDict [(''source'', PStr ''.''), (''path'', PStr ''/grp''), (''name'', PStr ''lnk'')]])
   \<and> get_written (snd (write_group example_os example_load example_writer example_root holder_group
        True True None)) example_link_builder"
  by code_simp

end
